(* ===== verification/Prelude.thy ===== *)
theory Prelude
  imports Main "HOL-Library.Stream"
begin

text \<open>
  Shared vocabulary of the SpySpeak development: the collections of facts the component
  theories feed, the types that name the model's states (paths, file systems, the random
  source), the Python exceptions the code can raise, a bind for computations that may raise
  one, and the generic lemmas on lists and streams that the component proofs share.
\<close>

named_theorems py_defs "definitions of the Python builtins unfolded when evaluating the model"
named_theorems model_defs "definitions of the repository's functions unfolded on concrete inputs"
named_theorems spec_defs "definitions of the specifications the model is compared with"
named_theorems sh_intros "introduction rules that carry a relation between states through statements"

section \<open>Python exceptions and computations that may raise them\<close>

text \<open>
  A Python function that may raise returns a value of \<open>'a py\<close>: \<open>Inl\<close> is the
  exception, \<open>Inr\<close> the result. \<open>SystemExit\<close> carries the exit status and the
  message written to stderr just before \<^verbatim>\<open>sys.exit\<close>; \<open>OSError\<close> stands for any
  failure of \<^verbatim>\<open>open\<close> other than a missing file, with its \<^verbatim>\<open>str\<close>; \<open>EOFError\<close> is what \<^verbatim>\<open>input()\<close>
  raises at the end of the input.
\<close>

datatype py_exc =
    IndexError
  | ValueError string
  | OSError string
  | SystemExit int string
  | EOFError

type_synonym 'a py = "py_exc + 'a"

definition py_bind :: "'a py \<Rightarrow> ('a \<Rightarrow> 'b py) \<Rightarrow> 'b py" where
  "py_bind m f = (case m of Inl e \<Rightarrow> Inl e | Inr a \<Rightarrow> f a)"

section \<open>The environment: paths, files, the random source\<close>

type_synonym path = string

text \<open>
  A file is either readable text or present but unreadable (permissions, a directory, a
  decoding error): \<^verbatim>\<open>open\<close> raises on it. A path with no entry does not exist.
\<close>

datatype fentry = Text string | Unreadable

type_synonym fs = "path \<rightharpoonup> fentry"

text \<open>
  The random source is an infinite stream of draws. \<^verbatim>\<open>random.choice\<close> and
  \<^verbatim>\<open>random.randint\<close> each consume one draw; any uniform generator is one such stream,
  and a theorem quantified over all streams holds whatever the generator returns.
\<close>

type_synonym rng = "nat stream"

text \<open>
  What a run of a shell changes: the text written to standard output and to standard error,
  and the file system. \<^verbatim>\<open>print\<close> and \<^verbatim>\<open>sys.stderr.write\<close> append to the two streams.
\<close>

record io =
  stdout :: string
  stderr :: string
  files :: fs

definition write_out :: "string \<Rightarrow> io \<Rightarrow> io" where
  "write_out s io = io\<lparr>stdout := stdout io @ s\<rparr>"

definition write_err :: "string \<Rightarrow> io \<Rightarrow> io" where
  "write_err s io = io\<lparr>stderr := stderr io @ s\<rparr>"

text \<open>
  \<^verbatim>\<open>str(e)\<close> of the \<^verbatim>\<open>OSError\<close> raised by \<^verbatim>\<open>open\<close> on an unreadable or unwritable entry:
  the model's \<open>Unreadable\<close> entries are those a permission check refuses.
\<close>

definition os_error_str :: "path \<Rightarrow> string" where
  "os_error_str p = ''[Errno 13] Permission denied: '' @ [CHR 0x27] @ p @ [CHR 0x27]"

section \<open>Generic lemmas\<close>

lemma write_err_Nil [simp]: "write_err [] io = io"
  by (simp add: write_err_def)

lemma write_out_files [simp]: "files (write_out s io) = files io"
  by (simp add: write_out_def)

lemma write_err_files [simp]: "files (write_err s io) = files io"
  by (simp add: write_err_def)

lemma write_err_stdout [simp]: "stdout (write_err s io) = stdout io"
  by (simp add: write_err_def)

lemma write_out_stderr [simp]: "stderr (write_out s io) = stderr io"
  by (simp add: write_out_def)

lemma py_bind_Inr [simp]: "py_bind (Inr a) f = f a"
  by (simp add: py_bind_def)

lemma py_bind_Inl [simp]: "py_bind (Inl e) f = Inl e"
  by (simp add: py_bind_def)

lemma py_bind_eq_Inr:
  "py_bind m f = Inr b \<longleftrightarrow> (\<exists>a. m = Inr a \<and> f a = Inr b)"
  by (cases m) auto

lemma py_bind_eq_Inl:
  "py_bind m f = Inl e \<longleftrightarrow> m = Inl e \<or> (\<exists>a. m = Inr a \<and> f a = Inl e)"
  by (cases m) auto

lemma concat_map_singleton_eq: "concat (map (\<lambda>x. [f x]) xs) = map f xs"
  by (induction xs) auto

text \<open>List comprehensions with a guard, as the simplifier unfolds them, are filters.\<close>

lemma concat_map_if_singleton [simp]:
  "concat (map (\<lambda>x. if P x then [x] else []) xs) = filter P xs"
  by (induction xs) auto

lemma concat_map_if_singleton_map [simp]:
  "concat (map (\<lambda>x. if P x then [f x] else []) xs) = map f (filter P xs)"
  by (induction xs) auto

lemma filter_all_True: "\<forall>x \<in> set xs. P x \<Longrightarrow> filter P xs = xs"
  by (induction xs) auto

lemma count_list_append1 [simp]:
  "count_list (xs @ [y]) x = count_list xs x + (if x = y then 1 else 0)"
  by (induction xs) auto

lemma nth_mod_length_in_set: "xs \<noteq> [] \<Longrightarrow> xs ! (n mod length xs) \<in> set xs"
  by simp

lemma in_set_nth_mod:
  assumes "x \<in> set xs"
  shows "\<exists>n. xs ! (n mod length xs) = x"
proof -
  from assms obtain i where i: "i < length xs" "xs ! i = x"
    by (auto simp: in_set_conv_nth)
  then have "xs ! (i mod length xs) = x" by simp
  then show ?thesis by blast
qed

end
