(* ===== verification/Py_Str.thy ===== *)
theory Py_Str
  imports Prelude
begin

text \<open>
  The Python \<^verbatim>\<open>str\<close> operations the repository calls, as HOL functions on \<open>string\<close>
  (a list of \<open>char\<close>, the code points 0 to 255): \<^verbatim>\<open>isspace\<close>, \<^verbatim>\<open>strip\<close>,
  \<^verbatim>\<open>lower\<close>, \<^verbatim>\<open>upper\<close>, \<^verbatim>\<open>capitalize\<close>, \<^verbatim>\<open>split(sep)\<close> (which raises
  \<^verbatim>\<open>ValueError\<close> on an empty separator), \<^verbatim>\<open>split()\<close>, \<^verbatim>\<open>sep.join\<close>,
  \<^verbatim>\<open>str(n)\<close> and the line iteration of a file opened in text mode (universal newlines).
  Case mapping is Python's on ASCII letters; the letters of Latin-1 above 127 are left
  unchanged (Python would map them too), which the header records.
\<close>

section \<open>Characters\<close>

abbreviation LF :: char where "LF \<equiv> CHR 0x0A"
abbreviation CR :: char where "CR \<equiv> CHR 0x0D"

definition py_isspace :: "char \<Rightarrow> bool" where
  "py_isspace c \<longleftrightarrow>
     (let n = (of_char c :: nat) in
      (9 \<le> n \<and> n \<le> 13) \<or> (28 \<le> n \<and> n \<le> 32) \<or> n = 133 \<or> n = 160)"

definition is_upper_char :: "char \<Rightarrow> bool" where
  "is_upper_char c \<longleftrightarrow> 65 \<le> (of_char c :: nat) \<and> (of_char c :: nat) \<le> 90"

definition is_lower_char :: "char \<Rightarrow> bool" where
  "is_lower_char c \<longleftrightarrow> 97 \<le> (of_char c :: nat) \<and> (of_char c :: nat) \<le> 122"

text \<open>ASCII case flips bit 5 of the code.\<close>

fun lower_char :: "char \<Rightarrow> char" where
  "lower_char (Char b0 b1 b2 b3 b4 b5 b6 b7) =
     (if is_upper_char (Char b0 b1 b2 b3 b4 b5 b6 b7) then Char b0 b1 b2 b3 b4 True b6 b7
      else Char b0 b1 b2 b3 b4 b5 b6 b7)"

fun upper_char :: "char \<Rightarrow> char" where
  "upper_char (Char b0 b1 b2 b3 b4 b5 b6 b7) =
     (if is_lower_char (Char b0 b1 b2 b3 b4 b5 b6 b7) then Char b0 b1 b2 b3 b4 False b6 b7
      else Char b0 b1 b2 b3 b4 b5 b6 b7)"

section \<open>String methods\<close>

definition py_lower :: "string \<Rightarrow> string" where
  "py_lower s = map lower_char s"

definition py_upper :: "string \<Rightarrow> string" where
  "py_upper s = map upper_char s"

definition py_capitalize :: "string \<Rightarrow> string" where
  "py_capitalize s = (case s of [] \<Rightarrow> [] | c # cs \<Rightarrow> upper_char c # py_lower cs)"

definition py_strip :: "string \<Rightarrow> string" where
  "py_strip s = rev (dropWhile py_isspace (rev (dropWhile py_isspace s)))"

text \<open>
  \<^verbatim>\<open>s.split(sep)\<close> for a non-empty separator: cut at each occurrence, scanning left to
  right, keeping empty pieces.
\<close>

fun split_on :: "string \<Rightarrow> string \<Rightarrow> string list" where
  "split_on sep [] = [[]]"
| "split_on sep (c # cs) =
     (if sep \<noteq> [] \<and> take (length sep) (c # cs) = sep
      then [] # split_on sep (drop (length sep) (c # cs))
      else (let r = split_on sep cs in (c # hd r) # tl r))"

definition py_split :: "string \<Rightarrow> string \<Rightarrow> string list py" where
  "py_split sep s = (if sep = [] then Inl (ValueError ''empty separator'') else Inr (split_on sep s))"

text \<open>\<^verbatim>\<open>s.split()\<close>: the maximal runs of non-whitespace characters.\<close>

function split_ws :: "string \<Rightarrow> string list" where
  "split_ws s =
     (let t = dropWhile py_isspace s in
      if t = [] then []
      else takeWhile (\<lambda>c. \<not> py_isspace c) t # split_ws (dropWhile (\<lambda>c. \<not> py_isspace c) t))"
  by pat_completeness auto
termination
proof (relation "measure length")
  fix s t
  assume t: "t = dropWhile py_isspace s" and ne: "t \<noteq> []"
  from ne obtain c cs where tc: "t = c # cs" by (cases t) auto
  from t tc have "\<not> py_isspace c"
    by (metis dropWhile_eq_Cons_conv)
  with tc have "length (dropWhile (\<lambda>c. \<not> py_isspace c) t) < length t"
    using length_dropWhile_le [of _ cs] by (simp add: le_imp_less_Suc)
  moreover from t have "length t \<le> length s" by (simp add: length_dropWhile_le)
  ultimately show "(dropWhile (\<lambda>c. \<not> py_isspace c) t, s) \<in> measure length" by simp
qed simp

declare split_ws.simps [simp del]

fun py_join :: "string \<Rightarrow> string list \<Rightarrow> string" where
  "py_join sep [] = []"
| "py_join sep [w] = w"
| "py_join sep (w # ws) = w @ sep @ py_join sep ws"

section \<open>Numbers and files\<close>

fun py_str_nat :: "nat \<Rightarrow> string" where
  "py_str_nat n =
     (if n < 10 then [''0123456789'' ! n] else py_str_nat (n div 10) @ [''0123456789'' ! (n mod 10)])"

declare py_str_nat.simps [simp del]

definition py_str_int :: "int \<Rightarrow> string" where
  "py_str_int i = (if i < 0 then CHR ''-'' # py_str_nat (nat (- i)) else py_str_nat (nat i))"

text \<open>Universal newlines: \<^verbatim>\<open>\r\n\<close> and a lone \<^verbatim>\<open>\r\<close> are read as \<^verbatim>\<open>\n\<close>.\<close>

fun univ_nl :: "string \<Rightarrow> string" where
  "univ_nl [] = []"
| "univ_nl (c # cs) =
     (if c = CR then LF # univ_nl (if cs \<noteq> [] \<and> hd cs = LF then tl cs else cs)
      else c # univ_nl cs)"

text \<open>
  The lines a \<^verbatim>\<open>for line in file\<close> loop sees, without their terminators. Every use in the
  repository strips each line, and stripping removes the terminator, so the pieces between
  newlines give the same stripped lines (\<open>py_strip_append_LF\<close> below).
\<close>

definition file_lines :: "string \<Rightarrow> string list" where
  "file_lines s = split_on [LF] (univ_nl s)"

text \<open>Strings without letters (digits, punctuation) are fixed by every case mapping.\<close>

definition no_letters :: "string \<Rightarrow> bool" where
  "no_letters s \<longleftrightarrow> (\<forall>c \<in> set s. \<not> is_upper_char c \<and> \<not> is_lower_char c)"

text \<open>\<^verbatim>\<open>int(s)\<close> for base 10: surrounding whitespace, an optional sign, decimal digits with
  single underscores between them. The message quotes the argument as \<^verbatim>\<open>repr\<close> does for a
  string without quotes, backslashes or unprintable characters.\<close>

definition is_ascii_digit :: "char \<Rightarrow> bool" where
  "is_ascii_digit c \<longleftrightarrow> 48 \<le> (of_char c :: nat) \<and> (of_char c :: nat) \<le> 57"

fun underscores_ok :: "string \<Rightarrow> bool" where
  "underscores_ok [] = True"
| "underscores_ok [c] = is_ascii_digit c"
| "underscores_ok (c # d # r) =
     (if c = CHR ''_'' then is_ascii_digit d \<and> underscores_ok (d # r)
      else is_ascii_digit c \<and> underscores_ok (d # r))"

definition digits_ok :: "string \<Rightarrow> bool" where
  "digits_ok d \<longleftrightarrow> d \<noteq> [] \<and> is_ascii_digit (hd d) \<and> underscores_ok d"

definition digits_val :: "string \<Rightarrow> nat" where
  "digits_val d = foldl (\<lambda>n c. 10 * n + (of_char c - 48)) 0 (filter (\<lambda>c. c \<noteq> CHR ''_'') d)"

definition py_int :: "string \<Rightarrow> int py" where
  "py_int s =
     (let t = py_strip s;
          (neg, d) = (case t of
                        c # r \<Rightarrow> if c = CHR ''-'' then (True, r) else if c = CHR ''+'' then (False, r) else (False, t)
                      | [] \<Rightarrow> (False, [])) in
      if digits_ok d then Inr (if neg then - int (digits_val d) else int (digits_val d))
      else Inl (ValueError (''invalid literal for int() with base 10: '' @ [CHR 0x27] @ s @ [CHR 0x27])))"

text \<open>\<^verbatim>\<open>str.isdigit()\<close>: besides the ASCII digits, the superscripts one, two and three
  of Latin-1 are digits (and \<^verbatim>\<open>int\<close> rejects them).\<close>

definition py_isdigit :: "string \<Rightarrow> bool" where
  "py_isdigit s \<longleftrightarrow> s \<noteq> [] \<and>
     list_all (\<lambda>c. is_ascii_digit c \<or> c = CHR 0xB2 \<or> c = CHR 0xB3 \<or> c = CHR 0xB9) s"

lemmas py_str_defs [py_defs] =
  py_lower_def py_upper_def py_capitalize_def py_strip_def py_split_def py_str_int_def
  file_lines_def py_isspace_def is_upper_char_def is_lower_char_def

section \<open>Facts about the builtins\<close>

subsection \<open>Case mapping\<close>

text \<open>The code of a mapped character, by an exhaustive split on its eight bits.\<close>

lemma of_char_lower_char:
  "(of_char (lower_char c) :: nat) = (if is_upper_char c then of_char c + 32 else of_char c)"
proof (cases c)
  case (Char b0 b1 b2 b3 b4 b5 b6 b7)
  then show ?thesis
    by (cases b0; cases b1; cases b2; cases b3; cases b4; cases b5; cases b6; cases b7)
       (simp_all add: is_upper_char_def)
qed

lemma of_char_upper_char:
  "(of_char (upper_char c) :: nat) = (if is_lower_char c then of_char c - 32 else of_char c)"
proof (cases c)
  case (Char b0 b1 b2 b3 b4 b5 b6 b7)
  then show ?thesis
    by (cases b0; cases b1; cases b2; cases b3; cases b4; cases b5; cases b6; cases b7)
       (simp_all add: is_lower_char_def)
qed

lemma char_eqI_of_char: "(of_char c :: nat) = of_char d \<Longrightarrow> c = d"
  by simp

lemma lower_char_id [simp]: "\<not> is_upper_char c \<Longrightarrow> lower_char c = c"
  by (rule char_eqI_of_char) (simp add: of_char_lower_char)

lemma upper_char_id [simp]: "\<not> is_lower_char c \<Longrightarrow> upper_char c = c"
  by (rule char_eqI_of_char) (simp add: of_char_upper_char)

lemma not_upper_lower_char [simp]: "\<not> is_upper_char (lower_char c)"
  by (simp add: of_char_lower_char is_upper_char_def)

lemma not_lower_upper_char [simp]: "\<not> is_lower_char (upper_char c)"
  by (auto simp: of_char_upper_char is_lower_char_def)

lemma lower_char_idem [simp]: "lower_char (lower_char c) = lower_char c"
  by simp

lemma upper_char_idem [simp]: "upper_char (upper_char c) = upper_char c"
  by simp

lemma lower_upper_char [simp]: "lower_char (upper_char c) = lower_char c"
  by (rule char_eqI_of_char)
     (auto simp: of_char_lower_char of_char_upper_char is_upper_char_def is_lower_char_def)

lemma upper_lower_char [simp]: "upper_char (lower_char c) = upper_char c"
  by (rule char_eqI_of_char)
     (auto simp: of_char_lower_char of_char_upper_char is_upper_char_def is_lower_char_def)

lemma length_py_lower [simp]: "length (py_lower s) = length s"
  and length_py_upper [simp]: "length (py_upper s) = length s"
  and length_py_capitalize [simp]: "length (py_capitalize s) = length s"
  by (simp_all add: py_lower_def py_upper_def py_capitalize_def split: list.split)

lemma py_lower_idem [simp]: "py_lower (py_lower s) = py_lower s"
  and py_upper_idem [simp]: "py_upper (py_upper s) = py_upper s"
  and py_lower_upper [simp]: "py_lower (py_upper s) = py_lower s"
  and py_upper_lower [simp]: "py_upper (py_lower s) = py_upper s"
  by (simp_all add: py_lower_def py_upper_def comp_def)

lemma py_lower_append [simp]: "py_lower (s @ t) = py_lower s @ py_lower t"
  and py_upper_append [simp]: "py_upper (s @ t) = py_upper s @ py_upper t"
  by (simp_all add: py_lower_def py_upper_def)

lemma py_lower_no_upper: "c \<in> set (py_lower s) \<Longrightarrow> \<not> is_upper_char c"
  by (auto simp: py_lower_def)

lemma py_upper_no_lower: "c \<in> set (py_upper s) \<Longrightarrow> \<not> is_lower_char c"
  by (auto simp: py_upper_def)

lemma no_letters_case_id:
  assumes "no_letters s"
  shows "py_lower s = s" "py_upper s = s" "py_capitalize s = s"
  using assms
  by (auto simp: no_letters_def py_lower_def py_upper_def py_capitalize_def map_idI
           split: list.split)

lemma lower_char_eq_nonletter:
  assumes "lower_char c = d" "\<not> is_lower_char d" "\<not> is_upper_char d"
  shows "c = d"
proof (cases "is_upper_char c")
  case True
  then have "is_lower_char (lower_char c)"
    by (simp add: is_lower_char_def is_upper_char_def of_char_lower_char)
  with assms show ?thesis by simp
next
  case False
  with assms show ?thesis by simp
qed

lemma py_lower_eq_no_letters:
  assumes "py_lower s = d" "no_letters d"
  shows "s = d"
  using assms
proof (induction s arbitrary: d)
  case Nil
  then show ?case by (simp add: py_lower_def)
next
  case (Cons c cs)
  then obtain d0 ds where d: "d = d0 # ds" "lower_char c = d0" "py_lower cs = ds"
    by (auto simp: py_lower_def)
  with Cons.prems(2) have "no_letters ds" "\<not> is_lower_char d0" "\<not> is_upper_char d0"
    by (auto simp: no_letters_def)
  with d Cons.IH show ?case by (auto intro: lower_char_eq_nonletter)
qed

lemma py_lower_capitalize [simp]: "py_lower (py_capitalize s) = py_lower s"
  by (simp add: py_capitalize_def py_lower_def split: list.split)

lemma py_lower_py_join: "py_lower (py_join sep ws) = py_join (py_lower sep) (map py_lower ws)"
  by (induction sep ws rule: py_join.induct) (simp_all add: py_lower_def)

subsection \<open>Numbers\<close>

lemma no_letters_py_str_nat: "no_letters (py_str_nat n)"
proof (induction n rule: py_str_nat.induct)
  case (1 n)
  have digit: "no_letters [''0123456789'' ! k]" if "k < 10" for k
  proof -
    have "''0123456789'' ! k \<in> set ''0123456789''" using that by (simp del: set_simps)
    then show ?thesis by (auto simp: no_letters_def is_upper_char_def is_lower_char_def)
  qed
  show ?case
  proof (cases "n < 10")
    case True
    then show ?thesis by (simp add: py_str_nat.simps [of n] digit)
  next
    case False
    with "1.IH" have "no_letters (py_str_nat (n div 10))" by simp
    with False show ?thesis
      by (simp add: py_str_nat.simps [of n] no_letters_def digit [of "n mod 10", unfolded no_letters_def])
  qed
qed


text \<open>
  Evaluation rules for literals only: the recursive equation itself would unfold forever on
  a symbolic argument.
\<close>

lemma py_str_nat_0: "py_str_nat 0 = ''0''"
  and py_str_nat_1: "py_str_nat 1 = ''1''"
  and py_str_nat_numeral:
    "py_str_nat (numeral k) =
       (if numeral k < (10::nat) then [''0123456789'' ! numeral k]
        else py_str_nat (numeral k div 10) @ [''0123456789'' ! (numeral k mod 10)])"
  by (simp_all add: py_str_nat.simps)

lemmas py_str_nat_eval [py_defs] = py_str_nat_0 py_str_nat_1 py_str_nat_numeral

subsection \<open>Splitting and joining\<close>

lemma split_on_nonempty [simp]: "split_on sep s \<noteq> []"
  by (induction sep s rule: split_on.induct) (auto simp: Let_def)

text \<open>Joining the pieces of a split with the same separator gives the string back.\<close>

lemma py_join_Cons: "ws \<noteq> [] \<Longrightarrow> py_join sep (w # ws) = w @ sep @ py_join sep ws"
  by (cases ws) auto

lemma py_join_hd_Cons:
  "ws \<noteq> [] \<Longrightarrow> py_join sep ((c # hd ws) # tl ws) = c # py_join sep ws"
  by (cases ws; cases "tl ws") auto

lemma py_join_split_on: "sep \<noteq> [] \<Longrightarrow> py_join sep (split_on sep s) = s"
proof (induction sep s rule: split_on.induct)
  case (1 sep)
  then show ?case by simp
next
  case (2 sep c cs)
  show ?case
  proof (cases "take (length sep) (c # cs) = sep")
    case True
    let ?rest = "drop (length sep) (c # cs)"
    from True "2.prems" have "split_on sep (c # cs) = [] # split_on sep ?rest" by simp
    moreover from True "2.IH"(1) "2.prems" have "py_join sep (split_on sep ?rest) = ?rest"
      by blast
    ultimately have "py_join sep (split_on sep (c # cs)) = sep @ ?rest"
      by (simp add: py_join_Cons)
    also from True have "\<dots> = c # cs" by (metis append_take_drop_id)
    finally show ?thesis .
  next
    case False
    with "2.IH"(2) "2.prems" have IH: "py_join sep (split_on sep cs) = cs" by blast
    from False have "split_on sep (c # cs) = (c # hd (split_on sep cs)) # tl (split_on sep cs)"
      by (simp add: Let_def)
    with IH show ?thesis by (simp add: py_join_hd_Cons)
  qed
qed

lemma length_py_join_map:
  assumes "\<And>w. length (f w) = length w"
  shows "length (py_join sep (map f ws)) = length (py_join sep ws)"
  by (induction sep ws rule: py_join.induct) (simp_all add: assms)

subsection \<open>Stripping\<close>

lemma py_strip_append_LF: "py_strip (s @ [LF]) = py_strip s"
proof -
  have sp: "py_isspace LF" by (simp add: py_isspace_def)
  show ?thesis
  proof (cases "\<forall>x \<in> set s. py_isspace x")
    case True
    with sp have d1: "dropWhile py_isspace (s @ [LF]) = []" by (simp add: dropWhile_append)
    from True have d2: "dropWhile py_isspace s = []" by simp
    show ?thesis by (simp only: py_strip_def d1 d2)
  next
    case False
    from False have "dropWhile py_isspace (s @ [LF]) = dropWhile py_isspace s @ [LF]"
      by (simp add: dropWhile_append)
    with sp show ?thesis by (simp add: py_strip_def)
  qed
qed

text \<open>Stripping twice strips nothing more: what is left starts and ends with non-space.\<close>

lemma py_strip_idem [simp]: "py_strip (py_strip s) = py_strip s"
proof -
  define t where "t = dropWhile py_isspace s"
  define v where "v = dropWhile py_isspace (rev t)"
  have u: "py_strip s = rev v" by (simp add: py_strip_def t_def v_def)
  have tv: "t = rev v @ rev (takeWhile py_isspace (rev t))"
    by (metis v_def rev_append rev_rev_ident takeWhile_dropWhile_id)
  have front: "dropWhile py_isspace (rev v) = rev v"
  proof (cases "rev v")
    case Nil
    then show ?thesis by simp
  next
    case (Cons c cs)
    with tv obtain r where "t = c # r" by auto
    then have "dropWhile py_isspace s = c # r" by (simp add: t_def)
    then have "\<not> py_isspace c" using hd_dropWhile [of py_isspace s] by simp
    with Cons show ?thesis by simp
  qed
  have rear: "dropWhile py_isspace v = v" by (simp add: v_def)
  have "py_strip (rev v) = rev v"
    unfolding py_strip_def by (simp only: front rev_rev_ident rear)
  with u show ?thesis by simp
qed

end
