(* ===== verification/Loading.thy ===== *)
theory Loading
  imports Py_Str
begin

text \<open>
  Word-list, exclusion and favorites files (\<^verbatim>\<open>load_words\<close>, \<^verbatim>\<open>load_exclusions\<close>,
  \<^verbatim>\<open>load_favorites\<close>, \<^verbatim>\<open>save_favorites\<close>, \<^verbatim>\<open>load_themed_words\<close>) over a file
  system given as a map from paths to entries. The three source files repeat these
  functions; where the copies differ in what they raise, each copy has its own definition.
\<close>

section \<open>Reading lines\<close>

text \<open>\<^verbatim>\<open>[line.strip() for line in file if line.strip()]\<close>\<close>

definition stripped_lines :: "string \<Rightarrow> string list" where
  "stripped_lines s = [py_strip l. l \<leftarrow> file_lines s, py_strip l \<noteq> []]"

text \<open>The type invariant of a word list (spec 3): non-empty, trimmed words.\<close>

definition wordlist_ok :: "string list \<Rightarrow> bool" where
  "wordlist_ok ws \<longleftrightarrow> (\<forall>w \<in> set ws. w \<noteq> [] \<and> py_strip w = w)"

section \<open>Loading word lists\<close>

text \<open>
  \<^verbatim>\<open>SpySpeak-cli.py\<close> and \<^verbatim>\<open>SpySpeak-web.py\<close>: a missing file and any other error while
  reading give the empty list.
\<close>

definition load_words :: "fs \<Rightarrow> path \<Rightarrow> string list" where
  "load_words fs p =
     (case fs p of
        None \<Rightarrow> []
      | Some Unreadable \<Rightarrow> []
      | Some (Text s) \<Rightarrow> stripped_lines s)"

text \<open>
  \<^verbatim>\<open>SpySpeak.py\<close> catches \<^verbatim>\<open>FileNotFoundError\<close> only: any other failure to open the file
  propagates.
\<close>

definition load_words_main :: "fs \<Rightarrow> path \<Rightarrow> string list py" where
  "load_words_main fs p =
     (case fs p of
        None \<Rightarrow> Inr []
      | Some Unreadable \<Rightarrow> Inl (OSError (os_error_str p))
      | Some (Text s) \<Rightarrow> Inr (stripped_lines s))"

definition load_exclusions :: "fs \<Rightarrow> path \<Rightarrow> string list" where
  "load_exclusions fs p =
     (case fs p of
        None \<Rightarrow> []
      | Some Unreadable \<Rightarrow> []
      | Some (Text s) \<Rightarrow> [py_lower (py_strip l). l \<leftarrow> file_lines s, py_strip l \<noteq> []])"

section \<open>Favorites file\<close>

definition load_favorites :: "fs \<Rightarrow> path \<Rightarrow> string list" where
  "load_favorites fs p =
     (case fs p of
        None \<Rightarrow> []
      | Some Unreadable \<Rightarrow> []
      | Some (Text s) \<Rightarrow> stripped_lines s)"

text \<open>
  \<^verbatim>\<open>save_favorites\<close> overwrites the file with one name per line and reports success;
  opening an unwritable path for writing fails and leaves the file system unchanged.
\<close>

definition save_favorites :: "string list \<Rightarrow> path \<Rightarrow> fs \<Rightarrow> bool \<times> fs" where
  "save_favorites favorites filename fs =
     (case fs filename of
        Some Unreadable \<Rightarrow> (False, fs)
      | _ \<Rightarrow> (True, fs(filename \<mapsto> Text (concat [name @ [LF]. name \<leftarrow> favorites]))))"

section \<open>Themes\<close>

text \<open>\<^verbatim>\<open>os.path.join\<close> on POSIX: an absolute second component replaces the first.\<close>

definition path_join :: "path \<Rightarrow> path \<Rightarrow> path" where
  "path_join a b =
     (if take 1 b = ''/'' then b
      else if a = [] \<or> last a = CHR ''/'' then a @ b
      else a @ ''/'' @ b)"

definition theme_files :: "string \<Rightarrow> path \<times> path" where
  "theme_files theme = (path_join ''themes'' (theme @ ''_adj.txt''), path_join ''themes'' (theme @ ''_nouns.txt''))"

definition load_themed_words :: "fs \<Rightarrow> string \<Rightarrow> string list \<times> string list" where
  "load_themed_words fs theme =
     (let (adj_file, noun_file) = theme_files theme in
      if fs adj_file = None \<or> fs noun_file = None then ([], [])
      else (load_words fs adj_file, load_words fs noun_file))"

text \<open>A name that is its own stripped form and holds no line break is a line of the file.\<close>

definition favorite_line_ok :: "string \<Rightarrow> bool" where
  "favorite_line_ok x \<longleftrightarrow> x \<noteq> [] \<and> py_strip x = x \<and> LF \<notin> set x \<and> CR \<notin> set x"

lemmas loading_defs [model_defs] =
  stripped_lines_def load_words_def load_words_main_def load_exclusions_def
  load_favorites_def save_favorites_def path_join_def theme_files_def load_themed_words_def

section \<open>Properties of loading and saving\<close>

lemma stripped_lines_ok: "wordlist_ok (stripped_lines s)"
  by (auto simp: wordlist_ok_def stripped_lines_def)

lemma wordlist_ok_Nil [simp]: "wordlist_ok []"
  by (simp add: wordlist_ok_def)


lemma load_favorites_ok: "wordlist_ok (load_favorites fs p)"
  by (simp add: load_favorites_def stripped_lines_ok split: option.split fentry.split)

lemma load_exclusions_lower:
  "e \<in> set (load_exclusions fs p) \<Longrightarrow> py_lower e = e \<and> e \<noteq> []"
  by (auto simp: load_exclusions_def py_lower_def split: option.splits fentry.splits)

lemma load_words_main_Inr:
  "load_words_main fs p = Inr ws \<Longrightarrow> load_words fs p = ws"
  by (auto simp: load_words_main_def load_words_def split: option.splits fentry.splits)

subsection \<open>Saving then loading the favorites\<close>

lemma univ_nl_no_CR: "CR \<notin> set s \<Longrightarrow> univ_nl s = s"
  by (induction s rule: univ_nl.induct) auto

lemma split_on_LF_line:
  "LF \<notin> set x \<Longrightarrow> split_on [LF] (x @ LF # rest) = x # split_on [LF] rest"
  by (induction x) (auto simp: Let_def)

lemma split_on_LF_lines:
  "\<forall>x \<in> set xs. LF \<notin> set x \<Longrightarrow> split_on [LF] (concat [x @ [LF]. x \<leftarrow> xs]) = xs @ [[]]"
  by (induction xs) (simp_all add: split_on_LF_line)

lemma stripped_lines_saved:
  assumes "\<forall>x \<in> set xs. favorite_line_ok x"
  shows "stripped_lines (concat [x @ [LF]. x \<leftarrow> xs]) = xs"
proof -
  have "CR \<notin> set (concat [x @ [LF]. x \<leftarrow> xs])"
    using assms by (auto simp: favorite_line_ok_def)
  then have "file_lines (concat [x @ [LF]. x \<leftarrow> xs]) = xs @ [[]]"
    using assms by (simp add: file_lines_def univ_nl_no_CR split_on_LF_lines favorite_line_ok_def)
  moreover have "[py_strip l. l \<leftarrow> xs, py_strip l \<noteq> []] = xs"
    using assms by (induction xs) (auto simp: favorite_line_ok_def)
  ultimately show ?thesis by (simp add: stripped_lines_def py_strip_def)
qed

section \<open>Properties of the loaders\<close>

text \<open>
  C16: whatever the file system holds, a word list loaded by the CLI or the web server
  satisfies the word-list invariant of spec 3: every word is non-empty and trimmed.
\<close>

theorem load_words_ok: "wordlist_ok (load_words fs p)"
  by (simp add: load_words_def stripped_lines_ok split: option.split fentry.split)

text \<open>
  C17: saving favorites and loading them back gives the same list, in order, for names
  that are trimmed, non-empty and free of line breaks, provided the file can be written.
\<close>

theorem save_then_load_favorites:
  assumes "\<forall>x \<in> set xs. favorite_line_ok x" and "fs p \<noteq> Some Unreadable"
  shows "fst (save_favorites xs p fs) \<and> load_favorites (snd (save_favorites xs p fs)) p = xs"
proof -
  have "save_favorites xs p fs = (True, fs(p \<mapsto> Text (concat [x @ [LF]. x \<leftarrow> xs])))"
    using assms(2) by (simp add: save_favorites_def split: option.split fentry.split)
  then show ?thesis
    using stripped_lines_saved [OF assms(1)] by (simp add: load_favorites_def)
qed

theorem load_words_ok_witness:
  "load_words [''adjectives.txt'' \<mapsto> Text ''  Brave\<newline>\<newline>Silent \<newline>''] ''adjectives.txt'' = [''Brave'', ''Silent''] \<and>
   wordlist_ok (load_words [''adjectives.txt'' \<mapsto> Text ''  Brave\<newline>\<newline>Silent \<newline>''] ''adjectives.txt'')"
proof -
  have h: "load_words [''adjectives.txt'' \<mapsto> Text ''  Brave\<newline>\<newline>Silent \<newline>''] ''adjectives.txt''
             = [''Brave'', ''Silent'']"
    by (simp add: model_defs py_defs)
  show ?thesis using h load_words_ok by blast
qed

theorem save_then_load_favorites_witness:
  "favorite_line_ok ''Brave Tiger'' \<and> favorite_line_ok ''Silent Wolf'' \<and>
   Map.empty ''favorites.txt'' \<noteq> Some Unreadable \<and>
   fst (save_favorites [''Brave Tiger'', ''Silent Wolf''] ''favorites.txt'' Map.empty) \<and>
   load_favorites (snd (save_favorites [''Brave Tiger'', ''Silent Wolf''] ''favorites.txt'' Map.empty))
     ''favorites.txt'' = [''Brave Tiger'', ''Silent Wolf'']"
proof -
  have f1: "favorite_line_ok ''Brave Tiger''" and f2: "favorite_line_ok ''Silent Wolf''"
    by (simp_all add: favorite_line_ok_def py_defs)
  then have h1: "\<forall>x \<in> set [''Brave Tiger'', ''Silent Wolf'']. favorite_line_ok x" by simp
  have h2: "(Map.empty :: fs) ''favorites.txt'' \<noteq> Some Unreadable" by simp
  show ?thesis using f1 f2 h2 save_then_load_favorites [OF h1 h2] by blast
qed

end
