(* ===== verification/Filters.thy ===== *)
theory Filters
  imports Loading
begin

text \<open>
  The exclusion filter (\<^verbatim>\<open>filter_excluded_words\<close>, repeated in all three source files) and
  the length filters that \<^verbatim>\<open>generate_codename\<close> applies inline. Each is shown equal to
  a plain \<open>filter\<close> with a reference predicate, so that the short-circuits of the code
  (an empty exclusion list, a bound of 0) are seen to change nothing.
\<close>

section \<open>Definitions\<close>

definition filter_excluded_words :: "string list \<Rightarrow> string list \<Rightarrow> string list" where
  "filter_excluded_words words exclusions =
     (if exclusions = [] then words
      else [word. word \<leftarrow> words, py_lower word \<notin> set exclusions])"

text \<open>\<^verbatim>\<open>if min_length > 0: words = [w for w in words if len(w) >= min_length]\<close>\<close>

definition filter_min_length :: "int \<Rightarrow> string list \<Rightarrow> string list" where
  "filter_min_length min_length words =
     (if min_length > 0 then [w. w \<leftarrow> words, int (length w) \<ge> min_length] else words)"

definition filter_max_length :: "int \<Rightarrow> string list \<Rightarrow> string list" where
  "filter_max_length max_length words =
     (if max_length > 0 then [w. w \<leftarrow> words, int (length w) \<le> max_length] else words)"

text \<open>The two length filters in the order the code applies them.\<close>

definition length_filter :: "int \<Rightarrow> int \<Rightarrow> string list \<Rightarrow> string list" where
  "length_filter min_length max_length words =
     filter_max_length max_length (filter_min_length min_length words)"

section \<open>Reference predicates\<close>

definition not_excluded :: "string list \<Rightarrow> string \<Rightarrow> bool" where
  "not_excluded exclusions w \<longleftrightarrow> py_lower w \<notin> set exclusions"

definition length_ok :: "int \<Rightarrow> int \<Rightarrow> string \<Rightarrow> bool" where
  "length_ok min_length max_length w \<longleftrightarrow>
     (min_length > 0 \<longrightarrow> min_length \<le> int (length w)) \<and>
     (max_length > 0 \<longrightarrow> int (length w) \<le> max_length)"

lemmas reference_defs [spec_defs] = not_excluded_def length_ok_def

lemmas filters_defs [model_defs] =
  filter_excluded_words_def filter_min_length_def filter_max_length_def length_filter_def

section \<open>The filters are filters by the reference predicates\<close>

lemma filter_excluded_words_nonempty:
  "exclusions \<noteq> [] \<Longrightarrow> filter_excluded_words words exclusions = filter (not_excluded exclusions) words"
  by (simp add: filter_excluded_words_def not_excluded_def [abs_def])

lemma not_excluded_Nil [simp]: "not_excluded [] = (\<lambda>w. True)"
  by (simp add: not_excluded_def [abs_def])

lemma set_filter_excluded_words [simp]:
  "set (filter_excluded_words words exclusions) = {w \<in> set words. py_lower w \<notin> set exclusions}"
  by (auto simp: filter_excluded_words_def)

lemma set_length_filter [simp]:
  "set (length_filter min_length max_length words) = {w \<in> set words. length_ok min_length max_length w}"
  by (auto simp: length_filter_def filter_min_length_def filter_max_length_def length_ok_def)

lemma wordlist_ok_filter [intro]: "wordlist_ok ws \<Longrightarrow> wordlist_ok (filter P ws)"
  by (auto simp: wordlist_ok_def)

text \<open>
  C14: the exclusion filter keeps, in order, exactly the words whose lowercase form is not
  excluded; the short-circuit on an empty exclusion list is the same filter.
\<close>

theorem filter_excluded_words_reference:
  "filter_excluded_words words exclusions = filter (not_excluded exclusions) words"
  by (cases "exclusions = []") (simp_all add: filter_excluded_words_def not_excluded_def [abs_def])

text \<open>
  C15: the two length filters, applied in the code's order with 0 meaning no bound, keep in
  order exactly the words whose length lies within the active bounds.
\<close>

theorem length_filter_reference:
  "length_filter min_length max_length words = filter (length_ok min_length max_length) words"
  by (auto simp: length_filter_def filter_min_length_def filter_max_length_def length_ok_def
           intro!: filter_cong)

theorem filter_excluded_words_reference_witness:
  "filter_excluded_words [''Ghost'', ''wolf'', ''GHOST''] [''ghost''] = [''wolf''] \<and>
   filter_excluded_words [''Ghost'', ''wolf''] [] = [''Ghost'', ''wolf'']"
  by (simp add: filter_excluded_words_reference spec_defs py_defs)

theorem length_filter_reference_witness:
  "length_filter 3 0 [''ab'', ''cdef''] = [''cdef''] \<and> length_filter 0 0 [''ab'', ''cdef''] = [''ab'', ''cdef'']"
  by (simp add: length_filter_reference spec_defs)

end
