(* ===== verification/Generator.thy ===== *)
theory Generator
  imports Filters
begin

text \<open>
  The generation core: the random draws (\<^verbatim>\<open>random.choice\<close>, \<^verbatim>\<open>random.randint\<close>),
  the pattern engine and the case formatter that form the body of the loop in
  \<^verbatim>\<open>generate_codename\<close>, the loop itself, and the three versions of
  \<^verbatim>\<open>generate_codename\<close>: \<^verbatim>\<open>SpySpeak.py\<close> (failures returned as a one-element list),
  \<^verbatim>\<open>SpySpeak-cli.py\<close> (failures end the process with \<^verbatim>\<open>sys.exit(1)\<close>) and
  \<^verbatim>\<open>SpySpeak-web.py\<close> (failures returned as an error dictionary).
\<close>

section \<open>The random module\<close>

text \<open>
  \<^verbatim>\<open>random.choice(seq)\<close> is \<^verbatim>\<open>seq[_randbelow(len(seq))]\<close> and raises
  \<^verbatim>\<open>IndexError\<close> on an empty sequence; \<^verbatim>\<open>random.randint(a, b)\<close> is
  \<^verbatim>\<open>a + _randbelow(b - a + 1)\<close> and raises \<^verbatim>\<open>ValueError\<close> when \<open>b < a\<close>. A draw
  \<open>r\<close> of the stream gives \<^verbatim>\<open>_randbelow(n)\<close> as \<open>r mod n\<close>.
\<close>

definition py_choice :: "'a list \<Rightarrow> rng \<Rightarrow> ('a \<times> rng) py" where
  "py_choice xs g =
     (if xs = [] then Inl IndexError else Inr (xs ! (shd g mod length xs), stl g))"

definition py_randint :: "int \<Rightarrow> int \<Rightarrow> rng \<Rightarrow> (int \<times> rng) py" where
  "py_randint a b g =
     (if b < a then Inl (ValueError ''empty range for randrange()'')
      else Inr (a + int (shd g mod nat (b - a + 1)), stl g))"

section \<open>Configuration\<close>

text \<open>
  The keyword arguments of \<^verbatim>\<open>generate_codename\<close> other than the word lists and the
  exclusions (the spec's GenerationConfig). Patterns and case styles are the strings the
  code compares against; an unknown one selects the default branch.
\<close>

record gen_config =
  count :: int
  pattern :: string
  case_style :: string
  min_length :: int
  max_length :: int
  separator :: string

text \<open>The defaults of the CLI's argument parser.\<close>

definition cli_default_config :: gen_config where
  "cli_default_config =
     \<lparr>count = 1, pattern = ''adj-noun'', case_style = ''title'', min_length = 0, max_length = 0,
      separator = '' ''\<rparr>"

section \<open>Pattern engine\<close>

definition make_raw :: "string \<Rightarrow> string list \<Rightarrow> string list \<Rightarrow> string \<Rightarrow> rng \<Rightarrow> (string \<times> rng) py" where
  "make_raw pat adjectives nouns sep g =
     (if pat = ''adj-noun'' then
        py_bind (py_choice adjectives g) (\<lambda>(adj, g1).
        py_bind (py_choice nouns g1) (\<lambda>(noun, g2).
        Inr (adj @ sep @ noun, g2)))
      else if pat = ''noun-noun'' then
        py_bind (py_choice nouns g) (\<lambda>(noun1, g1).
        py_bind (py_choice nouns g1) (\<lambda>(noun2, g2).
        Inr (noun1 @ sep @ noun2, g2)))
      else if pat = ''adj-adj-noun'' then
        py_bind (py_choice adjectives g) (\<lambda>(adj1, g1).
        py_bind (py_choice adjectives g1) (\<lambda>(adj2, g2).
        py_bind (py_choice nouns g2) (\<lambda>(noun, g3).
        Inr (adj1 @ sep @ adj2 @ sep @ noun, g3))))
      else if pat = ''noun-adj'' then
        py_bind (py_choice nouns g) (\<lambda>(noun, g1).
        py_bind (py_choice adjectives g1) (\<lambda>(adj, g2).
        Inr (noun @ sep @ adj, g2)))
      else if pat = ''adj-noun-number'' then
        py_bind (py_choice adjectives g) (\<lambda>(adj, g1).
        py_bind (py_choice nouns g1) (\<lambda>(noun, g2).
        py_bind (py_randint 1 999 g2) (\<lambda>(number, g3).
        Inr (adj @ sep @ noun @ sep @ py_str_int number, g3))))
      else
        py_bind (py_choice adjectives g) (\<lambda>(adj, g1).
        py_bind (py_choice nouns g1) (\<lambda>(noun, g2).
        Inr (adj @ sep @ noun, g2))))"

section \<open>Case formatter\<close>

text \<open>
  Title case in \<^verbatim>\<open>SpySpeak.py\<close> and \<^verbatim>\<open>SpySpeak-cli.py\<close>: the pieces are joined with a
  space first and, for any other separator, split and joined again with the separator.
  Both splits use \<^verbatim>\<open>split(separator)\<close>, which raises on an empty separator.
\<close>

definition title_case :: "string \<Rightarrow> string \<Rightarrow> string py" where
  "title_case sep raw_name =
     py_bind (py_split sep raw_name) (\<lambda>words.
       let formatted_name = py_join '' '' (map py_capitalize words) in
       if sep \<noteq> '' '' then
         py_bind (py_split sep raw_name) (\<lambda>words'. Inr (py_join sep (map py_capitalize words')))
       else Inr formatted_name)"

definition apply_case :: "string \<Rightarrow> string \<Rightarrow> string \<Rightarrow> string py" where
  "apply_case style sep raw_name =
     (if style = ''upper'' then Inr (py_upper raw_name)
      else if style = ''lower'' then Inr (py_lower raw_name)
      else if style = ''sentence'' then Inr (py_capitalize raw_name)
      else title_case sep raw_name)"

text \<open>Title case in \<^verbatim>\<open>SpySpeak-web.py\<close>: a single space separator splits on whitespace runs.\<close>

definition title_case_web :: "string \<Rightarrow> string \<Rightarrow> string py" where
  "title_case_web sep raw_name =
     (if sep = '' '' then Inr (py_join '' '' (map py_capitalize (split_ws raw_name)))
      else py_bind (py_split sep raw_name) (\<lambda>words. Inr (py_join sep (map py_capitalize words))))"

definition apply_case_web :: "string \<Rightarrow> string \<Rightarrow> string \<Rightarrow> string py" where
  "apply_case_web style sep raw_name =
     (if style = ''upper'' then Inr (py_upper raw_name)
      else if style = ''lower'' then Inr (py_lower raw_name)
      else if style = ''sentence'' then Inr (py_capitalize raw_name)
      else title_case_web sep raw_name)"

section \<open>The generation loop\<close>

type_synonym case_fn = "string \<Rightarrow> string \<Rightarrow> string \<Rightarrow> string py"

text \<open>One iteration of \<^verbatim>\<open>for _ in range(count)\<close>: pattern, then case style.\<close>

definition gen_one :: "case_fn \<Rightarrow> gen_config \<Rightarrow> string list \<Rightarrow> string list \<Rightarrow> rng \<Rightarrow> (string \<times> rng) py" where
  "gen_one case_of cfg adjectives nouns g =
     py_bind (make_raw (pattern cfg) adjectives nouns (separator cfg) g) (\<lambda>(raw_name, g1).
     py_bind (case_of (case_style cfg) (separator cfg) raw_name) (\<lambda>formatted_name.
     Inr (formatted_name, g1)))"

fun gen_loop :: "nat \<Rightarrow> (rng \<Rightarrow> ('a \<times> rng) py) \<Rightarrow> rng \<Rightarrow> ('a list \<times> rng) py" where
  "gen_loop 0 body g = Inr ([], g)"
| "gen_loop (Suc n) body g =
     py_bind (body g) (\<lambda>(x, g1).
     py_bind (gen_loop n body g1) (\<lambda>(xs, g2).
     Inr (x # xs, g2)))"

section \<open>The three versions of generate\_codename\<close>

definition generate_codename_cli ::
  "string list \<Rightarrow> string list \<Rightarrow> gen_config \<Rightarrow> string list \<Rightarrow> rng \<Rightarrow> (string list \<times> rng) py" where
  "generate_codename_cli adjectives nouns cfg exclusions g =
     (let adjs1 = (if exclusions \<noteq> [] then filter_excluded_words adjectives exclusions else adjectives);
          nouns1 = (if exclusions \<noteq> [] then filter_excluded_words nouns exclusions else nouns) in
      if adjs1 = [] then
        Inl (SystemExit 1 ''Error: No valid adjectives available after applying exclusions'')
      else if nouns1 = [] then
        Inl (SystemExit 1 ''Error: No valid nouns available after applying exclusions'')
      else
        let adjs2 = filter_max_length (max_length cfg) (filter_min_length (min_length cfg) adjs1);
            nouns2 = filter_max_length (max_length cfg) (filter_min_length (min_length cfg) nouns1) in
        if adjs2 = [] then Inl (SystemExit 1 ''Error: No adjectives meet the length criteria'')
        else if nouns2 = [] then Inl (SystemExit 1 ''Error: No nouns meet the length criteria'')
        else gen_loop (nat (count cfg)) (gen_one apply_case cfg adjs2 nouns2) g)"

datatype web_result = ErrorDict string | Codenames "string list"

definition generate_codename_web ::
  "string list \<Rightarrow> string list \<Rightarrow> gen_config \<Rightarrow> string list \<Rightarrow> rng \<Rightarrow> (web_result \<times> rng) py" where
  "generate_codename_web adjectives nouns cfg exclusions g =
     (let adjs1 = (if exclusions \<noteq> [] then filter_excluded_words adjectives exclusions else adjectives);
          nouns1 = (if exclusions \<noteq> [] then filter_excluded_words nouns exclusions else nouns) in
      if adjs1 = [] then Inr (ErrorDict ''No valid adjectives available after applying exclusions'', g)
      else if nouns1 = [] then Inr (ErrorDict ''No valid nouns available after applying exclusions'', g)
      else
        let adjs2 = filter_max_length (max_length cfg) (filter_min_length (min_length cfg) adjs1);
            nouns2 = filter_max_length (max_length cfg) (filter_min_length (min_length cfg) nouns1) in
        if adjs2 = [] then Inr (ErrorDict ''No adjectives meet the length criteria'', g)
        else if nouns2 = [] then Inr (ErrorDict ''No nouns meet the length criteria'', g)
        else py_bind (gen_loop (nat (count cfg)) (gen_one apply_case_web cfg adjs2 nouns2) g)
               (\<lambda>(names, g'). Inr (Codenames names, g')))"

definition generate_codename_main ::
  "string list \<Rightarrow> string list \<Rightarrow> gen_config \<Rightarrow> string list \<Rightarrow> rng \<Rightarrow> (string list \<times> rng) py" where
  "generate_codename_main adjectives nouns cfg exclusions g =
     (if adjectives = [] \<or> nouns = [] then
        Inr ([''Could not generate codename due to missing word lists''], g)
      else
        let adjs1 = (if exclusions \<noteq> [] then filter_excluded_words adjectives exclusions else adjectives);
            nouns1 = (if exclusions \<noteq> [] then filter_excluded_words nouns exclusions else nouns) in
        if exclusions \<noteq> [] \<and> (adjs1 = [] \<or> nouns1 = []) then
          Inr ([''Could not generate codename: all words were excluded''], g)
        else
          let adjs2 = filter_max_length (max_length cfg) (filter_min_length (min_length cfg) adjs1);
              nouns2 = filter_max_length (max_length cfg) (filter_min_length (min_length cfg) nouns1) in
          if adjs2 = [] \<or> nouns2 = [] then
            Inr ([''Could not generate codename: no words meet the length criteria''], g)
          else gen_loop (nat (count cfg)) (gen_one apply_case cfg adjs2 nouns2) g)"

lemmas generator_defs [model_defs] =
  py_choice_def py_randint_def make_raw_def title_case_def apply_case_def title_case_web_def
  apply_case_web_def gen_one_def generate_codename_cli_def generate_codename_web_def
  generate_codename_main_def cli_default_config_def

section \<open>Specification of the generator\<close>

text \<open>
  What spec 4.4 and 4.6 promise, stated with the reference filters of \<open>Filters\<close>:
  \<open>select_words\<close> is steps 1 to 4 (exclusion, then length, each failing when a
  category runs empty, adjectives checked first), and \<open>raw_candidates\<close> lists every raw
  string the pattern may build from the selected words.
\<close>

datatype category = Adjectives | Nouns

datatype gen_failure = NoWordsAfterExclusion category | NoWordsMeetLengthCriteria category

definition select_words ::
  "string list \<Rightarrow> string list \<Rightarrow> string list \<Rightarrow> int \<Rightarrow> int \<Rightarrow> gen_failure + string list \<times> string list" where
  "select_words adjectives nouns exclusions min_len max_len =
     (let A = filter (not_excluded exclusions) adjectives;
          N = filter (not_excluded exclusions) nouns in
      if A = [] then Inl (NoWordsAfterExclusion Adjectives)
      else if N = [] then Inl (NoWordsAfterExclusion Nouns)
      else
        let A' = filter (length_ok min_len max_len) A;
            N' = filter (length_ok min_len max_len) N in
        if A' = [] then Inl (NoWordsMeetLengthCriteria Adjectives)
        else if N' = [] then Inl (NoWordsMeetLengthCriteria Nouns)
        else Inr (A', N'))"

text \<open>The messages of \<^verbatim>\<open>SpySpeak-web.py\<close>; the CLI prefixes them with \<^verbatim>\<open>Error: \<close>.\<close>

fun failure_message :: "gen_failure \<Rightarrow> string" where
  "failure_message (NoWordsAfterExclusion Adjectives) = ''No valid adjectives available after applying exclusions''"
| "failure_message (NoWordsAfterExclusion Nouns) = ''No valid nouns available after applying exclusions''"
| "failure_message (NoWordsMeetLengthCriteria Adjectives) = ''No adjectives meet the length criteria''"
| "failure_message (NoWordsMeetLengthCriteria Nouns) = ''No nouns meet the length criteria''"

fun main_message :: "gen_failure \<Rightarrow> string" where
  "main_message (NoWordsAfterExclusion _) = ''Could not generate codename: all words were excluded''"
| "main_message (NoWordsMeetLengthCriteria _) = ''Could not generate codename: no words meet the length criteria''"

definition raw_candidates :: "string \<Rightarrow> string \<Rightarrow> string list \<Rightarrow> string list \<Rightarrow> string list" where
  "raw_candidates pat sep A N =
     (if pat = ''noun-noun'' then [n1 @ sep @ n2. n1 \<leftarrow> N, n2 \<leftarrow> N]
      else if pat = ''adj-adj-noun'' then [a1 @ sep @ a2 @ sep @ n. a1 \<leftarrow> A, a2 \<leftarrow> A, n \<leftarrow> N]
      else if pat = ''noun-adj'' then [n @ sep @ a. n \<leftarrow> N, a \<leftarrow> A]
      else if pat = ''adj-noun-number'' then
        [a @ sep @ n @ sep @ py_str_nat k. a \<leftarrow> A, n \<leftarrow> N, k \<leftarrow> [1..<1000]]
      else [a @ sep @ n. a \<leftarrow> A, n \<leftarrow> N])"

lemmas generator_spec_defs [spec_defs] = select_words_def raw_candidates_def

section \<open>Evaluation and the loop\<close>

lemma gen_loop_numeral [model_defs]:
  "gen_loop (numeral k) body g =
     py_bind (body g) (\<lambda>(x, g1).
     py_bind (gen_loop (pred_numeral k) body g1) (\<lambda>(xs, g2).
     Inr (x # xs, g2)))"
  by (simp add: numeral_eq_Suc)

section \<open>The random draws\<close>

lemma py_choice_eq_Inr:
  "py_choice xs g = Inr (x, g') \<longleftrightarrow> xs \<noteq> [] \<and> x = xs ! (shd g mod length xs) \<and> g' = stl g"
  by (auto simp: py_choice_def)

lemma py_choice_in_set: "py_choice xs g = Inr (x, g') \<Longrightarrow> x \<in> set xs"
  by (auto simp: py_choice_eq_Inr)

lemma py_choice_nonempty: "xs \<noteq> [] \<Longrightarrow> py_choice xs g = Inr (xs ! (shd g mod length xs), stl g)"
  by (simp add: py_choice_def)

text \<open>Every element can be drawn: the draw that indexes it.\<close>

lemma py_choice_reach:
  assumes "x \<in> set xs"
  shows "\<exists>r. py_choice xs (r ## g) = Inr (x, g)"
  using in_set_nth_mod [OF assms] assms by (auto simp: py_choice_def)

lemma py_randint_999:
  "py_randint 1 999 g = Inr (int (Suc (shd g mod 999)), stl g)"
  by (simp add: py_randint_def)

lemma py_randint_999_reach:
  assumes "1 \<le> k" "k \<le> (999::nat)"
  shows "py_randint 1 999 ((k - 1) ## g) = Inr (int k, g)"
  using assms by (simp add: py_randint_999)

lemma py_str_int_nat [simp]: "py_str_int (int n) = py_str_nat n"
  by (simp add: py_str_int_def)

lemma nat_one_plus_int: "nat (1 + int x) = Suc x"
  by simp

lemma py_str_int_Suc [simp]: "py_str_int (1 + int x) = py_str_nat (Suc x)"
  unfolding py_str_int_def nat_one_plus_int by simp

section \<open>Pattern engine: the raw string is a candidate, and every candidate is drawn\<close>

lemma make_raw_total:
  assumes "A \<noteq> []" "N \<noteq> []"
  shows "\<exists>raw g'. make_raw pat A N sep g = Inr (raw, g')"
  using assms by (simp add: make_raw_def py_choice_nonempty py_randint_999)

lemma make_raw_never_raises:
  assumes "A \<noteq> []" "N \<noteq> []"
  shows "make_raw pat A N sep g \<noteq> Inl e"
  using make_raw_total [OF assms, of pat sep g] by auto

lemma make_raw_sound:
  assumes "make_raw pat A N sep g = Inr (raw, g')"
  shows "raw \<in> set (raw_candidates pat sep A N)"
proof -
  have num: "Suc (m mod 999) \<in> {Suc 0..<1000}" for m :: nat
    by simp
  from assms show ?thesis
    by (auto simp: make_raw_def raw_candidates_def py_bind_eq_Inr py_choice_eq_Inr py_randint_999
             split: if_splits prod.splits)
       (blast intro: imageI nth_mod_length_in_set num)+
qed

lemma make_raw_complete:
  assumes "raw \<in> set (raw_candidates pat sep A N)"
  shows "\<exists>g g'. make_raw pat A N sep g = Inr (raw, g')"
proof -
  note reach = py_choice_reach [where g = "sconst 0"] py_choice_reach
  consider (nn) "pat = ''noun-noun''"
    | (aan) "pat \<noteq> ''noun-noun''" "pat = ''adj-adj-noun''"
    | (na) "pat \<noteq> ''noun-noun''" "pat \<noteq> ''adj-adj-noun''" "pat = ''noun-adj''"
    | (num) "pat \<noteq> ''noun-noun''" "pat \<noteq> ''adj-adj-noun''" "pat \<noteq> ''noun-adj''"
            "pat = ''adj-noun-number''"
    | (an) "pat \<noteq> ''noun-noun''" "pat \<noteq> ''adj-adj-noun''" "pat \<noteq> ''noun-adj''"
           "pat \<noteq> ''adj-noun-number''"
    by blast
  then show ?thesis
  proof cases
    case nn
    with assms obtain n1 n2 where w: "n1 \<in> set N" "n2 \<in> set N" "raw = n1 @ sep @ n2"
      by (auto simp: raw_candidates_def)
    obtain r2 where "py_choice N (r2 ## sconst 0) = Inr (n2, sconst 0)" using reach(1) [OF w(2)] ..
    moreover obtain r1 where "py_choice N (r1 ## r2 ## sconst 0) = Inr (n1, r2 ## sconst 0)"
      using reach(2) [OF w(1)] ..
    ultimately have "make_raw pat A N sep (r1 ## r2 ## sconst 0) = Inr (raw, sconst 0)"
      using nn w(3) by (simp add: make_raw_def)
    then show ?thesis by blast
  next
    case aan
    with assms obtain a1 a2 n where w: "a1 \<in> set A" "a2 \<in> set A" "n \<in> set N"
      "raw = a1 @ sep @ a2 @ sep @ n"
      by (auto simp: raw_candidates_def)
    obtain r3 where "py_choice N (r3 ## sconst 0) = Inr (n, sconst 0)" using reach(1) [OF w(3)] ..
    moreover obtain r2 where "py_choice A (r2 ## r3 ## sconst 0) = Inr (a2, r3 ## sconst 0)"
      using reach(2) [OF w(2)] ..
    moreover obtain r1 where
      "py_choice A (r1 ## r2 ## r3 ## sconst 0) = Inr (a1, r2 ## r3 ## sconst 0)"
      using reach(2) [OF w(1)] ..
    ultimately have "make_raw pat A N sep (r1 ## r2 ## r3 ## sconst 0) = Inr (raw, sconst 0)"
      using aan w(4) by (simp add: make_raw_def)
    then show ?thesis by blast
  next
    case na
    with assms obtain n a where w: "n \<in> set N" "a \<in> set A" "raw = n @ sep @ a"
      by (auto simp: raw_candidates_def)
    obtain r2 where "py_choice A (r2 ## sconst 0) = Inr (a, sconst 0)" using reach(1) [OF w(2)] ..
    moreover obtain r1 where "py_choice N (r1 ## r2 ## sconst 0) = Inr (n, r2 ## sconst 0)"
      using reach(2) [OF w(1)] ..
    ultimately have "make_raw pat A N sep (r1 ## r2 ## sconst 0) = Inr (raw, sconst 0)"
      using na w(3) by (simp add: make_raw_def)
    then show ?thesis by blast
  next
    case num
    with assms obtain a n k where w: "a \<in> set A" "n \<in> set N" "1 \<le> k" "k < 1000"
      "raw = a @ sep @ n @ sep @ py_str_nat k"
      by (auto simp: raw_candidates_def)
    have "py_randint 1 999 ((k - 1) ## sconst 0) = Inr (int k, sconst 0)"
      using w(3,4) by (intro py_randint_999_reach) auto
    moreover obtain r2 where "py_choice N (r2 ## (k - 1) ## sconst 0) = Inr (n, (k - 1) ## sconst 0)"
      using reach(2) [OF w(2)] ..
    moreover obtain r1 where
      "py_choice A (r1 ## r2 ## (k - 1) ## sconst 0) = Inr (a, r2 ## (k - 1) ## sconst 0)"
      using reach(2) [OF w(1)] ..
    ultimately have "make_raw pat A N sep (r1 ## r2 ## (k - 1) ## sconst 0) = Inr (raw, sconst 0)"
      using num w(5) by (simp add: make_raw_def)
    then show ?thesis by blast
  next
    case an
    with assms obtain a n where w: "a \<in> set A" "n \<in> set N" "raw = a @ sep @ n"
      by (auto simp: raw_candidates_def)
    obtain r2 where "py_choice N (r2 ## sconst 0) = Inr (n, sconst 0)" using reach(1) [OF w(2)] ..
    moreover obtain r1 where "py_choice A (r1 ## r2 ## sconst 0) = Inr (a, r2 ## sconst 0)"
      using reach(2) [OF w(1)] ..
    ultimately have "make_raw pat A N sep (r1 ## r2 ## sconst 0) = Inr (raw, sconst 0)"
      using an w(3) by (simp add: make_raw_def)
    then show ?thesis by blast
  qed
qed

section \<open>Case formatter\<close>

lemma title_case_split:
  "sep \<noteq> [] \<Longrightarrow> title_case sep raw = Inr (py_join sep (map py_capitalize (split_on sep raw)))"
  by (auto simp: title_case_def py_split_def Let_def)

lemma title_case_empty_sep: "title_case [] raw = Inl (ValueError ''empty separator'')"
  by (simp add: title_case_def py_split_def)

lemma apply_case_total:
  assumes "sep \<noteq> [] \<or> style \<in> {''upper'', ''lower'', ''sentence''}"
  shows "\<exists>name. apply_case style sep raw = Inr name"
  using assms by (auto simp: apply_case_def title_case_split)

text \<open>Every case style changes letters only: lowercasing undoes it.\<close>

lemma apply_case_lower:
  assumes "apply_case style sep raw = Inr name"
  shows "py_lower name = py_lower raw"
proof -
  have title: "py_lower (py_join sep (map py_capitalize (split_on sep raw))) = py_lower raw"
    if "sep \<noteq> []"
  proof -
    have "py_lower (py_join sep (map py_capitalize (split_on sep raw)))
            = py_join (py_lower sep) (map py_lower (split_on sep raw))"
      by (simp add: py_lower_py_join comp_def)
    also have "\<dots> = py_lower (py_join sep (split_on sep raw))"
      by (simp add: py_lower_py_join)
    finally show ?thesis using that by (simp add: py_join_split_on)
  qed
  have "sep \<noteq> []" if "title_case sep raw = Inr name"
    using that by (auto simp: title_case_empty_sep)
  with assms title show ?thesis
    by (auto simp: apply_case_def title_case_split split: if_splits)
qed

lemma apply_case_length:
  "apply_case style sep raw = Inr name \<Longrightarrow> length name = length raw"
  by (metis apply_case_lower length_py_lower)

text \<open>A suffix without letters (the number of \<open>adj-noun-number\<close>) comes through unchanged.\<close>

lemma apply_case_keeps_suffix:
  assumes "apply_case style sep (x @ d) = Inr name" "no_letters d"
  shows "\<exists>y. name = y @ d"
proof -
  have low: "py_lower name = py_lower x @ d"
    using apply_case_lower [OF assms(1)] no_letters_case_id [OF assms(2)] by simp
  then have len: "length name = length x + length d"
    by (metis length_append length_py_lower)
  have "py_lower (drop (length x) name) = drop (length x) (py_lower name)"
    by (simp add: py_lower_def drop_map)
  also have "\<dots> = d" using low by simp
  finally have "drop (length x) name = d"
    using assms(2) by (rule py_lower_eq_no_letters)
  then have "name = take (length x) name @ d" by (metis append_take_drop_id)
  then show ?thesis by blast
qed

section \<open>The loop\<close>

lemma gen_loop_length:
  "gen_loop n body g = Inr (xs, g') \<Longrightarrow> length xs = n"
  by (induction n arbitrary: g xs g') (auto simp: py_bind_eq_Inr split: prod.splits)

lemma gen_loop_all:
  assumes "\<And>g x g'. body g = Inr (x, g') \<Longrightarrow> P x"
  shows "gen_loop n body g = Inr (xs, g') \<Longrightarrow> \<forall>x \<in> set xs. P x"
  by (induction n arbitrary: g xs g') (auto simp: py_bind_eq_Inr assms split: prod.splits)

lemma gen_loop_total:
  assumes "\<And>g. \<exists>x g'. body g = Inr (x, g')"
  shows "\<exists>xs g'. gen_loop n body g = Inr (xs, g')"
proof (induction n arbitrary: g)
  case 0
  then show ?case by simp
next
  case (Suc n)
  obtain x g1 where b: "body g = Inr (x, g1)" using assms by blast
  obtain xs g2 where "gen_loop n body g1 = Inr (xs, g2)" using Suc.IH by blast
  with b show ?case by simp
qed

lemma gen_one_sound:
  assumes "gen_one case_of cfg A N g = Inr (name, g')"
  shows "\<exists>raw \<in> set (raw_candidates (pattern cfg) (separator cfg) A N).
           case_of (case_style cfg) (separator cfg) raw = Inr name"
  using assms make_raw_sound by (fastforce simp: gen_one_def py_bind_eq_Inr split: prod.splits)

lemma gen_one_total:
  assumes "A \<noteq> []" "N \<noteq> []" "\<And>raw. \<exists>name. case_of (case_style cfg) (separator cfg) raw = Inr name"
  shows "\<exists>name g'. gen_one case_of cfg A N g = Inr (name, g')"
proof -
  obtain raw g1 where r: "make_raw (pattern cfg) A N (separator cfg) g = Inr (raw, g1)"
    using make_raw_total [OF assms(1,2)] by blast
  obtain name where "case_of (case_style cfg) (separator cfg) raw = Inr name"
    using assms(3) by blast
  with r show ?thesis by (simp add: gen_one_def)
qed

section \<open>The word selection steps implement the specification\<close>

lemma exclusion_step:
  "(if exclusions \<noteq> [] then filter_excluded_words ws exclusions else ws) = filter (not_excluded exclusions) ws"
  by (simp add: filter_excluded_words_nonempty)

lemma length_step:
  "filter_max_length max_len (filter_min_length min_len ws) = filter (length_ok min_len max_len) ws"
  by (auto simp: filter_min_length_def filter_max_length_def length_ok_def intro!: filter_cong)

lemma select_words_Inr:
  assumes "select_words adjectives nouns exclusions min_len max_len = Inr (A, N)"
  shows "A \<noteq> [] \<and> N \<noteq> [] \<and>
         A = filter (\<lambda>w. not_excluded exclusions w \<and> length_ok min_len max_len w) adjectives \<and>
         N = filter (\<lambda>w. not_excluded exclusions w \<and> length_ok min_len max_len w) nouns"
  using assms by (auto simp: select_words_def Let_def split: if_splits)

lemmas generate_steps = exclusion_step length_step select_words_def Let_def

section \<open>Errors of the generation loop\<close>

lemma gen_loop_Inl:
  "gen_loop n body g = Inl e \<Longrightarrow> \<exists>g0. body g0 = Inl e"
  by (induction n arbitrary: g) (auto simp: py_bind_eq_Inl split: prod.splits)

lemma apply_case_Inl:
  "apply_case style sep raw = Inl e \<Longrightarrow> e = ValueError ''empty separator''"
  by (auto simp: apply_case_def title_case_def py_split_def Let_def split: if_splits)

lemma gen_one_apply_case_Inl:
  assumes "A \<noteq> []" "N \<noteq> []" "gen_one apply_case cfg A N g = Inl e"
  shows "e = ValueError ''empty separator''"
proof -
  obtain raw g1 where r: "make_raw (pattern cfg) A N (separator cfg) g = Inr (raw, g1)"
    using make_raw_total [OF assms(1,2)] by blast
  with assms(3) have "apply_case (case_style cfg) (separator cfg) raw = Inl e"
    by (auto simp: gen_one_def py_bind_eq_Inl)
  then show ?thesis by (rule apply_case_Inl)
qed

section \<open>Properties of generate\_codename\<close>

subsection \<open>Shared steps\<close>

lemma cli_select_eq:
  "generate_codename_cli adjectives nouns cfg exclusions g =
     (case select_words adjectives nouns exclusions (min_length cfg) (max_length cfg) of
        Inl f \<Rightarrow> Inl (SystemExit 1 (''Error: '' @ failure_message f))
      | Inr (A, N) \<Rightarrow> gen_loop (nat (count cfg)) (gen_one apply_case cfg A N) g)"
  by (simp add: generate_codename_cli_def generate_steps)

lemma main_select_eq:
  "generate_codename_main adjectives nouns cfg exclusions g =
     (if adjectives = [] \<or> nouns = [] then
        Inr ([''Could not generate codename due to missing word lists''], g)
      else case select_words adjectives nouns exclusions (min_length cfg) (max_length cfg) of
        Inl f \<Rightarrow> Inr ([main_message f], g)
      | Inr (A, N) \<Rightarrow> gen_loop (nat (count cfg)) (gen_one apply_case cfg A N) g)"
proof (cases "adjectives = [] \<or> nouns = []")
  case True
  then show ?thesis by (simp add: generate_codename_main_def)
next
  case False
  have keep: "filter (not_excluded []) ws = ws" for ws
    by (simp add: not_excluded_def)
  from False show ?thesis
    by (cases "exclusions = []")
       (simp_all add: generate_codename_main_def generate_steps keep filter_excluded_words_nonempty)
qed

lemma apply_case_total_if:
  "apply_case style sep raw = Inr name \<Longrightarrow> \<exists>name'. apply_case style sep raw' = Inr name'"
  by (rule apply_case_total) (auto simp: apply_case_def title_case_empty_sep split: if_splits)

lemma cli_sound:
  assumes "generate_codename_cli adjectives nouns cfg exclusions g = Inr (names, g')"
  shows "\<exists>A N. select_words adjectives nouns exclusions (min_length cfg) (max_length cfg) = Inr (A, N) \<and>
           length names = nat (count cfg) \<and>
           (\<forall>name \<in> set names. \<exists>raw \<in> set (raw_candidates (pattern cfg) (separator cfg) A N).
              apply_case (case_style cfg) (separator cfg) raw = Inr name)"
proof -
  obtain A N where sel: "select_words adjectives nouns exclusions (min_length cfg) (max_length cfg) = Inr (A, N)"
    and loop: "gen_loop (nat (count cfg)) (gen_one apply_case cfg A N) g = Inr (names, g')"
    using assms by (auto simp: cli_select_eq split: sum.splits)
  have "\<forall>name \<in> set names. \<exists>raw \<in> set (raw_candidates (pattern cfg) (separator cfg) A N).
          apply_case (case_style cfg) (separator cfg) raw = Inr name"
    using gen_loop_all [OF gen_one_sound loop] .
  with sel gen_loop_length [OF loop] show ?thesis by blast
qed

lemma gen_one_singletons:
  assumes "pattern cfg = ''adj-noun''"
    and "apply_case (case_style cfg) (separator cfg) (a @ separator cfg @ n) = Inr name"
  shows "gen_one apply_case cfg [a] [n] g = Inr (name, stl (stl g))"
  using assms by (simp add: gen_one_def make_raw_def py_choice_def)

lemma gen_loop_singletons:
  assumes "\<And>g. body g = Inr (x, stl (stl g))"
  shows "gen_loop k body g = Inr (replicate k x, sdrop (2 * k) g)"
  by (induction k arbitrary: g) (simp_all add: assms)

lemma cli_errors:
  assumes "generate_codename_cli adjectives nouns cfg exclusions g = Inl e"
  shows "(\<exists>f. e = SystemExit 1 (''Error: '' @ failure_message f)) \<or> e = ValueError ''empty separator''"
proof (cases "select_words adjectives nouns exclusions (min_length cfg) (max_length cfg)")
  case (Inl f)
  with assms have "e = SystemExit 1 (''Error: '' @ failure_message f)"
    by (simp add: cli_select_eq)
  then show ?thesis by blast
next
  case (Inr AN)
  then obtain A N where sel: "select_words adjectives nouns exclusions (min_length cfg) (max_length cfg) = Inr (A, N)"
    by (cases AN) auto
  with assms have "gen_loop (nat (count cfg)) (gen_one apply_case cfg A N) g = Inl e"
    by (simp add: cli_select_eq)
  then obtain g0 where "gen_one apply_case cfg A N g0 = Inl e" using gen_loop_Inl by blast
  with select_words_Inr [OF sel] show ?thesis using gen_one_apply_case_Inl by blast
qed

subsection \<open>The CLI generator refines the specification\<close>

text \<open>C1: \<^verbatim>\<open>generate_codename\<close> of the CLI is the specification's word selection (spec 4.6 steps 1 to 4) followed by the loop: it exits with status 1 and the failure's message exactly when the selection fails, and otherwise runs \<open>count\<close> iterations of pattern and case style on the selected words.\<close>

lemma generate_codename_cli_refines:
  "generate_codename_cli adjectives nouns cfg exclusions g =
     (case select_words adjectives nouns exclusions (min_length cfg) (max_length cfg) of
        Inl f \<Rightarrow> Inl (SystemExit 1 (''Error: '' @ failure_message f))
      | Inr (A, N) \<Rightarrow> gen_loop (nat (count cfg)) (gen_one apply_case cfg A N) g)"
  by (simp add: generate_codename_cli_def generate_steps)

text \<open>C2: Every successful CLI generation returns exactly \<open>count\<close> names, each the case-styled form of a raw string that the pattern builds from the selected (not excluded, length-admissible) words.\<close>

lemma generate_codename_cli_sound:
  assumes "generate_codename_cli adjectives nouns cfg exclusions g = Inr (names, g')"
  shows "\<exists>A N. select_words adjectives nouns exclusions (min_length cfg) (max_length cfg) = Inr (A, N) \<and>
           length names = nat (count cfg) \<and>
           (\<forall>name \<in> set names. \<exists>raw \<in> set (raw_candidates (pattern cfg) (separator cfg) A N).
              apply_case (case_style cfg) (separator cfg) raw = Inr name)"
  using assms by (rule cli_sound)

text \<open>C3: When the selection succeeds and the separator is not empty (or the case style is not title case), the CLI generation returns a list of names: it never raises and the loop ends.\<close>

lemma generate_codename_cli_total:
  assumes "select_words adjectives nouns exclusions (min_length cfg) (max_length cfg) = Inr (A, N)"
    and "separator cfg \<noteq> [] \<or> case_style cfg \<in> {''upper'', ''lower'', ''sentence''}"
  shows "\<exists>names g'. generate_codename_cli adjectives nouns cfg exclusions g = Inr (names, g')"
proof -
  have ne: "A \<noteq> []" "N \<noteq> []" using select_words_Inr [OF assms(1)] by auto
  have "\<exists>name g'. gen_one apply_case cfg A N g0 = Inr (name, g')" for g0
    using gen_one_total [OF ne] apply_case_total [OF assms(2)] by blast
  then have "\<exists>xs g'. gen_loop (nat (count cfg)) (gen_one apply_case cfg A N) g = Inr (xs, g')"
    by (rule gen_loop_total)
  with assms(1) show ?thesis by (simp add: cli_select_eq)
qed

text \<open>C4: The only ways the CLI generation fails are the four exits of spec 7 with their messages, and the ValueError of an empty separator; in particular the pattern engine never draws from an empty list (no IndexError).\<close>

lemma generate_codename_cli_errors:
  assumes "generate_codename_cli adjectives nouns cfg exclusions g = Inl e"
  shows "(\<exists>f. e = SystemExit 1 (''Error: '' @ failure_message f)) \<or> e = ValueError ''empty separator''"
  using assms by (rule cli_errors)

text \<open>C5: Every raw string the pattern can build from the selected words is produced by some sequence of random draws: the generator can return each admissible codename.\<close>

lemma generate_codename_cli_reaches:
  assumes sel: "select_words adjectives nouns exclusions (min_length cfg) (max_length cfg) = Inr (A, N)"
    and raw: "raw \<in> set (raw_candidates (pattern cfg) (separator cfg) A N)"
    and name: "apply_case (case_style cfg) (separator cfg) raw = Inr name"
    and cnt: "0 < count cfg"
  shows "\<exists>g names g'. generate_codename_cli adjectives nouns cfg exclusions g = Inr (name # names, g')"
proof -
  have ne: "A \<noteq> []" "N \<noteq> []" using select_words_Inr [OF sel] by auto
  obtain g g1 where r: "make_raw (pattern cfg) A N (separator cfg) g = Inr (raw, g1)"
    using make_raw_complete [OF raw] by blast
  obtain n where n: "nat (count cfg) = Suc n" using cnt by (cases "nat (count cfg)") auto
  have "\<exists>name g'. gen_one apply_case cfg A N g0 = Inr (name, g')" for g0
    using gen_one_total [OF ne] apply_case_total_if [OF name] by blast
  then obtain names g2 where rest: "gen_loop n (gen_one apply_case cfg A N) g1 = Inr (names, g2)"
    using gen_loop_total by blast
  from r name have "gen_one apply_case cfg A N g = Inr (name, g1)" by (simp add: gen_one_def)
  with rest sel n have "generate_codename_cli adjectives nouns cfg exclusions g = Inr (name # names, g2)"
    by (simp add: cli_select_eq)
  then show ?thesis by blast
qed

text \<open>C6: With an empty separator and title case (the default style), the CLI generation raises ValueError as soon as one name is produced, where spec 4.5 says title case degrades to sentence case.\<close>

lemma generate_codename_cli_empty_separator:
  assumes "select_words adjectives nouns exclusions (min_length cfg) (max_length cfg) = Inr (A, N)"
    and "0 < count cfg" "separator cfg = []" "case_style cfg \<notin> {''upper'', ''lower'', ''sentence''}"
  shows "generate_codename_cli adjectives nouns cfg exclusions g = Inl (ValueError ''empty separator'')"
proof -
  obtain n where n: "nat (count cfg) = Suc n" using assms(2) by (cases "nat (count cfg)") auto
  obtain raw g1 where r: "make_raw (pattern cfg) A N (separator cfg) g = Inr (raw, g1)"
    using make_raw_total select_words_Inr [OF assms(1)] by blast
  have "apply_case (case_style cfg) (separator cfg) raw = Inl (ValueError ''empty separator'')"
    using assms(3,4) by (simp add: apply_case_def title_case_empty_sep)
  with r have "gen_one apply_case cfg A N g = Inl (ValueError ''empty separator'')"
    by (simp add: gen_one_def)
  with assms(1) n show ?thesis by (simp add: cli_select_eq)
qed

text \<open>C7: The web generator performs the same selection and reports a failure as an error dictionary with the same message, leaving the random source untouched.\<close>

lemma generate_codename_web_refines:
  "generate_codename_web adjectives nouns cfg exclusions g =
     (case select_words adjectives nouns exclusions (min_length cfg) (max_length cfg) of
        Inl f \<Rightarrow> Inr (ErrorDict (failure_message f), g)
      | Inr (A, N) \<Rightarrow>
          py_bind (gen_loop (nat (count cfg)) (gen_one apply_case_web cfg A N) g)
            (\<lambda>(names, g'). Inr (Codenames names, g')))"
  by (simp add: generate_codename_web_def generate_steps)

text \<open>C8: The interactive generator of SpySpeak.py returns a failure as a one-element list holding the failure message, in place of the codenames; an empty input list is reported before exclusions are applied. The length limits filter each word, as in the other two copies and spec 4.3, although the function's own docstring (SpySpeak.py lines 124 to 126) calls them limits on the total characters of a codename.\<close>

lemma generate_codename_main_refines:
  "generate_codename_main adjectives nouns cfg exclusions g =
     (if adjectives = [] \<or> nouns = [] then
        Inr ([''Could not generate codename due to missing word lists''], g)
      else case select_words adjectives nouns exclusions (min_length cfg) (max_length cfg) of
        Inl f \<Rightarrow> Inr ([main_message f], g)
      | Inr (A, N) \<Rightarrow> gen_loop (nat (count cfg)) (gen_one apply_case cfg A N) g)"
proof (cases "adjectives = [] \<or> nouns = []")
  case True
  then show ?thesis by (simp add: generate_codename_main_def)
next
  case False
  have keep: "filter (not_excluded []) ws = ws" for ws
    by (simp add: not_excluded_def)
  from False show ?thesis
    by (cases "exclusions = []")
       (simp_all add: generate_codename_main_def generate_steps keep filter_excluded_words_nonempty)
qed

text \<open>C10: With one adjective and one noun that pass the filters, the adj-noun pattern is deterministic: every one of the count names is the case-styled adjective, separator and noun, whatever the random draws.\<close>

lemma generate_codename_cli_singletons:
  assumes "select_words [a] [n] exclusions (min_length cfg) (max_length cfg) = Inr ([a], [n])"
    and "pattern cfg = ''adj-noun''"
    and "apply_case (case_style cfg) (separator cfg) (a @ separator cfg @ n) = Inr name"
  shows "generate_codename_cli [a] [n] cfg exclusions g =
           Inr (replicate (nat (count cfg)) name, sdrop (2 * nat (count cfg)) g)"
  using assms gen_loop_singletons [OF gen_one_singletons [OF assms(2,3)]]
  by (simp add: cli_select_eq)

text \<open>C11: If every adjective is excluded (case-insensitively), the CLI exits with the adjectives-after-exclusion message.\<close>

lemma generate_codename_cli_all_adjectives_excluded:
  assumes "\<forall>w \<in> set adjectives. py_lower w \<in> set exclusions"
  shows "generate_codename_cli adjectives nouns cfg exclusions g =
           Inl (SystemExit 1 ''Error: No valid adjectives available after applying exclusions'')"
proof -
  from assms have "filter (not_excluded exclusions) adjectives = []"
    by (simp add: not_excluded_def filter_empty_conv)
  then show ?thesis by (simp add: cli_select_eq select_words_def)
qed

text \<open>C12: If adjectives and nouns survive the exclusions but every adjective is shorter than the minimum length, the CLI exits with the adjectives length message.\<close>

lemma generate_codename_cli_adjectives_too_short:
  assumes "filter (not_excluded exclusions) adjectives \<noteq> []"
    and "filter (not_excluded exclusions) nouns \<noteq> []"
    and "\<forall>w \<in> set adjectives. int (length w) < min_length cfg"
  shows "generate_codename_cli adjectives nouns cfg exclusions g =
           Inl (SystemExit 1 ''Error: No adjectives meet the length criteria'')"
proof -
  have "filter (length_ok (min_length cfg) (max_length cfg)) (filter (not_excluded exclusions) adjectives) = []"
    using assms(3) by (auto simp: filter_empty_conv length_ok_def)
  with assms(1,2) show ?thesis by (simp add: cli_select_eq select_words_def)
qed

text \<open>C13: Every name of the adj-noun-number pattern ends with the decimal digits of a number between 1 and 999, whatever the case style.\<close>

lemma generate_codename_cli_number_suffix:
  assumes "generate_codename_cli adjectives nouns cfg exclusions g = Inr (names, g')"
    and "pattern cfg = ''adj-noun-number''" and "name \<in> set names"
  shows "\<exists>pre k. 1 \<le> k \<and> k \<le> 999 \<and> name = pre @ py_str_nat k"
proof -
  from cli_sound [OF assms(1)] assms(3) obtain A N raw where
    raw: "raw \<in> set (raw_candidates (pattern cfg) (separator cfg) A N)"
    and nm: "apply_case (case_style cfg) (separator cfg) raw = Inr name"
    by blast
  from raw assms(2) obtain x k where k: "1 \<le> k" "k < 1000" and rx: "raw = x @ py_str_nat k"
    by (auto simp: raw_candidates_def)
  from nm rx obtain pre where "name = pre @ py_str_nat k"
    using apply_case_keeps_suffix no_letters_py_str_nat by blast
  with k have "1 \<le> k \<and> k \<le> 999 \<and> name = pre @ py_str_nat k" by simp
  then show ?thesis by blast
qed

subsection \<open>Case styles\<close>

section \<open>Witnesses\<close>

text \<open>
  Each property above applied at concrete inputs where its hypotheses hold: the hypotheses
  are evaluated by the simplifier, and the conclusion is the theorem's own instance. The
  inputs are the CLI defaults (\<open>cli_default_config\<close>) and the examples of spec 8.
\<close>

theorem generate_codename_cli_refines_witness:
  "generate_codename_cli [''ghost''] [''wolf''] cli_default_config [''ghost''] (sconst 0) =
     Inl (SystemExit 1 ''Error: No valid adjectives available after applying exclusions'')"
  by (subst generate_codename_cli_refines) (simp add: model_defs spec_defs py_defs)

theorem generate_codename_cli_sound_witness:
  "generate_codename_cli [''Brave''] [''Tiger''] cli_default_config [] (sconst 0) =
     Inr ([''Brave Tiger''], sconst 0) \<and>
   (\<exists>A N. select_words [''Brave''] [''Tiger''] [] (min_length cli_default_config)
             (max_length cli_default_config) = Inr (A, N) \<and>
      length [''Brave Tiger''] = nat (count cli_default_config) \<and>
      (\<forall>name \<in> set [''Brave Tiger'']. \<exists>raw \<in> set (raw_candidates (pattern cli_default_config)
             (separator cli_default_config) A N).
         apply_case (case_style cli_default_config) (separator cli_default_config) raw = Inr name))"
proof -
  have h: "generate_codename_cli [''Brave''] [''Tiger''] cli_default_config [] (sconst 0) =
             Inr ([''Brave Tiger''], sconst 0)"
    by (simp add: model_defs py_defs)
  show ?thesis using h generate_codename_cli_sound [OF h] by blast
qed

theorem generate_codename_cli_total_witness:
  "select_words [''Brave''] [''Tiger''] [] (min_length cli_default_config) (max_length cli_default_config)
     = Inr ([''Brave''], [''Tiger'']) \<and>
   separator cli_default_config \<noteq> [] \<and>
   (\<exists>names g'. generate_codename_cli [''Brave''] [''Tiger''] cli_default_config [] (sconst 0) = Inr (names, g'))"
proof -
  have h1: "select_words [''Brave''] [''Tiger''] [] (min_length cli_default_config) (max_length cli_default_config)
              = Inr ([''Brave''], [''Tiger''])"
    by (simp add: model_defs spec_defs)
  have sep: "separator cli_default_config \<noteq> []" by (simp add: cli_default_config_def)
  then have h2: "separator cli_default_config \<noteq> [] \<or>
                   case_style cli_default_config \<in> {''upper'', ''lower'', ''sentence''}" ..
  show ?thesis using h1 sep generate_codename_cli_total [OF h1 h2, of "sconst 0"] by blast
qed

theorem generate_codename_cli_errors_witness:
  "generate_codename_cli [''brave''] [''tiger''] (cli_default_config\<lparr>separator := []\<rparr>) [] (sconst 0) =
     Inl (ValueError ''empty separator'') \<and>
   ((\<exists>f. ValueError ''empty separator'' = SystemExit 1 (''Error: '' @ failure_message f)) \<or>
    ValueError ''empty separator'' = ValueError ''empty separator'')"
proof -
  have h: "generate_codename_cli [''brave''] [''tiger''] (cli_default_config\<lparr>separator := []\<rparr>) [] (sconst 0) =
             Inl (ValueError ''empty separator'')"
    by (simp add: model_defs py_defs)
  show ?thesis using h generate_codename_cli_errors [OF h] by blast
qed

theorem generate_codename_cli_reaches_witness:
  "select_words [''Brave'', ''Silent''] [''Tiger''] [] (min_length cli_default_config)
     (max_length cli_default_config) = Inr ([''Brave'', ''Silent''], [''Tiger'']) \<and>
   ''Silent Tiger'' \<in> set (raw_candidates (pattern cli_default_config) (separator cli_default_config)
     [''Brave'', ''Silent''] [''Tiger'']) \<and>
   apply_case (case_style cli_default_config) (separator cli_default_config) ''Silent Tiger''
     = Inr ''Silent Tiger'' \<and>
   0 < count cli_default_config \<and>
   (\<exists>g names g'. generate_codename_cli [''Brave'', ''Silent''] [''Tiger''] cli_default_config [] g =
      Inr (''Silent Tiger'' # names, g'))"
proof -
  have h1: "select_words [''Brave'', ''Silent''] [''Tiger''] [] (min_length cli_default_config)
              (max_length cli_default_config) = Inr ([''Brave'', ''Silent''], [''Tiger''])"
    by (simp add: model_defs spec_defs)
  have h2: "''Silent Tiger'' \<in> set (raw_candidates (pattern cli_default_config)
              (separator cli_default_config) [''Brave'', ''Silent''] [''Tiger''])"
    by (simp add: raw_candidates_def cli_default_config_def)
  have h3: "apply_case (case_style cli_default_config) (separator cli_default_config) ''Silent Tiger''
              = Inr ''Silent Tiger''"
    by (simp add: model_defs py_defs)
  have h4: "0 < count cli_default_config" by (simp add: cli_default_config_def)
  show ?thesis using h1 h2 h3 h4 generate_codename_cli_reaches [OF h1 h2 h3 h4] by blast
qed

theorem generate_codename_cli_empty_separator_witness:
  "select_words [''brave''] [''tiger''] [] (min_length (cli_default_config\<lparr>separator := []\<rparr>))
     (max_length (cli_default_config\<lparr>separator := []\<rparr>)) = Inr ([''brave''], [''tiger'']) \<and>
   0 < count (cli_default_config\<lparr>separator := []\<rparr>) \<and>
   separator (cli_default_config\<lparr>separator := []\<rparr>) = [] \<and>
   case_style (cli_default_config\<lparr>separator := []\<rparr>) \<notin> {''upper'', ''lower'', ''sentence''} \<and>
   generate_codename_cli [''brave''] [''tiger''] (cli_default_config\<lparr>separator := []\<rparr>) [] (sconst 0) =
     Inl (ValueError ''empty separator'')"
proof -
  let ?cfg = "cli_default_config\<lparr>separator := []\<rparr>"
  have h1: "select_words [''brave''] [''tiger''] [] (min_length ?cfg) (max_length ?cfg)
              = Inr ([''brave''], [''tiger''])"
    by (simp add: model_defs spec_defs)
  have h2: "0 < count ?cfg" and h3: "separator ?cfg = []"
    and h4: "case_style ?cfg \<notin> {''upper'', ''lower'', ''sentence''}"
    by (simp_all add: cli_default_config_def)
  show ?thesis
    using h1 h2 h3 h4 generate_codename_cli_empty_separator [OF h1 h2 h3 h4, of "sconst 0"] by blast
qed

theorem generate_codename_web_refines_witness:
  "generate_codename_web [''ghost''] [''wolf''] cli_default_config [''ghost''] (sconst 0) =
     Inr (ErrorDict ''No valid adjectives available after applying exclusions'', sconst 0)"
  by (subst generate_codename_web_refines) (simp add: model_defs spec_defs py_defs)

theorem generate_codename_main_refines_witness:
  "generate_codename_main [''Brave''] [''Tiger''] cli_default_config [] (sconst 0) =
     Inr ([''Brave Tiger''], sconst 0)"
  by (subst generate_codename_main_refines) (simp add: model_defs spec_defs py_defs)

theorem generate_codename_cli_singletons_witness:
  "select_words [''Brave''] [''Tiger''] [] (min_length cli_default_config) (max_length cli_default_config)
     = Inr ([''Brave''], [''Tiger'']) \<and>
   pattern cli_default_config = ''adj-noun'' \<and>
   apply_case (case_style cli_default_config) (separator cli_default_config)
     (''Brave'' @ separator cli_default_config @ ''Tiger'') = Inr ''Brave Tiger'' \<and>
   (\<forall>g. generate_codename_cli [''Brave''] [''Tiger''] cli_default_config [] g =
      Inr (replicate (nat (count cli_default_config)) ''Brave Tiger'', sdrop (2 * nat (count cli_default_config)) g))"
proof -
  have h1: "select_words [''Brave''] [''Tiger''] [] (min_length cli_default_config)
              (max_length cli_default_config) = Inr ([''Brave''], [''Tiger''])"
    by (simp add: model_defs spec_defs)
  have h2: "pattern cli_default_config = ''adj-noun''" by (simp add: cli_default_config_def)
  have h3: "apply_case (case_style cli_default_config) (separator cli_default_config)
              (''Brave'' @ separator cli_default_config @ ''Tiger'') = Inr ''Brave Tiger''"
    by (simp add: model_defs py_defs)
  show ?thesis using h1 h2 h3 generate_codename_cli_singletons [OF h1 h2 h3] by blast
qed

theorem generate_codename_cli_all_adjectives_excluded_witness:
  "py_lower ''Ghost'' \<in> set [''ghost''] \<and>
   (\<forall>g. generate_codename_cli [''Ghost''] [''wolf''] cli_default_config [''ghost''] g =
      Inl (SystemExit 1 ''Error: No valid adjectives available after applying exclusions''))"
proof -
  have e: "py_lower ''Ghost'' \<in> set [''ghost'']" by (simp add: py_defs)
  then have h: "\<forall>w \<in> set [''Ghost'']. py_lower w \<in> set [''ghost'']" by simp
  show ?thesis using e generate_codename_cli_all_adjectives_excluded [OF h] by blast
qed

theorem generate_codename_cli_adjectives_too_short_witness:
  "filter (not_excluded []) [''ab'', ''cdef''] \<noteq> [] \<and> filter (not_excluded []) [''xy''] \<noteq> [] \<and>
   int (length ''ab'') < min_length (cli_default_config\<lparr>min_length := 5\<rparr>) \<and>
   int (length ''cdef'') < min_length (cli_default_config\<lparr>min_length := 5\<rparr>) \<and>
   generate_codename_cli [''ab'', ''cdef''] [''xy''] (cli_default_config\<lparr>min_length := 5\<rparr>) [] (sconst 0) =
     Inl (SystemExit 1 ''Error: No adjectives meet the length criteria'')"
proof -
  let ?cfg = "cli_default_config\<lparr>min_length := 5\<rparr>"
  have h1: "filter (not_excluded []) [''ab'', ''cdef''] \<noteq> []"
    and h2: "filter (not_excluded []) [''xy''] \<noteq> []"
    by simp_all
  have l1: "int (length ''ab'') < min_length ?cfg" and l2: "int (length ''cdef'') < min_length ?cfg"
    by (simp_all add: cli_default_config_def)
  then have h3: "\<forall>w \<in> set [''ab'', ''cdef'']. int (length w) < min_length ?cfg" by simp
  show ?thesis
    using h1 h2 l1 l2 generate_codename_cli_adjectives_too_short [OF h1 h2 h3, of "sconst 0"] by blast
qed

theorem generate_codename_cli_number_suffix_witness:
  "generate_codename_cli [''bRave''] [''tiger''] (cli_default_config\<lparr>pattern := ''adj-noun-number''\<rparr>) []
     (sconst 41) = Inr ([''Brave Tiger 42''], sconst 41) \<and>
   pattern (cli_default_config\<lparr>pattern := ''adj-noun-number''\<rparr>) = ''adj-noun-number'' \<and>
   ''Brave Tiger 42'' \<in> set [''Brave Tiger 42''] \<and>
   (\<exists>pre k. 1 \<le> k \<and> k \<le> 999 \<and> ''Brave Tiger 42'' = pre @ py_str_nat k)"
proof -
  let ?cfg = "cli_default_config\<lparr>pattern := ''adj-noun-number''\<rparr>"
  have h1: "generate_codename_cli [''bRave''] [''tiger''] ?cfg [] (sconst 41) = Inr ([''Brave Tiger 42''], sconst 41)"
    by (simp add: model_defs py_defs)
  have h2: "pattern ?cfg = ''adj-noun-number''" by simp
  have h3: "''Brave Tiger 42'' \<in> set [''Brave Tiger 42'']" by simp
  show ?thesis using h1 h2 h3 generate_codename_cli_number_suffix [OF h1 h2 h3] by blast
qed

end
