(* ===== verification/Output.thy ===== *)
theory Output
  imports Loading
begin

text \<open>
  \<^verbatim>\<open>format_output\<close> (\<^verbatim>\<open>SpySpeak.py\<close> and \<^verbatim>\<open>SpySpeak-cli.py\<close>, identical): text,
  JSON through \<^verbatim>\<open>json.dumps(..., indent=2)\<close> (whose default \<^verbatim>\<open>ensure_ascii\<close> escapes
  every character outside the printable ASCII range), CSV through \<^verbatim>\<open>csv.writer\<close>
  (excel dialect: comma, double quote, \<^verbatim>\<open>\r\n\<close>, minimal quoting, a lone empty field
  written as \<^verbatim>\<open>""\<close>) and HTML with the names inserted verbatim. The readers at the end
  are the other side of the round-trip laws: a JSON reader for an object holding a
  \<^verbatim>\<open>codenames\<close> array of strings (any JSON whitespace, every string escape; a
  \<^verbatim>\<open>\u\<close> escape must denote a code point below 256, the alphabet of the model) and an
  RFC 4180 CSV reader.
\<close>

section \<open>JSON encoding\<close>

abbreviation DQ :: char where "DQ \<equiv> CHR 0x22"
abbreviation BS :: char where "BS \<equiv> CHR 0x5C"

definition hex_digit :: "nat \<Rightarrow> char" where
  "hex_digit n = ''0123456789abcdef'' ! n"

text \<open>\<^verbatim>\<open>json.encoder.py_encode_basestring_ascii\<close>, one character at a time.\<close>

definition json_escape_char :: "char \<Rightarrow> string" where
  "json_escape_char c =
     (if c = DQ then [BS, DQ]
      else if c = BS then [BS, BS]
      else if c = LF then [BS, CHR ''n'']
      else if c = CR then [BS, CHR ''r'']
      else if c = CHR 0x09 then [BS, CHR ''t'']
      else if c = CHR 0x08 then [BS, CHR ''b'']
      else if c = CHR 0x0C then [BS, CHR ''f'']
      else if (of_char c :: nat) < 32 \<or> 126 < (of_char c :: nat) then
        [BS, CHR ''u'', CHR ''0'', CHR ''0'', hex_digit (of_char c div 16), hex_digit (of_char c mod 16)]
      else [c])"

definition json_string :: "string \<Rightarrow> string" where
  "json_string s = [DQ] @ concat (map json_escape_char s) @ [DQ]"

text \<open>\<^verbatim>\<open>json.dumps({"codenames": codenames}, indent=2)\<close>\<close>

definition json_dump_codenames :: "string list \<Rightarrow> string" where
  "json_dump_codenames codenames =
     (if codenames = [] then ''{'' @ [LF] @ ''  '' @ json_string ''codenames'' @ '': []'' @ [LF] @ ''}''
      else ''{'' @ [LF] @ ''  '' @ json_string ''codenames'' @ '': ['' @ [LF] @
           py_join ('','' @ [LF]) (map (\<lambda>name. ''    '' @ json_string name) codenames) @
           [LF] @ ''  ]'' @ [LF] @ ''}'')"

section \<open>CSV encoding\<close>

text \<open>Minimal quoting: a field is quoted when it holds the delimiter, the quote or a line break.\<close>

definition csv_needs_quote :: "string \<Rightarrow> bool" where
  "csv_needs_quote f \<longleftrightarrow> CHR '','' \<in> set f \<or> DQ \<in> set f \<or> CR \<in> set f \<or> LF \<in> set f"

definition csv_quote :: "string \<Rightarrow> string" where
  "csv_quote f = [DQ] @ concat (map (\<lambda>c. if c = DQ then [DQ, DQ] else [c]) f) @ [DQ]"

definition csv_field :: "string \<Rightarrow> string" where
  "csv_field f = (if csv_needs_quote f then csv_quote f else f)"

text \<open>\<^verbatim>\<open>writer.writerow(row)\<close>: a row made of one empty field is written as \<^verbatim>\<open>""\<close>.\<close>

definition csv_row :: "string list \<Rightarrow> string" where
  "csv_row row =
     (if row = [[]] then [DQ, DQ] else py_join '','' (map csv_field row)) @ [CR, LF]"

section \<open>format\_output\<close>

definition html_document :: "string list \<Rightarrow> string" where
  "html_document codenames =
     ''<html>'' @ [LF] @ ''<head><title>Generated Codenames</title></head>'' @ [LF] @ ''<body>'' @ [LF] @
     ''<h1>Generated Codenames</h1>'' @ [LF] @ ''<ul>'' @ [LF] @
     concat [''  <li>'' @ name @ ''</li>'' @ [LF]. name \<leftarrow> codenames] @
     ''</ul>'' @ [LF] @ ''</body>'' @ [LF] @ ''</html>''"

definition format_output :: "string list \<Rightarrow> string \<Rightarrow> string" where
  "format_output codenames format_type =
     (if format_type = ''json'' then json_dump_codenames codenames
      else if format_type = ''csv'' then csv_row [''Codename''] @ concat (map (\<lambda>name. csv_row [name]) codenames)
      else if format_type = ''html'' then html_document codenames
      else py_join [LF] codenames)"

section \<open>Reading JSON back\<close>

definition json_ws :: "char \<Rightarrow> bool" where
  "json_ws c \<longleftrightarrow> c = CHR '' '' \<or> c = CHR 0x09 \<or> c = LF \<or> c = CR"

definition skip_ws :: "string \<Rightarrow> string" where
  "skip_ws s = dropWhile json_ws s"

definition hex_val :: "char \<Rightarrow> nat option" where
  "hex_val c =
     (let n = (of_char c :: nat) in
      if 48 \<le> n \<and> n \<le> 57 then Some (n - 48)
      else if 97 \<le> n \<and> n \<le> 102 then Some (n - 87)
      else if 65 \<le> n \<and> n \<le> 70 then Some (n - 55)
      else None)"

text \<open>The character an escape sequence (after the backslash) stands for, and the rest.\<close>

fun json_unescape :: "string \<Rightarrow> (char \<times> string) option" where
  "json_unescape [] = None"
| "json_unescape (e # r) =
     (if e = DQ then Some (DQ, r)
      else if e = BS then Some (BS, r)
      else if e = CHR ''/'' then Some (CHR ''/'', r)
      else if e = CHR ''b'' then Some (CHR 0x08, r)
      else if e = CHR ''f'' then Some (CHR 0x0C, r)
      else if e = CHR ''n'' then Some (LF, r)
      else if e = CHR ''r'' then Some (CR, r)
      else if e = CHR ''t'' then Some (CHR 0x09, r)
      else if e = CHR ''u'' then
        (case r of
           a # b # c # d # r' \<Rightarrow>
             (case (hex_val a, hex_val b, hex_val c, hex_val d) of
                (Some va, Some vb, Some vc, Some vd) \<Rightarrow>
                  let v = ((va * 16 + vb) * 16 + vc) * 16 + vd in
                  if v < 256 then Some (char_of v, r') else None
              | _ \<Rightarrow> None)
         | _ \<Rightarrow> None)
      else None)"

text \<open>The body of a string literal after its opening quote: the text and the rest after the closing quote.\<close>

function json_string_body :: "string \<Rightarrow> (string \<times> string) option" where
  "json_string_body s =
     (case s of
        [] \<Rightarrow> None
      | c # r \<Rightarrow>
          if c = DQ then Some ([], r)
          else if c = BS then
            (case json_unescape r of
               None \<Rightarrow> None
             | Some (d, r') \<Rightarrow> map_option (apfst (Cons d)) (json_string_body r'))
          else if (of_char c :: nat) < 32 then None
          else map_option (apfst (Cons c)) (json_string_body r))"
  by pat_completeness auto
termination
  apply (relation "measure length")
   apply simp
  apply clarsimp
  subgoal for r d r'
    by (cases r rule: json_unescape.cases) (auto simp: Let_def split: if_splits list.splits option.splits)
  apply simp
  done

declare json_string_body.simps [simp del]

definition parse_json_string :: "string \<Rightarrow> (string \<times> string) option" where
  "parse_json_string s = (case skip_ws s of c # r \<Rightarrow> if c = DQ then json_string_body r else None | [] \<Rightarrow> None)"

definition expect :: "char \<Rightarrow> string \<Rightarrow> string option" where
  "expect c s = (case skip_ws s of d # r \<Rightarrow> if d = c then Some r else None | [] \<Rightarrow> None)"

lemma json_string_body_shorter:
  "json_string_body s = Some (x, r) \<Longrightarrow> length r < length s"
proof (induction s arbitrary: x rule: json_string_body.induct)
  case (1 s)
  show ?case
  proof (cases s)
    case Nil
    with "1.prems" show ?thesis by (simp add: json_string_body.simps)
  next
    case (Cons c t)
    have esc: "length t' < length t" if "json_unescape t = Some (d, t')" for d t'
      using that by (cases t rule: json_unescape.cases) (auto simp: Let_def split: if_splits list.splits option.splits)
    from "1.prems" Cons show ?thesis
      using "1.IH" [OF Cons] esc
      by (auto simp: json_string_body.simps [of "c # t"] split: if_splits option.splits prod.splits)
        fastforce+
  qed
qed

lemma parse_json_string_shorter:
  "parse_json_string s = Some (x, r) \<Longrightarrow> length r < length s"
proof -
  assume p: "parse_json_string s = Some (x, r)"
  have "length (skip_ws s) \<le> length s" by (simp add: skip_ws_def length_dropWhile_le)
  with p json_string_body_shorter show ?thesis
    by (fastforce simp: parse_json_string_def split: list.splits if_splits)
qed

lemma skip_ws_Cons_shorter: "skip_ws r = c # r' \<Longrightarrow> length r' < length r"
  using length_dropWhile_le [of json_ws r] by (simp add: skip_ws_def)

text \<open>The elements of a non-empty array, after the opening bracket: the strings and the rest after \<^verbatim>\<open>]\<close>.\<close>

function parse_items :: "string \<Rightarrow> (string list \<times> string) option" where
  "parse_items s =
     (case parse_json_string s of
        None \<Rightarrow> None
      | Some (x, r) \<Rightarrow>
          (case skip_ws r of
             [] \<Rightarrow> None
           | c # r' \<Rightarrow>
               if c = CHR '','' then map_option (apfst (Cons x)) (parse_items r')
               else if c = CHR '']'' then Some ([x], r')
               else None))"
  by pat_completeness auto
termination
  by (relation "measure length") (auto dest!: parse_json_string_shorter skip_ws_Cons_shorter)

declare parse_items.simps [simp del]

definition parse_array :: "string \<Rightarrow> (string list \<times> string) option" where
  "parse_array s =
     (case expect CHR ''['' s of
        None \<Rightarrow> None
      | Some r \<Rightarrow> (case skip_ws r of
                    c # r' \<Rightarrow> if c = CHR '']'' then Some ([], r') else parse_items r
                  | [] \<Rightarrow> None))"

text \<open>\<^verbatim>\<open>json.loads(s)["codenames"]\<close> for a document that is an object with that one key.\<close>

definition json_load_codenames :: "string \<Rightarrow> string list option" where
  "json_load_codenames s =
     (case expect CHR ''{'' s of
        None \<Rightarrow> None
      | Some r1 \<Rightarrow>
          (case parse_json_string r1 of
             None \<Rightarrow> None
           | Some (key, r2) \<Rightarrow>
               if key \<noteq> ''codenames'' then None
               else (case expect CHR '':'' r2 of
                       None \<Rightarrow> None
                     | Some r3 \<Rightarrow>
                         (case parse_array r3 of
                            None \<Rightarrow> None
                          | Some (xs, r4) \<Rightarrow>
                              (case expect CHR ''}'' r4 of
                                 None \<Rightarrow> None
                               | Some r5 \<Rightarrow> if skip_ws r5 = [] then Some xs else None)))))"

section \<open>Reading CSV back\<close>

text \<open>The body of a quoted field after its opening quote; a doubled quote stands for one.\<close>

fun csv_quoted :: "string \<Rightarrow> (string \<times> string) option" where
  "csv_quoted [] = None"
| "csv_quoted (c # r) =
     (if c = DQ then
        (case r of
           d # r' \<Rightarrow> if d = DQ then map_option (apfst (Cons DQ)) (csv_quoted r') else Some ([], r)
         | [] \<Rightarrow> Some ([], []))
      else map_option (apfst (Cons c)) (csv_quoted r))"

definition csv_delim :: "char \<Rightarrow> bool" where
  "csv_delim c \<longleftrightarrow> c = CHR '','' \<or> c = CR \<or> c = LF"

definition csv_parse_field :: "string \<Rightarrow> (string \<times> string) option" where
  "csv_parse_field s =
     (case s of
        c # r \<Rightarrow> if c = DQ then csv_quoted r else Some (takeWhile (Not \<circ> csv_delim) s, dropWhile (Not \<circ> csv_delim) s)
      | [] \<Rightarrow> Some ([], []))"

lemma csv_quoted_shorter: "csv_quoted s = Some (f, r) \<Longrightarrow> length r < length s"
proof (induction s arbitrary: f rule: csv_quoted.induct)
  case 1
  then show ?case by simp
next
  case (2 c t)
  show ?case
  proof (cases "c = DQ")
    case True
    show ?thesis
    proof (cases t)
      case Nil
      with "2.prems" True show ?thesis by simp
    next
      case (Cons d t')
      with "2.prems" "2.IH"(1) [OF True Cons] True show ?thesis
        by (cases "d = DQ") fastforce+
    qed
  next
    case False
    with "2.prems" "2.IH"(2) show ?thesis by fastforce
  qed
qed

lemma csv_parse_field_le: "csv_parse_field s = Some (f, r) \<Longrightarrow> length r \<le> length s"
  by (auto simp: csv_parse_field_def split: list.splits if_splits
           dest!: csv_quoted_shorter intro: le_SucI length_dropWhile_le)

function csv_parse_record :: "string \<Rightarrow> (string list \<times> string) option" where
  "csv_parse_record s =
     (case csv_parse_field s of
        None \<Rightarrow> None
      | Some (f, r) \<Rightarrow>
          (case r of
             [] \<Rightarrow> Some ([f], [])
           | c # r' \<Rightarrow>
               if c = CHR '','' then map_option (apfst (Cons f)) (csv_parse_record r')
               else if c = CR then (case r' of d # r'' \<Rightarrow> if d = LF then Some ([f], r'') else Some ([f], r') | [] \<Rightarrow> Some ([f], []))
               else if c = LF then Some ([f], r')
               else None))"
  by pat_completeness auto
termination
  by (relation "measure length") (auto dest!: csv_parse_field_le)

declare csv_parse_record.simps [simp del]

lemma csv_parse_record_shorter:
  "csv_parse_record s = Some (row, r) \<Longrightarrow> length r < length s \<or> (s = [] \<and> r = [])"
proof (induction s arbitrary: row r rule: csv_parse_record.induct)
  case (1 s)
  from "1.prems" obtain f r0 where fld: "csv_parse_field s = Some (f, r0)"
    by (subst (asm) csv_parse_record.simps) (auto split: option.splits)
  note le = csv_parse_field_le [OF fld]
  show ?case
  proof (cases r0)
    case Nil
    with "1.prems" fld have "r = []"
      by (subst (asm) csv_parse_record.simps) simp
    then show ?thesis by (cases s) auto
  next
    case (Cons c r')
    have "length r \<le> length r'"
    proof -
      have rec: "length r \<le> length r'" if "c = CHR '',''" "csv_parse_record r' = Some (row', r)" for row'
        using "1.IH" [OF fld refl Cons that] by fastforce
      from "1.prems" fld Cons rec show ?thesis
        by (subst (asm) csv_parse_record.simps) (auto split: if_splits list.splits)
    qed
    with le Cons show ?thesis by simp
  qed
qed


function csv_parse :: "string \<Rightarrow> string list list option" where
  "csv_parse s =
     (if s = [] then Some []
      else (case csv_parse_record s of
              None \<Rightarrow> None
            | Some (row, r) \<Rightarrow> map_option (Cons row) (csv_parse r)))"
  by pat_completeness auto
termination
  by (relation "measure length") (auto dest: csv_parse_record_shorter)

declare csv_parse.simps [simp del]

section \<open>Properties of the encoders\<close>

subsection \<open>JSON\<close>

lemma hex_val_hex_digit: "n < 16 \<Longrightarrow> hex_val (hex_digit n) = Some n"
  by (auto simp: hex_val_def hex_digit_def numeral_eq_Suc less_Suc_eq)

lemma hex_val_0: "hex_val CHR ''0'' = Some 0"
  by (simp add: hex_val_def)

lemma json_unescape_u:
  "json_unescape (CHR ''u'' # CHR ''0'' # CHR ''0'' # hex_digit ((of_char c :: nat) div 16) #
                  hex_digit ((of_char c :: nat) mod 16) # rest) = Some (c, rest)"
proof -
  have n: "(of_char c :: nat) < 256" by (rule nat_of_char_less_256)
  then have a: "(of_char c :: nat) div 16 < 16"
    using less_mult_imp_div_less [of "of_char c" 16 16] by simp
  have b: "(of_char c :: nat) mod 16 < 16" by simp
  have v: "((0 * 16 + 0) * 16 + (of_char c :: nat) div 16) * 16 + (of_char c :: nat) mod 16 = of_char c"
    by simp
  show ?thesis
    using n by (simp only: json_unescape.simps hex_val_0 hex_val_hex_digit [OF a] hex_val_hex_digit [OF b]
      Let_def v if_True if_False list.case option.case prod.case char_of_char) simp
qed
lemma json_escape_char_cases:
  "(json_escape_char c = [c] \<and> c \<noteq> DQ \<and> c \<noteq> BS \<and> \<not> (of_char c :: nat) < 32) \<or>
   (\<exists>e. json_escape_char c = BS # e \<and> (\<forall>rest. json_unescape (e @ rest) = Some (c, rest)))"
proof (cases "c = DQ \<or> c = BS \<or> c = LF \<or> c = CR \<or> c = CHR 0x09 \<or> c = CHR 0x08 \<or> c = CHR 0x0C")
  case True
  then show ?thesis by (elim disjE) (simp_all add: json_escape_char_def)
next
  case False
  show ?thesis
  proof (cases "(of_char c :: nat) < 32 \<or> 126 < (of_char c :: nat)")
    case True
    let ?e = "[CHR ''u'', CHR ''0'', CHR ''0'', hex_digit (of_char c div 16), hex_digit (of_char c mod 16)]"
    from False True have "json_escape_char c = BS # ?e" by (simp add: json_escape_char_def)
    moreover have "\<forall>rest. json_unescape (?e @ rest) = Some (c, rest)"
      by (simp del: json_unescape.simps add: json_unescape_u)
    ultimately show ?thesis by blast
  next
    case False
    with \<open>\<not> (c = DQ \<or> c = BS \<or> c = LF \<or> c = CR \<or> c = CHR 0x09 \<or> c = CHR 0x08 \<or> c = CHR 0x0C)\<close>
    show ?thesis by (simp add: json_escape_char_def)
  qed
qed

lemma json_string_body_escaped:
  "json_string_body (concat (map json_escape_char s) @ DQ # rest) = Some (s, rest)"
proof (induction s)
  case Nil
  show ?case by (simp add: json_string_body.simps)
next
  case (Cons c s)
  from json_escape_char_cases [of c] show ?case
  proof
    assume "json_escape_char c = [c] \<and> c \<noteq> DQ \<and> c \<noteq> BS \<and> \<not> (of_char c :: nat) < 32"
    with Cons.IH show ?thesis by (simp add: json_string_body.simps [of "c # _"])
  next
    assume "\<exists>e. json_escape_char c = BS # e \<and> (\<forall>rest. json_unescape (e @ rest) = Some (c, rest))"
    then obtain e where "json_escape_char c = BS # e" and "\<forall>rest. json_unescape (e @ rest) = Some (c, rest)"
      by blast
    with Cons.IH show ?thesis by (simp add: json_string_body.simps [of "BS # _"])
  qed
qed

lemma skip_ws_Nil [simp]: "skip_ws [] = []"
  by (simp add: skip_ws_def)

lemma skip_ws_Cons_ws [simp]: "json_ws c \<Longrightarrow> skip_ws (c # s) = skip_ws s"
  by (simp add: skip_ws_def)

lemma skip_ws_Cons_other [simp]: "\<not> json_ws c \<Longrightarrow> skip_ws (c # s) = c # s"
  by (simp add: skip_ws_def)

lemma parse_json_string_ws [simp]: "json_ws c \<Longrightarrow> parse_json_string (c # s) = parse_json_string s"
  by (simp add: parse_json_string_def)

lemma expect_ws [simp]: "json_ws c \<Longrightarrow> expect d (c # s) = expect d s"
  by (simp add: expect_def)

lemma expect_other [simp]: "\<not> json_ws c \<Longrightarrow> expect d (c # s) = (if c = d then Some s else None)"
  by (simp add: expect_def)

lemma parse_items_ws [simp]: "json_ws c \<Longrightarrow> parse_items (c # s) = parse_items s"
  by (simp add: parse_items.simps [of "c # s"] parse_items.simps [of s])

lemma parse_json_string_json_string [simp]: "parse_json_string (json_string x @ rest) = Some (x, rest)"
  by (simp add: parse_json_string_def json_string_def json_ws_def json_string_body_escaped)

lemma parse_items_json_string [simp]:
  "parse_items (json_string x @ rest) =
     (case skip_ws rest of
        [] \<Rightarrow> None
      | c # r' \<Rightarrow> if c = CHR '','' then map_option (apfst (Cons x)) (parse_items r')
                 else if c = CHR '']'' then Some ([x], r') else None)"
  by (simp add: parse_items.simps [of "json_string x @ rest"])

lemma json_string_Cons: "\<exists>t. json_string x = DQ # t"
  by (simp add: json_string_def)

lemma parse_items_rendered:
  "parse_items (py_join ('','' @ [LF]) (map (\<lambda>name. ''    '' @ json_string name) (x # ys)) @ LF # ''  ]'' @ rest)
     = Some (x # ys, rest)"
proof (induction ys arbitrary: x)
  case Nil
  show ?case by (simp add: json_ws_def)
next
  case (Cons y ys)
  then show ?case by (simp add: json_ws_def)
qed

lemma json_load_dump: "json_load_codenames (json_dump_codenames xs) = Some xs"
proof (cases xs)
  case Nil
  then show ?thesis
    by (simp add: json_load_codenames_def json_dump_codenames_def json_ws_def parse_array_def)
next
  case (Cons x ys)
  define items where "items = py_join ('','' @ [LF]) (map (\<lambda>name. ''    '' @ json_string name) (x # ys))"
  define tail where "tail = [LF] @ ''  ]'' @ [LF] @ ''}''"
  obtain r where r: "items @ tail = ''    '' @ json_string x @ r"
    by (cases ys) (simp_all add: items_def)
  obtain t where t: "json_string x = DQ # t" using json_string_Cons by blast
  have pa: "parse_array ('' ['' @ [LF] @ items @ tail) = parse_items ([LF] @ items @ tail)"
    using r t by (simp add: parse_array_def json_ws_def)
  have "parse_items ([LF] @ items @ tail) = Some (x # ys, [LF] @ ''}'')"
    using parse_items_rendered [of x ys "[LF] @ ''}''"] by (simp add: items_def tail_def json_ws_def)
  with pa have "parse_array ('' ['' @ [LF] @ items @ tail) = Some (x # ys, [LF] @ ''}'')" by simp
  with Cons show ?thesis
    by (simp add: json_load_codenames_def json_dump_codenames_def json_ws_def items_def tail_def)
qed

subsection \<open>CSV\<close>

lemma csv_quoted_quote:
  "csv_quoted (concat (map (\<lambda>c. if c = DQ then [DQ, DQ] else [c]) f) @ DQ # CR # rest) = Some (f, CR # rest)"
  by (induction f) auto

lemma csv_parse_field_csv_field:
  "csv_parse_field ((if f = [] then [DQ, DQ] else csv_field f) @ CR # rest) = Some (f, CR # rest)"
proof (cases "csv_needs_quote f")
  case True
  then show ?thesis by (auto simp: csv_field_def csv_quote_def csv_parse_field_def csv_quoted_quote)
next
  case False
  then have "\<forall>c \<in> set f. \<not> csv_delim c" by (auto simp: csv_needs_quote_def csv_delim_def)
  moreover have "csv_delim CR" by (simp add: csv_delim_def)
  moreover from False have "f \<noteq> [] \<Longrightarrow> hd f \<noteq> DQ" by (cases f) (auto simp: csv_needs_quote_def)
  ultimately show ?thesis using False
    by (cases f) (auto simp: csv_field_def csv_parse_field_def takeWhile_append2 dropWhile_append2)
qed

lemma csv_parse_record_row:
  "csv_parse_record (csv_row [f] @ rest) = Some ([f], rest)"
proof -
  define w where "w = (if f = [] then [DQ, DQ] else csv_field f)"
  have row: "csv_row [f] @ rest = w @ CR # LF # rest"
    by (simp add: csv_row_def w_def)
  have "csv_parse_field (w @ CR # LF # rest) = Some (f, CR # LF # rest)"
    unfolding w_def by (rule csv_parse_field_csv_field)
  then show ?thesis
    unfolding row by (subst csv_parse_record.simps) simp
qed

lemma csv_parse_rows:
  "csv_parse (concat (map (\<lambda>name. csv_row [name]) xs)) = Some (map (\<lambda>x. [x]) xs)"
proof (induction xs)
  case Nil
  show ?case by (simp add: csv_parse.simps)
next
  case (Cons x xs)
  have "csv_row [x] \<noteq> []" by (simp add: csv_row_def)
  with Cons show ?case
    by (simp add: csv_parse.simps [of "csv_row [x] @ _"] csv_parse_record_row)
qed

subsection \<open>Text\<close>

lemma split_on_LF_no_LF: "LF \<notin> set x \<Longrightarrow> split_on [LF] x = [x]"
  by (induction x) (auto simp: Let_def)

lemma split_on_py_join_LF:
  "xs \<noteq> [] \<Longrightarrow> \<forall>x \<in> set xs. LF \<notin> set x \<Longrightarrow> split_on [LF] (py_join [LF] xs) = xs"
  by (induction "[LF]" xs rule: py_join.induct) (simp_all add: split_on_LF_no_LF split_on_LF_line)

subsection \<open>ASCII output of the JSON encoder\<close>

text \<open>The characters \<^verbatim>\<open>json.dumps\<close> with \<^verbatim>\<open>ensure_ascii\<close> may emit: printable ASCII and the line feed of the indentation.\<close>

definition json_safe_chars :: "char set" where
  "json_safe_chars = {c. c = LF \<or> (32 \<le> (of_char c :: nat) \<and> (of_char c :: nat) \<le> 126)}"

lemma hex_digit_printable: "n < 16 \<Longrightarrow> 32 \<le> (of_char (hex_digit n) :: nat) \<and> (of_char (hex_digit n) :: nat) \<le> 126"
  by (auto simp: hex_digit_def numeral_eq_Suc less_Suc_eq)

lemma json_escape_char_safe: "set (json_escape_char c) \<subseteq> json_safe_chars"
proof -
  have "(of_char c :: nat) < 256" by (rule nat_of_char_less_256)
  then have a: "(of_char c :: nat) div 16 < 16"
    using less_mult_imp_div_less [of "of_char c" 16 16] by simp
  have b: "(of_char c :: nat) mod 16 < 16" by simp
  show ?thesis
    using hex_digit_printable [OF a] hex_digit_printable [OF b]
    by (auto simp: json_escape_char_def json_safe_chars_def)
qed

lemma json_string_safe: "set (json_string s) \<subseteq> json_safe_chars"
  using json_escape_char_safe by (fastforce simp: json_string_def json_safe_chars_def)

lemma py_join_subset: "set sep \<subseteq> A \<Longrightarrow> \<forall>x \<in> set xs. set x \<subseteq> A \<Longrightarrow> set (py_join sep xs) \<subseteq> A"
  by (induction sep xs rule: py_join.induct) auto

section \<open>Properties of format\_output\<close>

text \<open>
  C18: rendering codenames as JSON and parsing the document back gives the same list, in
  order, whatever characters the names hold (spec 8, round-trip law).
\<close>

theorem format_output_json_roundtrip: "json_load_codenames (format_output xs ''json'') = Some xs"
  by (simp add: format_output_def json_load_dump)

text \<open>
  C19: rendering codenames as CSV and reading the text back with RFC 4180 rules gives the
  header row and one single-field row per name, values exactly preserved, including names
  with commas, quotes, line breaks and the empty name.
\<close>

theorem format_output_csv_roundtrip:
  "csv_parse (format_output xs ''csv'') = Some ([''Codename''] # map (\<lambda>x. [x]) xs)"
  using csv_parse_rows [of "''Codename'' # xs"] by (simp add: format_output_def)

text \<open>
  C20: the text format, and every unrecognised format selector, joins the names with single
  line feeds and adds none at the end: splitting the output at line feeds gives the names
  back when there is at least one and none holds a line feed.
\<close>

theorem format_output_text_roundtrip:
  assumes "xs \<noteq> []" and "\<forall>x \<in> set xs. LF \<notin> set x"
    and "fmt \<noteq> ''json''" and "fmt \<noteq> ''csv''" and "fmt \<noteq> ''html''"
  shows "split_on [LF] (format_output xs fmt) = xs"
  using assms by (simp add: format_output_def split_on_py_join_LF)

text \<open>
  C21: the HTML format inserts the names verbatim (spec 4.7 and 9). For any names \<open>a\<close>
  and \<open>b\<close> in any context \<open>xs\<close>, \<open>ys\<close>, the single name
  \<open>a</li>\<close>, line feed, \<open>  <li>b\<close> renders exactly like the two names \<open>a\<close> and
  \<open>b\<close>, although the lists differ: the format is not injective, so a name holding markup
  changes the rendered list.
\<close>

theorem format_output_html_verbatim:
  "xs @ [a @ ''</li>'' @ [LF] @ ''  <li>'' @ b] @ ys \<noteq> xs @ [a, b] @ ys \<and>
   format_output (xs @ [a @ ''</li>'' @ [LF] @ ''  <li>'' @ b] @ ys) ''html'' =
   format_output (xs @ [a, b] @ ys) ''html''"
proof
  show "xs @ [a @ ''</li>'' @ [LF] @ ''  <li>'' @ b] @ ys \<noteq> xs @ [a, b] @ ys"
    by simp
  show "format_output (xs @ [a @ ''</li>'' @ [LF] @ ''  <li>'' @ b] @ ys) ''html'' =
        format_output (xs @ [a, b] @ ys) ''html''"
    by (simp add: format_output_def html_document_def)
qed

text \<open>
  C22: the JSON output is plain ASCII: every character is printable ASCII or the line feed
  of the indentation, whatever the names hold (\<^verbatim>\<open>ensure_ascii\<close>).
\<close>

theorem format_output_json_ascii: "set (format_output xs ''json'') \<subseteq> json_safe_chars"
proof -
  have nl: "LF \<in> json_safe_chars" by (simp add: json_safe_chars_def)
  have lit: "set s \<subseteq> json_safe_chars" if "\<forall>c \<in> set s. 32 \<le> (of_char c :: nat) \<and> (of_char c :: nat) \<le> 126" for s
    using that by (auto simp: json_safe_chars_def)
  have items: "set (py_join ('','' @ [LF]) (map (\<lambda>name. ''    '' @ json_string name) xs)) \<subseteq> json_safe_chars"
    by (rule py_join_subset) (use nl json_string_safe in \<open>auto simp: json_safe_chars_def\<close>)
  show ?thesis
    using nl items json_string_safe [of "''codenames''"]
    by (auto simp: format_output_def json_dump_codenames_def json_safe_chars_def)
qed

theorem format_output_text_roundtrip_witness:
  "[''Brave Tiger'', ''Silent Wolf''] \<noteq> [] \<and> LF \<notin> set ''Brave Tiger'' \<and> LF \<notin> set ''Silent Wolf'' \<and>
   ''text'' \<noteq> ''json'' \<and> ''text'' \<noteq> ''csv'' \<and> ''text'' \<noteq> ''html'' \<and>
   split_on [LF] (format_output [''Brave Tiger'', ''Silent Wolf''] ''text'') = [''Brave Tiger'', ''Silent Wolf'']"
proof -
  have h: "\<forall>x \<in> set [''Brave Tiger'', ''Silent Wolf'']. LF \<notin> set x" by simp
  show ?thesis
    using format_output_text_roundtrip [OF _ h, of "''text''"] by simp
qed

end
