(* ===== verification/Cli.thy ===== *)
theory Cli
  imports Generator Output
begin

text \<open>
  The command-line shell \<^verbatim>\<open>src/SpySpeak-cli.py\<close>: its file helpers with the messages
  they write to stderr, the favorites commands (\<^verbatim>\<open>list_favorites\<close>,
  \<^verbatim>\<open>add_favorite\<close>, \<^verbatim>\<open>export_favorites\<close>) and \<^verbatim>\<open>main\<close>, as functions from the
  parsed arguments, the environment and the random source to the final \<open>io\<close> (stdout,
  stderr, files) and the exit status. \<^verbatim>\<open>argparse\<close> itself is not modelled: \<open>cli_args\<close>
  is what it returns; an option that is absent (\<^verbatim>\<open>None\<close>) and one given as the empty
  string are both falsy in the code, and both are the empty string here.
\<close>

section \<open>Arguments and environment\<close>

record cli_args =
  arg_adjectives :: path
  arg_nouns :: path
  arg_count :: int
  arg_separator :: string
  arg_verbose :: bool
  arg_format :: string
  arg_output :: path
  arg_theme :: string
  arg_list_themes :: bool
  arg_exclusions :: path
  arg_pattern :: string
  arg_case :: string
  arg_min_length :: int
  arg_max_length :: int
  arg_favorites :: path
  arg_list_favorites :: bool
  arg_add_favorite :: string
  arg_export_favorites :: path

definition cli_default_args :: cli_args where
  "cli_default_args =
     \<lparr>arg_adjectives = ''adjectives.txt'', arg_nouns = ''nouns.txt'', arg_count = 1,
      arg_separator = '' '', arg_verbose = False, arg_format = ''text'', arg_output = [],
      arg_theme = [], arg_list_themes = False, arg_exclusions = ''exclusions.txt'',
      arg_pattern = ''adj-noun'', arg_case = ''title'', arg_min_length = 0, arg_max_length = 0,
      arg_favorites = ''favorites.txt'', arg_list_favorites = False, arg_add_favorite = [],
      arg_export_favorites = []\<rparr>"

text \<open>
  What \<^verbatim>\<open>main\<close> reads from the environment besides files: the directory of the script,
  whether \<^verbatim>\<open>themes/\<close> exists, and the result of \<^verbatim>\<open>get_available_themes()\<close> (whose order
  is that of \<^verbatim>\<open>os.listdir\<close>, unspecified, so it is an input).
\<close>

record cli_env =
  script_dir :: path
  themes_dir :: bool
  available_themes :: "string list"

definition args_config :: "cli_args \<Rightarrow> gen_config" where
  "args_config args =
     \<lparr>count = arg_count args, pattern = arg_pattern args, case_style = arg_case args,
      min_length = arg_min_length args, max_length = arg_max_length args,
      separator = arg_separator args\<rparr>"

abbreviation SQ :: char where "SQ \<equiv> CHR 0x27"

definition quoted :: "string \<Rightarrow> string" where
  "quoted s = [SQ] @ s @ [SQ]"

section \<open>File helpers and their messages\<close>

definition load_words_msg :: "fs \<Rightarrow> path \<Rightarrow> string" where
  "load_words_msg fs filename =
     (case fs filename of
        None \<Rightarrow> ''Error: Could not find the file '' @ quoted filename @ [LF]
      | Some Unreadable \<Rightarrow> ''Error reading '' @ quoted filename @ '': '' @ os_error_str filename @ [LF]
      | Some (Text s) \<Rightarrow>
          if stripped_lines s = [] then ''Warning: File '' @ quoted filename @ '' exists but contains no usable words'' @ [LF]
          else [])"

definition cli_load_words :: "path \<Rightarrow> io \<Rightarrow> string list \<times> io" where
  "cli_load_words filename io = (load_words (files io) filename, write_err (load_words_msg (files io) filename) io)"

definition cli_load_exclusions :: "path \<Rightarrow> io \<Rightarrow> string list \<times> io" where
  "cli_load_exclusions filename io =
     (load_exclusions (files io) filename,
      if files io filename = Some Unreadable
      then write_err (''Error reading exclusions from '' @ quoted filename @ '': '' @ os_error_str filename @ [LF]) io
      else io)"

definition cli_load_favorites :: "path \<Rightarrow> io \<Rightarrow> string list \<times> io" where
  "cli_load_favorites filename io =
     (load_favorites (files io) filename,
      if files io filename = Some Unreadable
      then write_err (''Error loading favorites: '' @ os_error_str filename @ [LF]) io
      else io)"

definition cli_save_favorites :: "string list \<Rightarrow> path \<Rightarrow> io \<Rightarrow> bool \<times> io" where
  "cli_save_favorites favorites filename io =
     (let (ok, fs') = save_favorites favorites filename (files io) in
      (ok, if ok then io\<lparr>files := fs'\<rparr>
           else write_err (''Error saving favorites: '' @ os_error_str filename @ [LF]) io))"

text \<open>\<^verbatim>\<open>open(path, 'w')\<close> then \<^verbatim>\<open>write(text)\<close>: \<open>None\<close> when the open raises.\<close>

definition write_file :: "path \<Rightarrow> string \<Rightarrow> fs \<Rightarrow> fs option" where
  "write_file p text fs = (if fs p = Some Unreadable then None else Some (fs(p \<mapsto> Text text)))"

text \<open>\<^verbatim>\<open>load_themed_words\<close> with its message for a missing theme.\<close>

definition cli_load_themed_words :: "string \<Rightarrow> io \<Rightarrow> (string list \<times> string list) \<times> io" where
  "cli_load_themed_words theme io =
     (let (adj_file, noun_file) = theme_files theme in
      if files io adj_file = None \<or> files io noun_file = None then
        (([], []), write_err (''Theme '' @ quoted theme @ '' not found. Make sure both '' @ adj_file @
                              '' and '' @ noun_file @ '' exist.'' @ [LF]) io)
      else
        let (adjectives, io1) = cli_load_words adj_file io;
            (nouns, io2) = cli_load_words noun_file io1 in
        ((adjectives, nouns), io2))"

section \<open>Favorites commands\<close>

definition list_favorites :: "path \<Rightarrow> io \<Rightarrow> io" where
  "list_favorites favorites_file io =
     (let (favorites, io1) = cli_load_favorites favorites_file io in
      if favorites = [] then write_err (''No favorites found.'' @ [LF]) io1
      else write_out (concat [name @ [LF]. name \<leftarrow> favorites]) io1)"

definition add_favorite :: "string \<Rightarrow> path \<Rightarrow> io \<Rightarrow> io" where
  "add_favorite codename favorites_file io =
     (let (favorites, io1) = cli_load_favorites favorites_file io in
      if codename \<in> set favorites then
        write_err (''Codename '' @ quoted codename @ '' is already in favorites.'' @ [LF]) io1
      else
        let (ok, io2) = cli_save_favorites (favorites @ [codename]) favorites_file io1 in
        if ok then write_err (''Added '' @ quoted codename @ '' to favorites.'' @ [LF]) io2 else io2)"

definition export_favorites :: "path \<Rightarrow> path \<Rightarrow> string \<Rightarrow> io \<Rightarrow> io" where
  "export_favorites favorites_file output_file format_type io =
     (let (favorites, io1) = cli_load_favorites favorites_file io in
      if favorites = [] then write_err (''No favorites to export.'' @ [LF]) io1
      else
        let output = format_output favorites format_type in
        (case write_file output_file output (files io1) of
           None \<Rightarrow> write_err (''Error exporting favorites: '' @ os_error_str output_file @ [LF]) io1
         | Some fs' \<Rightarrow>
             write_err (''Exported '' @ py_str_nat (length favorites) @ '' favorites to '' @ output_file @
                        '' in '' @ format_type @ '' format.'' @ [LF]) (io1\<lparr>files := fs'\<rparr>)))"

section \<open>main\<close>

text \<open>\<^verbatim>\<open>--list-themes\<close>\<close>

definition list_themes :: "string list \<Rightarrow> io \<Rightarrow> io" where
  "list_themes themes io =
     (if themes = [] then
        write_err (''No themes available. Create theme files in the themes/ directory.'' @ [LF]) io
      else write_err (''Available themes:'' @ [LF] @ concat [''- '' @ theme @ [LF]. theme \<leftarrow> themes]) io)"

definition is_abs :: "path \<Rightarrow> bool" where
  "is_abs p \<longleftrightarrow> take 1 p = ''/''"

text \<open>\<^verbatim>\<open>os.path.join(script_dir, p) if not os.path.isabs(p) else p\<close>\<close>

definition resolve_path :: "path \<Rightarrow> path \<Rightarrow> path" where
  "resolve_path dir p = (if \<not> is_abs p then path_join dir p else p)"

text \<open>
  The word lists of \<^verbatim>\<open>main\<close>: from a theme, or from the two files resolved against the
  script's directory. \<open>None\<close> is a \<^verbatim>\<open>sys.exit(1)\<close>.
\<close>

definition cli_words :: "cli_args \<Rightarrow> cli_env \<Rightarrow> io \<Rightarrow> (string list \<times> string list) option \<times> io" where
  "cli_words args env io =
     (if arg_theme args \<noteq> [] then
        let io1 = (if arg_verbose args then write_err (''Loading theme '' @ quoted (arg_theme args) @ ''...'' @ [LF]) io else io);
            ((adjectives, nouns), io2) = cli_load_themed_words (arg_theme args) io1 in
        if adjectives = [] \<or> nouns = [] then (None, io2) else (Some (adjectives, nouns), io2)
      else
        let adj_path = resolve_path (script_dir env) (arg_adjectives args);
            noun_path = resolve_path (script_dir env) (arg_nouns args);
            io1 = (if arg_verbose args then
                     write_err (''Loading nouns from: '' @ noun_path @ [LF])
                       (write_err (''Loading adjectives from: '' @ adj_path @ [LF]) io)
                   else io) in
        if files io1 adj_path = None then
          (None, write_err (''Error: Adjectives file '' @ quoted adj_path @ '' not found.'' @ [LF]) io1)
        else if files io1 noun_path = None then
          (None, write_err (''Error: Nouns file '' @ quoted noun_path @ '' not found.'' @ [LF]) io1)
        else
          let (adjectives, io2) = cli_load_words adj_path io1;
              (nouns, io3) = cli_load_words noun_path io2 in
          (Some (adjectives, nouns), io3))"

text \<open>\<^verbatim>\<open>str(e)\<close> of the exceptions \<^verbatim>\<open>generate_codename\<close> can raise.\<close>

fun py_exc_str :: "py_exc \<Rightarrow> string" where
  "py_exc_str IndexError = ''Cannot choose from an empty sequence''"
| "py_exc_str (ValueError m) = m"
| "py_exc_str (OSError m) = m"
| "py_exc_str (SystemExit c m) = m"
| "py_exc_str EOFError = ''EOF when reading a line''"

text \<open>\<^verbatim>\<open>if os.path.exists(args.exclusions): exclusions = load_exclusions(...)\<close>, with its verbose message.\<close>

definition cli_exclusions :: "cli_args \<Rightarrow> io \<Rightarrow> string list \<times> io" where
  "cli_exclusions args io =
     (if files io (arg_exclusions args) \<noteq> None then
        let (ex, io') = cli_load_exclusions (arg_exclusions args) io in
        (ex, if arg_verbose args \<and> ex \<noteq> [] then write_err (''Loaded '' @ py_str_nat (length ex) @ '' exclusions'' @ [LF]) io' else io')
      else ([], io))"

text \<open>The output step: to the file named by \<^verbatim>\<open>--output\<close>, or to stdout with \<^verbatim>\<open>end=''\<close>.\<close>

definition cli_write_output :: "cli_args \<Rightarrow> string list \<Rightarrow> io \<Rightarrow> io \<times> int" where
  "cli_write_output args codenames io =
     (let output = format_output codenames (arg_format args) in
      if arg_output args \<noteq> [] then
        (case write_file (arg_output args) output (files io) of
           None \<Rightarrow> (write_err (''Error writing to output file: '' @ os_error_str (arg_output args) @ [LF]) io, 1)
         | Some fs' \<Rightarrow>
             (if arg_verbose args then write_err (''Output written to '' @ arg_output args @ [LF]) (io\<lparr>files := fs'\<rparr>)
              else io\<lparr>files := fs'\<rparr>, 0))
      else (write_out output io, 0))"

text \<open>
  The \<^verbatim>\<open>try\<close> block: its \<^verbatim>\<open>except Exception\<close> does not catch the \<^verbatim>\<open>SystemExit\<close> of
  \<^verbatim>\<open>generate_codename\<close>, whose message is already on stderr; any other exception is
  reported and exits with status 1.
\<close>

definition cli_run_generate :: "cli_args \<Rightarrow> string list \<Rightarrow> string list \<Rightarrow> string list \<Rightarrow> rng \<Rightarrow> io \<Rightarrow> io \<times> int" where
  "cli_run_generate args adjectives nouns exclusions g io =
     (case generate_codename_cli adjectives nouns (args_config args) exclusions g of
        Inl (SystemExit c m) \<Rightarrow> (write_err (m @ [LF]) io, c)
      | Inl e \<Rightarrow> (write_err (''Error generating codenames: '' @ py_exc_str e @ [LF]) io, 1)
      | Inr (codenames, _) \<Rightarrow> cli_write_output args codenames io)"

text \<open>From loading the exclusions to the end of \<^verbatim>\<open>main\<close>: the final \<open>io\<close> and the exit status.\<close>

definition cli_generate :: "cli_args \<Rightarrow> string list \<Rightarrow> string list \<Rightarrow> rng \<Rightarrow> io \<Rightarrow> io \<times> int" where
  "cli_generate args adjectives nouns g io =
     (let (exclusions, io1) = cli_exclusions args io in
      if adjectives = [] then (write_err (''Error: No adjectives loaded. Please check your adjectives file.'' @ [LF]) io1, 1)
      else if nouns = [] then (write_err (''Error: No nouns loaded. Please check your nouns file.'' @ [LF]) io1, 1)
      else
        let io2 = (if arg_verbose args then
                     write_err (''Loaded '' @ py_str_nat (length adjectives) @ '' adjectives and '' @
                                py_str_nat (length nouns) @ '' nouns'' @ [LF]) io1
                   else io1) in
        if arg_count args < 1 then (write_err (''Error: Count must be at least 1'' @ [LF]) io2, 1)
        else if arg_min_length args > 0 \<and> arg_max_length args > 0 \<and> arg_min_length args > arg_max_length args then
          (write_err (''Error: Minimum length cannot be greater than maximum length'' @ [LF]) io2, 1)
        else cli_run_generate args adjectives nouns exclusions g io2)"

definition cli_main :: "cli_args \<Rightarrow> cli_env \<Rightarrow> rng \<Rightarrow> io \<Rightarrow> io \<times> int" where
  "cli_main args env g io =
     (let io1 = (if \<not> themes_dir env \<and> arg_verbose args then write_err (''Creating themes directory...'' @ [LF]) io else io) in
      if arg_list_themes args then (list_themes (available_themes env) io1, 0)
      else if arg_list_favorites args then (list_favorites (arg_favorites args) io1, 0)
      else if arg_add_favorite args \<noteq> [] then (add_favorite (arg_add_favorite args) (arg_favorites args) io1, 0)
      else if arg_export_favorites args \<noteq> [] then
        (export_favorites (arg_favorites args) (arg_export_favorites args) (arg_format args) io1, 0)
      else
        (case cli_words args env io1 of
           (None, io2) \<Rightarrow> (io2, 1)
         | (Some (adjectives, nouns), io2) \<Rightarrow> cli_generate args adjectives nouns g io2))"

lemmas cli_defs [model_defs] =
  cli_default_args_def args_config_def quoted_def load_words_msg_def cli_load_words_def
  cli_load_exclusions_def cli_load_favorites_def cli_save_favorites_def write_file_def
  cli_load_themed_words_def list_favorites_def add_favorite_def export_favorites_def
  list_themes_def is_abs_def resolve_path_def cli_words_def cli_exclusions_def
  cli_write_output_def cli_run_generate_def cli_generate_def cli_main_def

section \<open>Properties of the CLI\<close>

subsection \<open>What each step may change\<close>

lemma cli_load_words_files: "cli_load_words p io = (ws, io') \<Longrightarrow> files io' = files io"
  by (auto simp: cli_load_words_def)

lemma cli_load_exclusions_files: "cli_load_exclusions p io = (ws, io') \<Longrightarrow> files io' = files io"
  by (auto simp: cli_load_exclusions_def split: if_splits)

lemma cli_load_favorites_files: "cli_load_favorites p io = (ws, io') \<Longrightarrow> files io' = files io"
  by (auto simp: cli_load_favorites_def split: if_splits)

lemmas loader_files = cli_load_words_files cli_load_exclusions_files cli_load_favorites_files

lemma cli_load_themed_words_files: "cli_load_themed_words t io = (ws, io') \<Longrightarrow> files io' = files io"
  by (auto simp: cli_load_themed_words_def split: prod.splits if_splits dest!: loader_files)

lemma list_themes_files [simp]: "files (list_themes ts io) = files io"
  by (simp add: list_themes_def)

lemma list_favorites_files [simp]: "files (list_favorites f io) = files io"
  by (auto simp: list_favorites_def split: prod.split dest!: loader_files)

lemma cli_words_files: "cli_words args env io = (r, io') \<Longrightarrow> files io' = files io"
  by (auto simp: cli_words_def Let_def split: prod.splits if_splits dest!: loader_files cli_load_themed_words_files)

lemma cli_save_favorites_frame:
  "cli_save_favorites xs f io = (ok, io') \<Longrightarrow> p \<noteq> f \<Longrightarrow> files io' p = files io p"
  by (auto simp: cli_save_favorites_def save_favorites_def split: option.splits fentry.splits if_splits)

lemma add_favorite_frame: "p \<noteq> f \<Longrightarrow> files (add_favorite x f io) p = files io p"
  by (auto simp: add_favorite_def Let_def split: prod.split dest!: loader_files cli_save_favorites_frame)

lemma export_favorites_frame: "p \<noteq> out \<Longrightarrow> files (export_favorites f out fmt io) p = files io p"
  by (auto simp: export_favorites_def Let_def write_file_def split: prod.split option.split dest!: loader_files)

lemma cli_exclusions_files: "cli_exclusions args io = (ex, io') \<Longrightarrow> files io' = files io"
  by (auto simp: cli_exclusions_def split: if_splits prod.splits dest!: loader_files)

lemma cli_write_output_frame:
  "p \<noteq> arg_output args \<Longrightarrow> files (fst (cli_write_output args names io)) p = files io p"
  by (simp add: cli_write_output_def Let_def write_file_def split: option.split)

lemma cli_run_generate_frame:
  "p \<noteq> arg_output args \<Longrightarrow> files (fst (cli_run_generate args A N ex g io)) p = files io p"
  using cli_write_output_frame
  by (simp add: cli_run_generate_def split: sum.split py_exc.split prod.split)

lemma cli_generate_frame:
  assumes "p \<noteq> arg_output args"
  shows "files (fst (cli_generate args A N g io)) p = files io p"
proof -
  obtain ex io1 where e: "cli_exclusions args io = (ex, io1)" by (cases "cli_exclusions args io")
  from cli_exclusions_files [OF e] cli_run_generate_frame [OF assms] show ?thesis
    by (simp add: cli_generate_def e Let_def)
qed

lemma set_py_strip: "set (py_strip s) \<subseteq> set s"
proof -
  have d: "set (dropWhile P xs) \<subseteq> set xs" for P and xs :: string
    by (auto dest: set_dropWhileD)
  show ?thesis
    using d [of py_isspace s] d [of py_isspace "rev (dropWhile py_isspace s)"] by (auto simp: py_strip_def)
qed

lemma univ_nl_no_CR_out: "CR \<notin> set (univ_nl s)"
  by (induction s rule: univ_nl.induct) auto

lemma split_on_LF_pieces: "l \<in> set (split_on [LF] t) \<Longrightarrow> LF \<notin> set l \<and> set l \<subseteq> set t"
proof (induction "[LF]" t arbitrary: l rule: split_on.induct)
  case 1
  then show ?case by simp
next
  case (2 c cs)
  show ?case
  proof (cases "c = LF")
    case True
    with "2.prems" "2.hyps"(1) show ?thesis by auto
  next
    case False
    let ?r = "split_on [LF] cs"
    have nt: "\<not> ([LF] \<noteq> [] \<and> take (length [LF]) (c # cs) = [LF])" using False by simp
    note IH = "2.hyps"(2) [OF nt]
    have ne: "?r \<noteq> []" by simp
    from False "2.prems" have "l = c # hd ?r \<or> l \<in> set (tl ?r)" by (auto simp: Let_def)
    then show ?thesis
    proof
      assume "l = c # hd ?r"
      with False IH [of "hd ?r"] ne show ?thesis by auto
    next
      assume "l \<in> set (tl ?r)"
      then have "l \<in> set ?r" using ne by (cases ?r) auto
      with IH [of l] show ?thesis by auto
    qed
  qed
qed

lemma stripped_lines_line_ok: "x \<in> set (stripped_lines s) \<Longrightarrow> favorite_line_ok x"
proof -
  assume "x \<in> set (stripped_lines s)"
  then obtain l where l: "l \<in> set (file_lines s)" and x: "x = py_strip l" "x \<noteq> []"
    by (auto simp: stripped_lines_def)
  from l have p: "LF \<notin> set l \<and> set l \<subseteq> set (univ_nl s)"
    unfolding file_lines_def by (rule split_on_LF_pieces)
  have "LF \<notin> set x" and "CR \<notin> set x"
    using p set_py_strip [of l] univ_nl_no_CR_out [of s] x(1) by blast+
  with x show ?thesis by (simp add: favorite_line_ok_def)
qed

lemma load_favorites_line_ok:
  assumes "x \<in> set (load_favorites fs p)" shows "favorite_line_ok x"
proof (cases "fs p")
  case None
  then show ?thesis using assms by (simp add: load_favorites_def)
next
  case (Some e)
  then show ?thesis using assms stripped_lines_line_ok by (cases e) (simp_all add: load_favorites_def)
qed

lemma cli_load_favorites_ok:
  "files io f \<noteq> Some Unreadable \<Longrightarrow> cli_load_favorites f io = (load_favorites (files io) f, io)"
  by (simp add: cli_load_favorites_def)

lemma load_favorites_written [simp]: "load_favorites (fs(f \<mapsto> Text t)) f = stripped_lines t"
  by (simp add: load_favorites_def)

lemma add_favorite_load:
  assumes "favorite_line_ok x" and "files io f \<noteq> Some Unreadable"
  shows "load_favorites (files (add_favorite x f io)) f =
           (if x \<in> set (load_favorites (files io) f) then load_favorites (files io) f
            else load_favorites (files io) f @ [x]) \<and>
         files (add_favorite x f io) f \<noteq> Some Unreadable"
proof (cases "x \<in> set (load_favorites (files io) f)")
  case True
  then show ?thesis
    using assms(2) by (simp add: add_favorite_def cli_load_favorites_ok)
next
  case False
  let ?L = "load_favorites (files io) f"
  have all: "\<forall>y \<in> set (?L @ [x]). favorite_line_ok y"
    using load_favorites_line_ok assms(1) by auto
  have save: "cli_save_favorites (?L @ [x]) f io =
                (True, io\<lparr>files := (files io)(f \<mapsto> Text (concat [y @ [LF]. y \<leftarrow> ?L @ [x]]))\<rparr>)"
    using assms(2) by (simp add: cli_save_favorites_def save_favorites_def split: option.split fentry.split)
  define t where "t = concat [y @ [LF]. y \<leftarrow> ?L @ [x]]"
  have st: "stripped_lines t = ?L @ [x]"
    unfolding t_def by (rule stripped_lines_saved [OF all])
  have "add_favorite x f io =
          write_err (''Added '' @ quoted x @ '' to favorites.'' @ [LF]) (io\<lparr>files := (files io)(f \<mapsto> Text t)\<rparr>)"
    unfolding add_favorite_def cli_load_favorites_ok [OF assms(2)] using False save
    by (simp add: t_def)
  then show ?thesis
    using False by (simp add: st)
qed


lemma stripped_lines_written:
  assumes "\<forall>x \<in> set xs. LF \<notin> set x \<and> CR \<notin> set x"
  shows "stripped_lines (concat [x @ [LF]. x \<leftarrow> xs]) = [py_strip l. l \<leftarrow> xs, py_strip l \<noteq> []]"
proof -
  have "CR \<notin> set (concat [x @ [LF]. x \<leftarrow> xs])" using assms by auto
  then have "file_lines (concat [x @ [LF]. x \<leftarrow> xs]) = xs @ [[]]"
    using assms by (simp add: file_lines_def univ_nl_no_CR split_on_LF_lines)
  then show ?thesis by (simp add: stripped_lines_def py_strip_def)
qed

lemma strip_favorites_id:
  "\<forall>y \<in> set ys. favorite_line_ok y \<Longrightarrow> [py_strip l. l \<leftarrow> ys, py_strip l \<noteq> []] = ys"
  by (induction ys) (auto simp: favorite_line_ok_def)

text \<open>Adding a name that the stripped lines do not hold saves them with the name appended,
  and the file then reads back stripped.\<close>

lemma add_favorite_new:
  assumes "x \<notin> set (load_favorites (files io) f)" "files io f \<noteq> Some Unreadable"
    "LF \<notin> set x" "CR \<notin> set x"
  shows "load_favorites (files (add_favorite x f io)) f =
           [py_strip l. l \<leftarrow> load_favorites (files io) f @ [x], py_strip l \<noteq> []] \<and>
         files (add_favorite x f io) f \<noteq> Some Unreadable"
proof -
  let ?L = "load_favorites (files io) f"
  have lines: "\<forall>y \<in> set (?L @ [x]). LF \<notin> set y \<and> CR \<notin> set y"
    using assms(3,4) load_favorites_line_ok by (auto simp: favorite_line_ok_def)
  have save: "cli_save_favorites (?L @ [x]) f io =
                (True, io\<lparr>files := (files io)(f \<mapsto> Text (concat [y @ [LF]. y \<leftarrow> ?L @ [x]]))\<rparr>)"
    using assms(2) by (simp add: cli_save_favorites_def save_favorites_def split: option.split fentry.split)
  have "add_favorite x f io =
          write_err (''Added '' @ quoted x @ '' to favorites.'' @ [LF])
            (io\<lparr>files := (files io)(f \<mapsto> Text (concat [y @ [LF]. y \<leftarrow> ?L @ [x]]))\<rparr>)"
    unfolding add_favorite_def cli_load_favorites_ok [OF assms(2)] using assms(1) save by simp
  then show ?thesis using stripped_lines_written [OF lines] by simp
qed

lemma cli_words_files_present:
  assumes "arg_theme args = []" "\<not> arg_verbose args"
    and "files io (resolve_path (script_dir env) (arg_adjectives args)) = Some (Text sa)"
    and "files io (resolve_path (script_dir env) (arg_nouns args)) = Some (Text sn)"
    and "stripped_lines sa \<noteq> []" "stripped_lines sn \<noteq> []"
  shows "cli_words args env io = (Some (stripped_lines sa, stripped_lines sn), io)"
  using assms by (simp add: cli_words_def cli_load_words_def load_words_def load_words_msg_def Let_def)

lemma cli_generate_prints:
  assumes "arg_output args = []" "\<not> arg_verbose args" "files io (arg_exclusions args) = None"
    and "A \<noteq> []" "N \<noteq> []" "1 \<le> arg_count args"
    and "\<not> (0 < arg_min_length args \<and> 0 < arg_max_length args \<and> arg_max_length args < arg_min_length args)"
    and "generate_codename_cli A N (args_config args) [] g = Inr (names, g')"
  shows "cli_generate args A N g io = (io\<lparr>stdout := stdout io @ format_output names (arg_format args)\<rparr>, 0)"
proof -
  have "cli_exclusions args io = ([], io)" using assms(3) by (simp add: cli_exclusions_def)
  moreover have "cli_run_generate args A N [] g io = (io\<lparr>stdout := stdout io @ format_output names (arg_format args)\<rparr>, 0)"
    using assms(1,8) by (simp add: cli_run_generate_def cli_write_output_def write_out_def)
  ultimately show ?thesis
    using assms(2,4-7) by (simp add: cli_generate_def)
qed

subsection \<open>Claims\<close>

text \<open>
  C23: with none of the favorites or theme options, readable word files with usable words,
  no exclusions file, a count of at least 1 and consistent length bounds, \<^verbatim>\<open>main\<close> prints
  exactly the formatted output of the codenames \<^verbatim>\<open>generate_codename\<close> returns, writes
  nothing to stderr, changes no file and exits with status 0.
\<close>

theorem cli_main_prints_codenames:
  assumes "\<not> arg_list_themes args" "\<not> arg_list_favorites args" "arg_add_favorite args = []"
    and "arg_export_favorites args = []" "arg_theme args = []" "arg_output args = []" "\<not> arg_verbose args"
    and "files io (resolve_path (script_dir env) (arg_adjectives args)) = Some (Text sa)"
    and "files io (resolve_path (script_dir env) (arg_nouns args)) = Some (Text sn)"
    and "files io (arg_exclusions args) = None"
    and "stripped_lines sa \<noteq> []" "stripped_lines sn \<noteq> []" "1 \<le> arg_count args"
    and "\<not> (0 < arg_min_length args \<and> 0 < arg_max_length args \<and> arg_max_length args < arg_min_length args)"
    and "generate_codename_cli (stripped_lines sa) (stripped_lines sn) (args_config args) [] g = Inr (names, g')"
  shows "cli_main args env g io = (io\<lparr>stdout := stdout io @ format_output names (arg_format args)\<rparr>, 0)"
  using assms cli_words_files_present [OF assms(5,7-9,11,12)] cli_generate_prints [OF assms(6,7,10-15)]
  by (simp add: cli_main_def)


text \<open>
  C24: \<^verbatim>\<open>main\<close> writes no file other than the \<^verbatim>\<open>--output\<close> file, the favorites
  file and the \<^verbatim>\<open>--export-favorites\<close> target: the word lists and the exclusions are
  never modified.
\<close>

theorem cli_main_frame:
  assumes "p \<noteq> arg_output args" "p \<noteq> arg_favorites args" "p \<noteq> arg_export_favorites args"
  shows "files (fst (cli_main args env g io)) p = files io p"
  using assms add_favorite_frame export_favorites_frame cli_generate_frame [OF assms(1)]
  by (auto simp: cli_main_def Let_def write_err_def split: prod.splits option.splits dest!: cli_words_files)


text \<open>
  C25: adding the same trimmed, single-line codename twice leaves it in the favorites file
  exactly once (spec 8), when the file can be written and did not already hold it twice.
\<close>

theorem add_favorite_twice:
  assumes "favorite_line_ok x" and "files io f \<noteq> Some Unreadable"
    and "count_list (load_favorites (files io) f) x \<le> 1"
  shows "count_list (load_favorites (files (add_favorite x f (add_favorite x f io))) f) x = 1"
proof -
  let ?L = "load_favorites (files io) f"
  let ?io1 = "add_favorite x f io"
  note first = add_favorite_load [OF assms(1,2)]
  then have mem: "x \<in> set (load_favorites (files ?io1) f)" by (cases "x \<in> set ?L") auto
  have second: "load_favorites (files (add_favorite x f ?io1)) f = load_favorites (files ?io1) f"
    using add_favorite_load [OF assms(1) conjunct2 [OF first]] mem by simp
  show ?thesis
  proof (cases "x \<in> set ?L")
    case True
    then have "count_list ?L x \<noteq> 0" by (simp add: count_list_0_iff)
    with assms(3) first True second show ?thesis by simp
  next
    case False
    then have "count_list ?L x = 0" by (simp add: count_list_0_iff)
    with first False second show ?thesis by simp
  qed
qed


text \<open>
  C26: the duplicate check compares the argument as given with the stripped lines of the
  file, while the file stores the argument and is read back stripped. So a single-line
  name with surrounding whitespace is never found: adding it twice stores its stripped
  form twice, against spec 4.8 and the spec 8 law that adding twice stores it once.
\<close>

theorem add_favorite_untrimmed:
  assumes "LF \<notin> set x" "CR \<notin> set x" "py_strip x \<noteq> []" "py_strip x \<noteq> x"
    and "files io f \<noteq> Some Unreadable" "py_strip x \<notin> set (load_favorites (files io) f)"
  shows "load_favorites (files (add_favorite x f (add_favorite x f io))) f =
           load_favorites (files io) f @ [py_strip x, py_strip x]"
proof -
  let ?L = "load_favorites (files io) f"
  have ok: "\<forall>y \<in> set ?L. favorite_line_ok y" using load_favorites_line_ok by blast
  then have keep: "[py_strip l. l \<leftarrow> ?L, py_strip l \<noteq> []] = ?L" by (rule strip_favorites_id)
  have x1: "x \<notin> set ?L" using ok assms(4) by (auto simp: favorite_line_ok_def)
  note first = add_favorite_new [OF x1 assms(5,1,2)]
  have l1: "load_favorites (files (add_favorite x f io)) f = ?L @ [py_strip x]"
    using first keep assms(3) by simp
  have x2: "x \<notin> set (load_favorites (files (add_favorite x f io)) f)"
    using l1 x1 assms(4) by auto
  note second = add_favorite_new [OF x2 conjunct2 [OF first] assms(1,2)]
  show ?thesis using second l1 keep assms(3) by simp
qed

theorem add_favorite_untrimmed_witness:
  "load_favorites (files (add_favorite '' Brave'' ''favorites.txt''
      (add_favorite '' Brave'' ''favorites.txt'' \<lparr>stdout = [], stderr = [], files = Map.empty\<rparr>))) ''favorites.txt''
     = [''Brave'', ''Brave'']"
proof -
  have s: "py_strip '' Brave'' = ''Brave''" by (simp add: py_defs)
  have h: "LF \<notin> set '' Brave''" "CR \<notin> set '' Brave''" "py_strip '' Brave'' \<noteq> []" "py_strip '' Brave'' \<noteq> '' Brave''"
    "files \<lparr>stdout = [], stderr = [], files = Map.empty\<rparr> ''favorites.txt'' \<noteq> Some Unreadable"
    "py_strip '' Brave'' \<notin> set (load_favorites (files \<lparr>stdout = [], stderr = [], files = Map.empty\<rparr>) ''favorites.txt'')"
    by (simp_all add: s load_favorites_def)
  from add_favorite_untrimmed [OF h] show ?thesis by (simp add: s load_favorites_def)
qed

theorem cli_main_prints_codenames_witness:
  "cli_main (cli_default_args\<lparr>arg_adjectives := ''/a'', arg_nouns := ''/n''\<rparr>) \<lparr>script_dir = ''/app'', themes_dir = True, available_themes = []\<rparr> (sconst 0)
      \<lparr>stdout = [], stderr = [], files = [''/a'' \<mapsto> Text ''Brave'', ''/n'' \<mapsto> Text ''Tiger'']\<rparr>
   = (\<lparr>stdout = ''Brave Tiger'', stderr = [], files = [''/a'' \<mapsto> Text ''Brave'', ''/n'' \<mapsto> Text ''Tiger'']\<rparr>, 0)"
proof -
  have g: "generate_codename_cli (stripped_lines ''Brave'') (stripped_lines ''Tiger'')
             (args_config (cli_default_args\<lparr>arg_adjectives := ''/a'', arg_nouns := ''/n''\<rparr>)) [] (sconst 0)
            = Inr ([''Brave Tiger''], sconst 0)"
    by (simp add: generate_codename_cli_def cli_default_args_def args_config_def stripped_lines_def model_defs py_defs)
  show ?thesis
    using cli_main_prints_codenames [where args = "cli_default_args\<lparr>arg_adjectives := ''/a'', arg_nouns := ''/n''\<rparr>"
        and env = "\<lparr>script_dir = ''/app'', themes_dir = True, available_themes = []\<rparr>"
        and io = "\<lparr>stdout = [], stderr = [], files = [''/a'' \<mapsto> Text ''Brave'', ''/n'' \<mapsto> Text ''Tiger'']\<rparr>",
        OF _ _ _ _ _ _ _ _ _ _ _ _ _ _ g]
    by (simp add: cli_default_args_def resolve_path_def is_abs_def stripped_lines_def format_output_def py_defs)
qed


theorem cli_main_frame_witness:
  "''words/adjectives.txt'' \<noteq> arg_output cli_default_args \<and>
   ''words/adjectives.txt'' \<noteq> arg_favorites cli_default_args \<and>
   ''words/adjectives.txt'' \<noteq> arg_export_favorites cli_default_args \<and>
   files (fst (cli_main cli_default_args \<lparr>script_dir = ''/app'', themes_dir = True, available_themes = []\<rparr> (sconst 0)
            \<lparr>stdout = [], stderr = [], files = [''words/adjectives.txt'' \<mapsto> Text ''Brave'']\<rparr>)) ''words/adjectives.txt''
     = Some (Text ''Brave'')"
proof -
  have h: "''words/adjectives.txt'' \<noteq> arg_output cli_default_args"
    "''words/adjectives.txt'' \<noteq> arg_favorites cli_default_args"
    "''words/adjectives.txt'' \<noteq> arg_export_favorites cli_default_args"
    by (simp_all add: cli_default_args_def)
  show ?thesis
    using h cli_main_frame [OF h, of "\<lparr>script_dir = ''/app'', themes_dir = True, available_themes = []\<rparr>" "sconst 0"
        "\<lparr>stdout = [], stderr = [], files = [''words/adjectives.txt'' \<mapsto> Text ''Brave'']\<rparr>"]
    by simp
qed

theorem add_favorite_twice_witness:
  "favorite_line_ok ''Brave Tiger'' \<and> (Map.empty :: fs) ''favorites.txt'' \<noteq> Some Unreadable \<and>
   count_list (load_favorites Map.empty ''favorites.txt'') ''Brave Tiger'' \<le> 1 \<and>
   count_list (load_favorites (files (add_favorite ''Brave Tiger'' ''favorites.txt''
     (add_favorite ''Brave Tiger'' ''favorites.txt'' \<lparr>stdout = [], stderr = [], files = Map.empty\<rparr>))) ''favorites.txt'')
     ''Brave Tiger'' = 1"
proof -
  have h1: "favorite_line_ok ''Brave Tiger''" by (simp add: favorite_line_ok_def py_defs)
  have h2: "files \<lparr>stdout = [], stderr = [], files = Map.empty\<rparr> ''favorites.txt'' \<noteq> Some Unreadable" by simp
  have h3: "count_list (load_favorites (files \<lparr>stdout = [], stderr = [], files = Map.empty\<rparr>) ''favorites.txt'') ''Brave Tiger'' \<le> 1"
    by (simp add: load_favorites_def)
  show ?thesis using h1 h2 h3 add_favorite_twice [OF h1 h2 h3] by simp
qed

end
