(* ===== verification/Shell.thy ===== *)
theory Shell
  imports Cli
begin

text \<open>
  The interactive menu of \<^verbatim>\<open>src/SpySpeak.py\<close>. Its local variables (favorites,
  exclusions, current theme, generation settings, the two word lists) form the record
  \<open>shell\<close>, together with the console and files (\<open>io\<close>), the random draws and the lines
  still to be read from standard input: the explicit session value that spec 9 asks for.
  Statements run in an exception-and-state monad \<open>'a sh\<close>: a result or the exception
  raised, and the state reached. \<^verbatim>\<open>input(prompt)\<close> writes the prompt and takes the next
  line, raising \<open>EOFError\<close> when there is none. \<^verbatim>\<open>KeyboardInterrupt\<close>, which the loop
  catches to stop, is not an input of the model.
\<close>

section \<open>State and statements\<close>

record shell =
  sh_favorites :: "string list"
  sh_exclusions :: "string list"
  sh_theme :: "string option"
  sh_cfg :: gen_config
  sh_adjectives :: "string list"
  sh_nouns :: "string list"
  sh_io :: io
  sh_rng :: rng
  sh_in :: "string list"

text \<open>What \<^verbatim>\<open>main\<close> reads from its environment besides files: the script's directory,
  whether \<^verbatim>\<open>themes/\<close> exists there, and what \<^verbatim>\<open>get_available_themes()\<close> returns.\<close>

record shell_env =
  current_dir :: path
  themes_present :: bool
  themes_listing :: "string list"

type_synonym 'a sh = "shell \<Rightarrow> 'a py \<times> shell"

definition sh_return :: "'a \<Rightarrow> 'a sh" where
  "sh_return a s = (Inr a, s)"

definition sh_bind :: "'a sh \<Rightarrow> ('a \<Rightarrow> 'b sh) \<Rightarrow> 'b sh" where
  "sh_bind m f s = (case m s of (Inl e, s') \<Rightarrow> (Inl e, s') | (Inr a, s') \<Rightarrow> f a s')"

definition sh_seq :: "unit sh \<Rightarrow> 'a sh \<Rightarrow> 'a sh" where
  "sh_seq m k = sh_bind m (\<lambda>_. k)"

text \<open>\<^verbatim>\<open>try: m except E: h\<close>, for the exceptions \<open>p\<close> selects.\<close>

definition sh_catch :: "'a sh \<Rightarrow> (py_exc \<Rightarrow> bool) \<Rightarrow> (py_exc \<Rightarrow> 'a sh) \<Rightarrow> 'a sh" where
  "sh_catch m p h s = (case m s of (Inl e, s') \<Rightarrow> if p e then h e s' else (Inl e, s') | r \<Rightarrow> r)"

definition sh_raise :: "py_exc \<Rightarrow> 'a sh" where
  "sh_raise e s = (Inl e, s)"

definition sh_modify :: "(shell \<Rightarrow> shell) \<Rightarrow> unit sh" where
  "sh_modify f s = (Inr (), f s)"

definition sh_print :: "string \<Rightarrow> unit sh" where
  "sh_print msg s = (Inr (), s\<lparr>sh_io := write_out (msg @ [LF]) (sh_io s)\<rparr>)"

definition sh_input :: "string \<Rightarrow> string sh" where
  "sh_input prompt s =
     (let s' = s\<lparr>sh_io := write_out prompt (sh_io s)\<rparr> in
      case sh_in s of
        [] \<Rightarrow> (Inl EOFError, s')
      | l # ls \<Rightarrow> (Inr l, s'\<lparr>sh_in := ls\<rparr>))"

definition sh_get :: "shell sh" where
  "sh_get s = (Inr s, s)"

definition sh_files :: "fs sh" where
  "sh_files s = (Inr (files (sh_io s)), s)"

definition sh_set_files :: "fs \<Rightarrow> unit sh" where
  "sh_set_files fs = sh_modify (\<lambda>s. s\<lparr>sh_io := (sh_io s)\<lparr>files := fs\<rparr>\<rparr>)"

text \<open>\<^verbatim>\<open>generate_codename(...)\<close> of \<^verbatim>\<open>SpySpeak.py\<close>, drawing from the state's random source.\<close>

definition sh_generate :: "string list \<Rightarrow> string list \<Rightarrow> gen_config \<Rightarrow> string list \<Rightarrow> string list sh" where
  "sh_generate adjectives nouns cfg exclusions s =
     (case generate_codename_main adjectives nouns cfg exclusions (sh_rng s) of
        Inl e \<Rightarrow> (Inl e, s)
      | Inr (names, g') \<Rightarrow> (Inr names, s\<lparr>sh_rng := g'\<rparr>))"

section \<open>File helpers of SpySpeak.py\<close>

text \<open>\<^verbatim>\<open>load_words\<close>: a missing file is reported, any other failure to open propagates.\<close>

definition sh_load_words :: "path \<Rightarrow> string list sh" where
  "sh_load_words filename =
     sh_bind sh_files (\<lambda>fs.
       case fs filename of
         None \<Rightarrow> sh_seq (sh_print (''Error: Could not find the file '' @ quoted filename)) (sh_return [])
       | Some Unreadable \<Rightarrow> sh_raise (OSError (os_error_str filename))
       | Some (Text t) \<Rightarrow> sh_return (stripped_lines t))"

definition sh_save_favorites :: "string list \<Rightarrow> path \<Rightarrow> bool sh" where
  "sh_save_favorites favorites filename =
     sh_bind sh_files (\<lambda>fs.
       case write_file filename (concat [name @ [LF]. name \<leftarrow> favorites]) fs of
         None \<Rightarrow> sh_seq (sh_print (''Error saving favorites: '' @ os_error_str filename)) (sh_return False)
       | Some fs' \<Rightarrow>
           sh_seq (sh_set_files fs')
             (sh_seq (sh_print (''Successfully saved '' @ py_str_nat (length favorites) @ '' favorites to '' @ filename))
               (sh_return True)))"

definition sh_load_favorites :: "path \<Rightarrow> string list sh" where
  "sh_load_favorites filename =
     sh_bind sh_files (\<lambda>fs.
       case fs filename of
         None \<Rightarrow> sh_seq (sh_print (''No favorites file found at '' @ filename)) (sh_return [])
       | Some Unreadable \<Rightarrow> sh_seq (sh_print (''Error loading favorites: '' @ os_error_str filename)) (sh_return [])
       | Some (Text t) \<Rightarrow> sh_return (stripped_lines t))"

definition sh_load_exclusions :: "path \<Rightarrow> string list sh" where
  "sh_load_exclusions filename =
     sh_bind sh_files (\<lambda>fs.
       case fs filename of
         None \<Rightarrow> sh_return []
       | Some Unreadable \<Rightarrow> sh_seq (sh_print (''Error loading exclusions: '' @ os_error_str filename)) (sh_return [])
       | Some (Text t) \<Rightarrow> sh_return (load_exclusions fs filename))"

definition sh_load_themed_words :: "string \<Rightarrow> (string list \<times> string list) sh" where
  "sh_load_themed_words theme =
     (let (adj_file, noun_file) = theme_files theme in
      sh_bind sh_files (\<lambda>fs.
        if fs adj_file = None \<or> fs noun_file = None then
          sh_seq (sh_print (''Theme '' @ quoted theme @ '' not found. Make sure both '' @ adj_file @ '' and '' @
                            noun_file @ '' exist.''))
            (sh_return ([], []))
        else
          sh_bind (sh_load_words adj_file) (\<lambda>adjectives.
          sh_bind (sh_load_words noun_file) (\<lambda>nouns.
          sh_return (adjectives, nouns)))))"

definition export_favorites_main :: "string list \<Rightarrow> string \<Rightarrow> path \<Rightarrow> string sh" where
  "export_favorites_main favorites format_type filename =
     (let output = format_output favorites format_type in
      if filename \<noteq> [] then
        sh_bind sh_files (\<lambda>fs.
          case write_file filename output fs of
            None \<Rightarrow> sh_seq (sh_print (''Error exporting favorites: '' @ os_error_str filename)) (sh_return output)
          | Some fs' \<Rightarrow>
              sh_seq (sh_set_files fs')
                (sh_seq (sh_print (''Successfully exported '' @ py_str_nat (length favorites) @ '' favorites to '' @ filename))
                  (sh_return output)))
      else sh_return output)"

definition help_text :: string where
  "help_text =
     [LF] @ ''Codename Generator Help:'' @ [LF] @
     ''-----------------------'' @ [LF] @
     ''Main Menu Options:'' @ [LF] @
     ''1. Generate a single codename - Creates one random codename'' @ [LF] @
     ''2. Generate multiple codenames - Creates multiple codenames'' @ [LF] @
     ''3. View favorites - Display your saved favorite codenames'' @ [LF] @
     ''4. Manage favorites - Add to, remove from, or export your favorites'' @ [LF] @
     ''5. Change settings - Modify application settings like theme or exclusions'' @ [LF] @
     ''6. Help - Display this help information'' @ [LF] @
     ''7. Exit - Quit the application'' @ [LF] @
     [LF] @ ''Themes:'' @ [LF] @
     ''The program supports themed word lists found in the '' @ [SQ] @ ''themes'' @ [SQ] @ '' directory.'' @ [LF] @
     ''Each theme consists of two files: themename_adj.txt and themename_nouns.txt'' @ [LF] @
     [LF] @ ''Exclusions:'' @ [LF] @
     ''You can create an '' @ [SQ] @ ''exclusions.txt'' @ [SQ] @ '' file with words to exclude from codename generation.'' @ [LF] @
     ''Put one word per line in this file.'' @ [LF] @
     [LF] @ ''Output Formats:'' @ [LF] @
     ''Codenames can be exported in text, JSON, CSV, and HTML formats.'' @ [LF] @
     [LF] @ ''Codename Patterns:'' @ [LF] @
     ''- adj-noun: Adjective + Noun (e.g., '' @ [SQ] @ ''Brave Tiger'' @ [SQ] @ '')'' @ [LF] @
     ''- noun-noun: Noun + Noun (e.g., '' @ [SQ] @ ''Forest Mountain'' @ [SQ] @ '')'' @ [LF] @
     ''- adj-adj-noun: Adjective + Adjective + Noun (e.g., '' @ [SQ] @ ''Brave Silent Warrior'' @ [SQ] @ '')'' @ [LF] @
     ''- noun-adj: Noun + Adjective (e.g., '' @ [SQ] @ ''Eagle Swift'' @ [SQ] @ '')'' @ [LF] @
     ''- adj-noun-number: Adjective + Noun + Number (e.g., '' @ [SQ] @ ''Swift Eagle 42'' @ [SQ] @ '')'' @ [LF] @
     [LF] @ ''Case Styles:'' @ [LF] @
     ''- Title Case: First Letter Of Each Word Capitalized'' @ [LF] @
     ''- UPPERCASE: ALL LETTERS CAPITALIZED'' @ [LF] @
     ''- lowercase: all letters lowercase'' @ [LF] @
     ''- Sentence case: Only first letter capitalized'' @ [LF] @
     [LF] @ ''Word Length Limits:'' @ [LF] @
     ''You can set minimum and maximum length for words used in codenames.'' @ [LF] @
     ''This helps control the overall length of generated codenames.'' @ [LF] @
     [LF] @ ''Separators:'' @ [LF] @
     ''You can choose different separators between words: space, hyphen, underscore, etc.'' @ [LF]"

definition display_help :: "unit sh" where
  "display_help = sh_modify (\<lambda>s. s\<lparr>sh_io := write_out help_text (sh_io s)\<rparr>)"

section \<open>Python builtins of the menu\<close>

definition is_value_error :: "py_exc \<Rightarrow> bool" where
  "is_value_error e = (case e of ValueError _ \<Rightarrow> True | _ \<Rightarrow> False)"

text \<open>\<^verbatim>\<open>for i, x in enumerate(xs, start): print(f"{i}. {x}")\<close>\<close>

fun enum_lines :: "nat \<Rightarrow> string list \<Rightarrow> string" where
  "enum_lines i [] = []"
| "enum_lines i (x # xs) = py_str_nat i @ ''. '' @ x @ [LF] @ enum_lines (Suc i) xs"

definition sh_print_enum :: "string list \<Rightarrow> unit sh" where
  "sh_print_enum xs = sh_modify (\<lambda>s. s\<lparr>sh_io := write_out (enum_lines 1 xs) (sh_io s)\<rparr>)"

text \<open>\<^verbatim>\<open>choice = input(prompt).lower()\<close> then \<^verbatim>\<open>choice in ['json', 'csv', 'html']\<close>\<close>

definition chosen_format :: "string \<Rightarrow> string" where
  "chosen_format c = (if py_lower c \<in> {''json'', ''csv'', ''html''} then py_lower c else ''text'')"

section \<open>Paths and defaults of main\<close>

definition adj_file :: "shell_env \<Rightarrow> path" where
  "adj_file env = path_join (current_dir env) ''adjectives.txt''"

definition noun_file :: "shell_env \<Rightarrow> path" where
  "noun_file env = path_join (current_dir env) ''nouns.txt''"

definition exclusions_file :: "shell_env \<Rightarrow> path" where
  "exclusions_file env = path_join (current_dir env) ''exclusions.txt''"

definition favorites_file :: "shell_env \<Rightarrow> path" where
  "favorites_file env = path_join (current_dir env) ''favorites.txt''"

definition main_default_config :: gen_config where
  "main_default_config =
     \<lparr>count = 1, pattern = ''adj-noun'', case_style = ''title'', min_length = 0, max_length = 0,
      separator = '' ''\<rparr>"

datatype loop_ctl = Continue | Break

section \<open>Menu option 1: one codename\<close>

definition add_and_save :: "shell_env \<Rightarrow> string \<Rightarrow> unit sh" where
  "add_and_save env name =
     sh_bind sh_get (\<lambda>s.
     sh_seq (sh_modify (\<lambda>s. s\<lparr>sh_favorites := sh_favorites s @ [name]\<rparr>))
       (sh_bind (sh_save_favorites (sh_favorites s @ [name]) (favorites_file env)) (\<lambda>_. sh_return ())))"

definition menu_generate_one :: "shell_env \<Rightarrow> loop_ctl sh" where
  "menu_generate_one env =
     sh_bind sh_get (\<lambda>s.
     sh_bind (sh_generate (sh_adjectives s) (sh_nouns s) ((sh_cfg s)\<lparr>count := 1\<rparr>) (sh_exclusions s)) (\<lambda>names.
     if names = [] then sh_raise IndexError else
     let codename = hd names in
     sh_seq (sh_print ([LF] @ ''Your codename is: '' @ codename))
     (sh_bind (sh_input ''Add this to favorites? (y/n): '') (\<lambda>save_choice.
      if py_lower save_choice = ''y'' then sh_seq (add_and_save env codename) (sh_return Continue)
      else sh_return Continue))))"

section \<open>Menu option 2: several codenames\<close>

text \<open>Saving the output of option 2: \<^verbatim>\<open>open('')\<close> fails with
  \<^verbatim>\<open>FileNotFoundError\<close>, and an unwritable file with a permission error; both are
  printed by the \<^verbatim>\<open>except Exception\<close>.\<close>

definition save_output :: "string \<Rightarrow> unit sh" where
  "save_output output =
     sh_bind (sh_input ''Save output to file? (y/n): '') (\<lambda>save_choice.
     if py_lower save_choice = ''y'' then
       sh_bind (sh_input ''Enter filename: '') (\<lambda>filename.
       if filename = [] then sh_print (''Error saving file: [Errno 2] No such file or directory: '' @ [SQ, SQ])
       else
       sh_bind sh_files (\<lambda>fs.
       case write_file filename output fs of
         None \<Rightarrow> sh_print (''Error saving file: '' @ os_error_str filename)
       | Some fs' \<Rightarrow> sh_seq (sh_set_files fs') (sh_print (''Output saved to '' @ filename))))
     else sh_return ())"

definition menu_generate_many :: "loop_ctl sh" where
  "menu_generate_many =
     sh_catch
       (sh_bind (sh_input ''How many codenames do you want to generate? '') (\<lambda>line.
        sh_bind (\<lambda>s. (py_int line, s)) (\<lambda>k.
        if k < 1 then sh_seq (sh_print ''Please enter a positive number'') (sh_return Continue)
        else
          sh_bind (sh_input ''Output format (text/json/csv/html) [text]: '') (\<lambda>format_choice.
          sh_bind sh_get (\<lambda>s.
          sh_bind (sh_generate (sh_adjectives s) (sh_nouns s) ((sh_cfg s)\<lparr>count := k\<rparr>) (sh_exclusions s)) (\<lambda>codenames.
          let output = format_output codenames (chosen_format format_choice) in
          sh_seq (sh_print ([LF] @ ''Your codenames are:''))
          (sh_seq (sh_print output)
          (sh_seq (save_output output) (sh_return Continue)))))))))
       is_value_error
       (\<lambda>_. sh_seq (sh_print ''Please enter a valid number'') (sh_return Continue))"

section \<open>Menu options 3 and 4: favorites\<close>

definition menu_view_favorites :: "loop_ctl sh" where
  "menu_view_favorites =
     sh_bind sh_get (\<lambda>s.
     if sh_favorites s = [] then sh_seq (sh_print ''You have no saved favorites.'') (sh_return Continue)
     else sh_seq (sh_print ([LF] @ ''Your favorite codenames:'')) (sh_seq (sh_print_enum (sh_favorites s)) (sh_return Continue)))"

text \<open>\<^verbatim>\<open>favorites.pop(i)\<close> for an index already checked to be in range.\<close>

definition remove_nth :: "nat \<Rightarrow> 'a list \<Rightarrow> 'a list" where
  "remove_nth i xs = take i xs @ drop (Suc i) xs"

definition remove_favorite :: "shell_env \<Rightarrow> unit sh" where
  "remove_favorite env =
     sh_bind sh_get (\<lambda>s.
     sh_seq (sh_print ([LF] @ ''Your favorite codenames:''))
     (sh_seq (sh_print_enum (sh_favorites s))
     (sh_catch
       (sh_bind (sh_input ''Enter the number of the favorite to remove: '') (\<lambda>line.
        sh_bind (\<lambda>s. (py_int line, s)) (\<lambda>k.
        let remove_idx = k - 1 in
        if 0 \<le> remove_idx \<and> remove_idx < int (length (sh_favorites s)) then
          let removed = sh_favorites s ! nat remove_idx;
              rest = remove_nth (nat remove_idx) (sh_favorites s) in
          sh_seq (sh_modify (\<lambda>s. s\<lparr>sh_favorites := rest\<rparr>))
          (sh_bind (sh_save_favorites rest (favorites_file env)) (\<lambda>_.
           sh_print (''Removed '' @ quoted removed @ '' from favorites'')))
        else sh_print ''Invalid number'')))
       is_value_error
       (\<lambda>_. sh_print ''Please enter a valid number''))))"

definition manage_favorites_menu :: string where
  "manage_favorites_menu =
     [LF] @ ''Favorites Management:'' @ [LF] @ ''1. Add a new favorite'' @ [LF] @ ''2. Remove a favorite'' @ [LF] @
     ''3. Export favorites'' @ [LF] @ ''4. Back to main menu'' @ [LF]"

definition menu_manage_favorites :: "shell_env \<Rightarrow> loop_ctl sh" where
  "menu_manage_favorites env =
     sh_bind sh_get (\<lambda>s.
     if sh_favorites s = [] then
       sh_seq (sh_print ''You have no saved favorites.'')
       (sh_bind (sh_input ''Would you like to add a new favorite? (y/n): '') (\<lambda>add_new.
        if py_lower add_new = ''y'' then
          sh_bind (sh_input ''Enter a codename to add to favorites: '') (\<lambda>new_name.
          sh_seq (add_and_save env new_name) (sh_return Continue))
        else sh_return Continue))
     else
       sh_seq (sh_modify (\<lambda>s. s\<lparr>sh_io := write_out manage_favorites_menu (sh_io s)\<rparr>))
       (sh_bind (sh_input ''Enter your choice (1-4): '') (\<lambda>fav_choice.
        if fav_choice = ''1'' then
          sh_bind (sh_input ''Enter a codename to add to favorites: '') (\<lambda>new_name.
          sh_seq (add_and_save env new_name) (sh_return Continue))
        else if fav_choice = ''2'' then sh_seq (remove_favorite env) (sh_return Continue)
        else if fav_choice = ''3'' then
          sh_bind (sh_input ''Export format (text/json/csv/html) [text]: '') (\<lambda>format_choice.
          sh_bind (sh_input ''Enter export filename: '') (\<lambda>filename.
          sh_bind (export_favorites_main (sh_favorites s) (chosen_format format_choice) filename) (\<lambda>_.
          sh_return Continue)))
        else if fav_choice = ''4'' then sh_return Continue
        else sh_seq (sh_print ''Invalid choice'') (sh_return Continue))))"

section \<open>Menu option 5: settings\<close>

subsection \<open>Theme\<close>

definition switch_default :: "shell_env \<Rightarrow> unit sh" where
  "switch_default env =
     sh_bind (sh_load_words (adj_file env)) (\<lambda>adjectives.
     sh_bind (sh_load_words (noun_file env)) (\<lambda>nouns.
     sh_seq (sh_modify (\<lambda>s. s\<lparr>sh_theme := None,
                                sh_adjectives := filter_excluded_words adjectives (sh_exclusions s),
                                sh_nouns := filter_excluded_words nouns (sh_exclusions s)\<rparr>))
     (sh_print ''Switched to default word lists'')))"

definition switch_theme :: "string \<Rightarrow> unit sh" where
  "switch_theme theme =
     sh_bind (sh_load_themed_words theme) (\<lambda>(theme_adjectives, theme_nouns).
     if theme_adjectives \<noteq> [] \<and> theme_nouns \<noteq> [] then
       sh_seq (sh_modify (\<lambda>s. s\<lparr>sh_theme := Some theme,
                                  sh_adjectives := filter_excluded_words theme_adjectives (sh_exclusions s),
                                  sh_nouns := filter_excluded_words theme_nouns (sh_exclusions s)\<rparr>))
       (sh_bind sh_get (\<lambda>s.
        sh_seq (sh_print (''Switched to theme: '' @ theme))
        (sh_print (''Loaded '' @ py_str_nat (length (sh_adjectives s)) @ '' adjectives and '' @
                   py_str_nat (length (sh_nouns s)) @ '' nouns''))))
     else sh_return ())"

definition settings_theme :: "shell_env \<Rightarrow> loop_ctl sh" where
  "settings_theme env =
     (let themes = themes_listing env in
      if themes = [] then
        sh_seq (sh_print ''No themes found. Would you like to create a new theme?'')
        (sh_bind (sh_input ''Create new theme? (y/n): '') (\<lambda>create_theme.
         if py_lower create_theme = ''y'' then
           sh_bind (sh_input ''Enter theme name: '') (\<lambda>theme_name.
           sh_seq (sh_print (''Created theme directory. Please add '' @ theme_name @ ''_adj.txt and '' @
                             theme_name @ ''_nouns.txt files.''))
           (sh_return Continue))
         else sh_return Continue))
      else
        sh_seq (sh_print ([LF] @ ''Available themes:''))
        (sh_seq (sh_print ''0. Default (no theme)'')
        (sh_seq (sh_print_enum themes)
        (sh_catch
          (sh_bind (sh_input ''Enter theme number: '') (\<lambda>line.
           sh_bind (\<lambda>s. (py_int line, s)) (\<lambda>theme_choice.
           if theme_choice = 0 then sh_seq (switch_default env) (sh_return Continue)
           else if 1 \<le> theme_choice \<and> theme_choice \<le> int (length themes) then
             sh_seq (switch_theme (themes ! nat (theme_choice - 1))) (sh_return Continue)
           else sh_seq (sh_print ''Invalid theme number'') (sh_return Continue))))
          is_value_error
          (\<lambda>_. sh_seq (sh_print ''Please enter a valid number'') (sh_return Continue))))))"

subsection \<open>Exclusions\<close>

text \<open>\<^verbatim>\<open>for word in new_words: if word and word not in exclusions: exclusions.append(word)\<close>\<close>

fun add_exclusions :: "string list \<Rightarrow> string list \<Rightarrow> string list" where
  "add_exclusions ex [] = ex"
| "add_exclusions ex (w # ws) = add_exclusions (if w \<noteq> [] \<and> w \<notin> set ex then ex @ [w] else ex) ws"

text \<open>The default lists, \<^verbatim>\<open>load_words(adj_file)\<close> then \<^verbatim>\<open>load_words(noun_file)\<close>.\<close>

definition load_default_words :: "shell_env \<Rightarrow> (string list \<times> string list) sh" where
  "load_default_words env =
     sh_bind (sh_load_words (adj_file env)) (\<lambda>adjectives.
     sh_bind (sh_load_words (noun_file env)) (\<lambda>nouns. sh_return (adjectives, nouns)))"

text \<open>Re-reading the word lists after the exclusions changed, filtered or not:
  \<^verbatim>\<open>if current_theme:\<close> is false for \<^verbatim>\<open>None\<close> and for the empty name.\<close>

definition reload_words :: "shell_env \<Rightarrow> bool \<Rightarrow> (string list \<times> string list) sh" where
  "reload_words env filtered =
     sh_bind sh_get (\<lambda>s.
     sh_bind (case sh_theme s of
                Some theme \<Rightarrow> if theme \<noteq> [] then sh_load_themed_words theme else load_default_words env
              | None \<Rightarrow> load_default_words env) (\<lambda>(adjectives, nouns).
     let adjectives' = (if filtered then filter_excluded_words adjectives (sh_exclusions s) else adjectives);
         nouns' = (if filtered then filter_excluded_words nouns (sh_exclusions s) else nouns) in
     sh_seq (sh_modify (\<lambda>s. s\<lparr>sh_adjectives := adjectives', sh_nouns := nouns'\<rparr>))
     (sh_return (adjectives', nouns'))))"

definition is_exception :: "py_exc \<Rightarrow> bool" where
  "is_exception e = (case e of SystemExit _ _ \<Rightarrow> False | _ \<Rightarrow> True)"

definition add_exclusion_words :: "shell_env \<Rightarrow> unit sh" where
  "add_exclusion_words env =
     sh_bind (sh_input ''Enter words to exclude (comma separated): '') (\<lambda>new_exclusions.
     let new_words = map (\<lambda>w. py_lower (py_strip w)) (split_on '','' new_exclusions) in
     sh_seq (sh_modify (\<lambda>s. s\<lparr>sh_exclusions := add_exclusions (sh_exclusions s) new_words\<rparr>))
     (sh_catch
       (sh_bind sh_get (\<lambda>s.
        sh_bind sh_files (\<lambda>fs.
        case write_file (exclusions_file env) (concat [w @ [LF]. w \<leftarrow> sh_exclusions s]) fs of
          None \<Rightarrow> sh_raise (OSError (os_error_str (exclusions_file env)))
        | Some fs' \<Rightarrow>
            sh_seq (sh_set_files fs')
            (sh_seq (sh_print (''Added '' @ py_str_nat (length new_words) @ '' words to exclusions''))
            (sh_bind (reload_words env True) (\<lambda>(adjectives, nouns).
             sh_print (''Updated to '' @ py_str_nat (length adjectives) @ '' adjectives and '' @
                       py_str_nat (length nouns) @ '' nouns after applying exclusions'')))))))
       is_exception
       (\<lambda>e. sh_print (''Error saving exclusions: '' @ py_exc_str e))))"

text \<open>Option 3 of the exclusions menu. \<^verbatim>\<open>os.remove\<close> deletes an existing entry,
  readable or not; the file model has no directory permissions, so the removal always
  succeeds and the \<open>OSError\<close> a refused removal would raise is not modelled.\<close>

definition clear_exclusions :: "shell_env \<Rightarrow> unit sh" where
  "clear_exclusions env =
     sh_bind (sh_input ''Are you sure you want to clear all exclusions? (y/n): '') (\<lambda>confirm.
     if py_lower confirm = ''y'' then
       sh_seq (sh_modify (\<lambda>s. s\<lparr>sh_exclusions := []\<rparr>))
       (sh_bind sh_files (\<lambda>fs.
        sh_seq (if fs (exclusions_file env) \<noteq> None then sh_set_files (fs(exclusions_file env := None)) else sh_return ())
        (sh_seq (sh_print ''All exclusions cleared'')
        (sh_bind (reload_words env False) (\<lambda>(adjectives, nouns).
         sh_print (''Updated to '' @ py_str_nat (length adjectives) @ '' adjectives and '' @
                   py_str_nat (length nouns) @ '' nouns after clearing exclusions''))))))
     else sh_return ())"

definition exclusions_menu :: string where
  "exclusions_menu =
     [LF] @ ''Exclusions Management:'' @ [LF] @ ''1. View current exclusions'' @ [LF] @
     ''2. Add exclusion words'' @ [LF] @ ''3. Clear all exclusions'' @ [LF] @ ''4. Back to settings'' @ [LF]"

definition settings_exclusions :: "shell_env \<Rightarrow> loop_ctl sh" where
  "settings_exclusions env =
     sh_seq (sh_modify (\<lambda>s. s\<lparr>sh_io := write_out exclusions_menu (sh_io s)\<rparr>))
     (sh_bind (sh_input ''Enter your choice (1-4): '') (\<lambda>excl_choice.
      if excl_choice = ''1'' then
        sh_bind sh_get (\<lambda>s.
        if sh_exclusions s = [] then sh_seq (sh_print ''No exclusions set.'') (sh_return Continue)
        else sh_seq (sh_print ([LF] @ ''Current exclusions:'')) (sh_seq (sh_print_enum (sh_exclusions s)) (sh_return Continue)))
      else if excl_choice = ''2'' then sh_seq (add_exclusion_words env) (sh_return Continue)
      else if excl_choice = ''3'' then sh_seq (clear_exclusions env) (sh_return Continue)
      else if excl_choice = ''4'' then sh_return Continue
      else sh_seq (sh_print ''Invalid choice'') (sh_return Continue)))"

subsection \<open>Pattern, case style, lengths, separator\<close>

definition pattern_menu :: string where
  "pattern_menu =
     [LF] @ ''Codername Pattern:'' @ [LF] @ ''1. adj-noun (Adjective + Noun)'' @ [LF] @
     ''2. noun-noun (Noun + Noun)'' @ [LF] @ ''3. adj-adj-noun (Adjective + Adjective + Noun)'' @ [LF] @
     ''4. noun-adj (Noun + Adjective)'' @ [LF] @ ''5. adj-noun-number (Adjective + Noun + Number)'' @ [LF]"

definition pattern_of_choice :: "string \<Rightarrow> string option" where
  "pattern_of_choice c =
     (if c = ''1'' then Some ''adj-noun'' else if c = ''2'' then Some ''noun-noun''
      else if c = ''3'' then Some ''adj-adj-noun'' else if c = ''4'' then Some ''noun-adj''
      else if c = ''5'' then Some ''adj-noun-number'' else None)"

definition set_cfg :: "(gen_config \<Rightarrow> gen_config) \<Rightarrow> unit sh" where
  "set_cfg f = sh_modify (\<lambda>s. s\<lparr>sh_cfg := f (sh_cfg s)\<rparr>)"

definition settings_pattern :: "loop_ctl sh" where
  "settings_pattern =
     sh_seq (sh_modify (\<lambda>s. s\<lparr>sh_io := write_out pattern_menu (sh_io s)\<rparr>))
     (sh_bind (sh_input ''Enter your choice (1-5): '') (\<lambda>pattern_choice.
      sh_seq (case pattern_of_choice pattern_choice of
                Some p \<Rightarrow> set_cfg (\<lambda>c. c\<lparr>pattern := p\<rparr>)
              | None \<Rightarrow> sh_print ''Invalid choice, keeping current pattern'')
      (sh_bind sh_get (\<lambda>s. sh_seq (sh_print (''Pattern set to: '' @ pattern (sh_cfg s))) (sh_return Continue)))))"

definition case_menu :: string where
  "case_menu =
     [LF] @ ''Text Case Style:'' @ [LF] @ ''1. Title Case (First Letter Of Each Word Capitalized)'' @ [LF] @
     ''2. UPPERCASE (ALL LETTERS CAPITALIZED)'' @ [LF] @ ''3. lowercase (all letters lowercase)'' @ [LF] @
     ''4. Sentence case (Only first letter capitalized)'' @ [LF]"

definition case_of_choice :: "string \<Rightarrow> string option" where
  "case_of_choice c =
     (if c = ''1'' then Some ''title'' else if c = ''2'' then Some ''upper''
      else if c = ''3'' then Some ''lower'' else if c = ''4'' then Some ''sentence'' else None)"

definition settings_case :: "loop_ctl sh" where
  "settings_case =
     sh_seq (sh_modify (\<lambda>s. s\<lparr>sh_io := write_out case_menu (sh_io s)\<rparr>))
     (sh_bind (sh_input ''Enter your choice (1-4): '') (\<lambda>case_choice.
      sh_seq (case case_of_choice case_choice of
                Some c \<Rightarrow> set_cfg (\<lambda>cfg. cfg\<lparr>case_style := c\<rparr>)
              | None \<Rightarrow> sh_print ''Invalid choice, keeping current case style'')
      (sh_bind sh_get (\<lambda>s. sh_seq (sh_print (''Case style set to: '' @ case_style (sh_cfg s))) (sh_return Continue)))))"

text \<open>\<^verbatim>\<open>int(x) if x.isdigit() else 0\<close>\<close>

definition digit_or_zero :: "string \<Rightarrow> int py" where
  "digit_or_zero x = (if py_isdigit x then py_int x else Inr 0)"

text \<open>The \<^verbatim>\<open>try\<close> block of option 5: both limits read, then checked against each other.\<close>

definition read_lengths :: "unit sh" where
  "read_lengths =
     sh_bind (sh_input ''Enter minimum word length (0 for no minimum): '') (\<lambda>new_min.
     sh_bind (\<lambda>s. (digit_or_zero new_min, s)) (\<lambda>min_len.
     sh_seq (set_cfg (\<lambda>c. c\<lparr>min_length := min_len\<rparr>))
     (sh_bind (sh_input ''Enter maximum word length (0 for no maximum): '') (\<lambda>new_max.
      sh_bind (\<lambda>s. (digit_or_zero new_max, s)) (\<lambda>max_len.
      sh_seq (set_cfg (\<lambda>c. c\<lparr>max_length := max_len\<rparr>))
      (sh_seq (if min_len > 0 \<and> max_len > 0 \<and> min_len > max_len then
                 sh_seq (sh_print ''Error: Minimum length cannot be greater than maximum length'')
                   (set_cfg (\<lambda>c. c\<lparr>min_length := 0, max_length := 0\<rparr>))
               else sh_return ())
      (sh_bind sh_get (\<lambda>s.
       sh_print (''Word length limits set to: min='' @ py_str_int (min_length (sh_cfg s)) @
                 '', max='' @ py_str_int (max_length (sh_cfg s)))))))))))"

definition settings_lengths :: "loop_ctl sh" where
  "settings_lengths =
     sh_seq
       (sh_catch read_lengths is_value_error
         (\<lambda>_. sh_seq (sh_print ''Invalid input. Using default values (no limits).'')
                (set_cfg (\<lambda>c. c\<lparr>min_length := 0, max_length := 0\<rparr>))))
       (sh_return Continue)"

definition separator_menu :: string where
  "separator_menu =
     [LF] @ ''Separator Options:'' @ [LF] @ ''1. Space ( )'' @ [LF] @ ''2. Hyphen (-)'' @ [LF] @
     ''3. Underscore (_)'' @ [LF] @ ''4. Dot (.)'' @ [LF] @ ''5. No separator'' @ [LF] @ ''6. Custom separator'' @ [LF]"

definition settings_separator :: "loop_ctl sh" where
  "settings_separator =
     sh_seq (sh_modify (\<lambda>s. s\<lparr>sh_io := write_out separator_menu (sh_io s)\<rparr>))
     (sh_bind (sh_input ''Enter your choice (1-6): '') (\<lambda>sep_choice.
      sh_seq (if sep_choice = ''1'' then set_cfg (\<lambda>c. c\<lparr>separator := '' ''\<rparr>)
              else if sep_choice = ''2'' then set_cfg (\<lambda>c. c\<lparr>separator := ''-''\<rparr>)
              else if sep_choice = ''3'' then set_cfg (\<lambda>c. c\<lparr>separator := ''_''\<rparr>)
              else if sep_choice = ''4'' then set_cfg (\<lambda>c. c\<lparr>separator := ''.''\<rparr>)
              else if sep_choice = ''5'' then set_cfg (\<lambda>c. c\<lparr>separator := []\<rparr>)
              else if sep_choice = ''6'' then
                sh_bind (sh_input ''Enter custom separator: '') (\<lambda>sep. set_cfg (\<lambda>c. c\<lparr>separator := sep\<rparr>))
              else sh_print ''Invalid choice, keeping current separator'')
      (sh_bind sh_get (\<lambda>s. sh_seq (sh_print (''Separator set to: '' @ quoted (separator (sh_cfg s)))) (sh_return Continue)))))"

definition settings_menu :: string where
  "settings_menu =
     [LF] @ ''Settings:'' @ [LF] @ ''1. Change theme'' @ [LF] @ ''2. Manage exclusions'' @ [LF] @
     ''3. Configure codename pattern'' @ [LF] @ ''4. Configure text case style'' @ [LF] @
     ''5. Configure word length limits'' @ [LF] @ ''6. Configure separator'' @ [LF] @ ''7. Back to main menu'' @ [LF]"

definition settings_choice :: "shell_env \<Rightarrow> string \<Rightarrow> loop_ctl sh" where
  "settings_choice env choice =
     (if choice = ''1'' then settings_theme env
      else if choice = ''2'' then settings_exclusions env
      else if choice = ''3'' then settings_pattern
      else if choice = ''4'' then settings_case
      else if choice = ''5'' then settings_lengths
      else if choice = ''6'' then settings_separator
      else if choice = ''7'' then sh_return Continue
      else sh_seq (sh_print ''Invalid choice'') (sh_return Continue))"

definition menu_settings :: "shell_env \<Rightarrow> loop_ctl sh" where
  "menu_settings env =
     sh_bind (sh_seq (sh_modify (\<lambda>s. s\<lparr>sh_io := write_out settings_menu (sh_io s)\<rparr>))
                     (sh_input ''Enter your choice (1-7): ''))
       (settings_choice env)"

section \<open>The main menu\<close>

definition main_menu :: string where
  "main_menu =
     [LF] @ ''Codename Generator Options:'' @ [LF] @ ''1. Generate a single codename'' @ [LF] @
     ''2. Generate multiple codenames'' @ [LF] @ ''3. View favorites'' @ [LF] @ ''4. Manage favorites'' @ [LF] @
     ''5. Change settings'' @ [LF] @ ''6. Help'' @ [LF] @ ''7. Exit'' @ [LF]"

definition menu_choice :: "shell_env \<Rightarrow> string \<Rightarrow> loop_ctl sh" where
  "menu_choice env choice =
     (if choice = ''1'' then menu_generate_one env
      else if choice = ''2'' then menu_generate_many
      else if choice = ''3'' then menu_view_favorites
      else if choice = ''4'' then menu_manage_favorites env
      else if choice = ''5'' then menu_settings env
      else if choice = ''6'' then sh_seq display_help (sh_return Continue)
      else if choice = ''7'' then sh_seq (sh_print ''Thank you for using the Codename Generator. Goodbye!'') (sh_return Break)
      else sh_seq (sh_print ''Invalid choice. Please enter a number from 1-7.'') (sh_return Continue))"

text \<open>One pass of the \<^verbatim>\<open>while True\<close> loop: the menu, the choice, its handler.\<close>

definition menu_iteration :: "shell_env \<Rightarrow> loop_ctl sh" where
  "menu_iteration env =
     sh_bind (sh_seq (sh_modify (\<lambda>s. s\<lparr>sh_io := write_out main_menu (sh_io s)\<rparr>))
                     (sh_input ''Enter your choice (1-7): ''))
       (menu_choice env)"

end
