(* ===== verification/Shell_Frame.thy ===== *)
theory Shell_Frame
  imports Shell "HOL-Library.Sublist"
begin

text \<open>
  What the statements of the interactive menu leave unchanged or change only one way.
  \<open>sh_mono R m\<close> says that every run of \<open>m\<close>, whatever it returns or raises, ends in a
  state related to its start by \<open>R\<close>. For a reflexive and transitive \<open>R\<close> the rules
  \<open>sh_intros\<close> carry it through \<open>sh_bind\<close>, \<open>sh_catch\<close>, conditionals and case splits,
  so that a handler's lemma is the rules plus the side conditions on its updates. Two
  relations are used: \<open>in_suffix\<close> (what is left to read is a suffix of what was left: no
  statement gives back input lines, the variant of the menu loop) and \<open>inv_keep\<close> (the settings invariant \<open>shell_inv\<close> is kept).
\<close>

section \<open>Statements that keep a relation\<close>

definition sh_mono :: "(shell \<Rightarrow> shell \<Rightarrow> bool) \<Rightarrow> 'a sh \<Rightarrow> bool" where
  "sh_mono R m \<longleftrightarrow> (\<forall>s. R s (snd (m s)))"

definition io_blind :: "(shell \<Rightarrow> shell \<Rightarrow> bool) \<Rightarrow> bool" where
  "io_blind R \<longleftrightarrow> (\<forall>s io. R s (s\<lparr>sh_io := io\<rparr>))"

lemma sh_monoD: "sh_mono R m \<Longrightarrow> m s = (r, s') \<Longrightarrow> R s s'"
  unfolding sh_mono_def by (metis snd_conv)

lemma sh_mono_return [sh_intros]: "reflp R \<Longrightarrow> sh_mono R (sh_return a)"
  and sh_mono_raise [sh_intros]: "reflp R \<Longrightarrow> sh_mono R (sh_raise e)"
  and sh_mono_get [sh_intros]: "reflp R \<Longrightarrow> sh_mono R sh_get"
  and sh_mono_files [sh_intros]: "reflp R \<Longrightarrow> sh_mono R sh_files"
  and sh_mono_lift [sh_intros]: "reflp R \<Longrightarrow> sh_mono R (\<lambda>s. (v, s))"
  by (simp_all add: sh_mono_def sh_return_def sh_raise_def sh_get_def sh_files_def reflpD)

lemma sh_mono_modify [sh_intros]: "(\<And>s. R s (f s)) \<Longrightarrow> sh_mono R (sh_modify f)"
  by (simp add: sh_mono_def sh_modify_def)

lemma sh_mono_print [sh_intros]: "io_blind R \<Longrightarrow> sh_mono R (sh_print msg)"
  and sh_mono_set_files [sh_intros]: "io_blind R \<Longrightarrow> sh_mono R (sh_set_files fs)"
  and sh_mono_print_enum [sh_intros]: "io_blind R \<Longrightarrow> sh_mono R (sh_print_enum xs)"
  and sh_mono_display_help [sh_intros]: "io_blind R \<Longrightarrow> sh_mono R display_help"
  by (simp_all add: sh_mono_def io_blind_def sh_print_def sh_set_files_def sh_modify_def
                    sh_print_enum_def display_help_def)

lemma sh_mono_input [sh_intros]:
  assumes io: "io_blind R" and rd: "\<And>s l ls. sh_in s = l # ls \<Longrightarrow> R s (s\<lparr>sh_in := ls\<rparr>)"
    and tr: "transp R"
  shows "sh_mono R (sh_input prompt)"
  unfolding sh_mono_def
proof
  fix s :: shell
  let ?s' = "s\<lparr>sh_io := write_out prompt (sh_io s)\<rparr>"
  have 1: "R s ?s'" using io by (simp add: io_blind_def)
  show "R s (snd (sh_input prompt s))"
  proof (cases "sh_in s")
    case Nil
    with 1 show ?thesis by (simp add: sh_input_def)
  next
    case (Cons l ls)
    then have "R ?s' (?s'\<lparr>sh_in := ls\<rparr>)" by (intro rd) simp
    with 1 tr Cons show ?thesis by (simp add: sh_input_def) (metis transpD)
  qed
qed

lemma sh_mono_generate [sh_intros]:
  "(\<And>s g. R s (s\<lparr>sh_rng := g\<rparr>)) \<Longrightarrow> reflp R \<Longrightarrow> sh_mono R (sh_generate adjectives nouns cfg ex)"
  by (simp add: sh_mono_def sh_generate_def reflpD split: sum.split prod.split)

lemma sh_mono_bind [sh_intros]:
  assumes tr: "transp R" and m: "sh_mono R m" and f: "\<And>a. sh_mono R (f a)"
  shows "sh_mono R (sh_bind m f)"
  unfolding sh_mono_def
proof
  fix s :: shell
  obtain r s1 where ms: "m s = (r, s1)" by fastforce
  with m have 1: "R s s1" by (rule sh_monoD)
  show "R s (snd (sh_bind m f s))"
  proof (cases r)
    case (Inl e)
    with ms 1 show ?thesis by (simp add: sh_bind_def)
  next
    case (Inr a)
    have "R s1 (snd (f a s1))" using f by (simp add: sh_mono_def)
    with ms Inr 1 tr show ?thesis by (simp add: sh_bind_def) (metis transpD)
  qed
qed

lemma sh_mono_seq [sh_intros]:
  "transp R \<Longrightarrow> sh_mono R m \<Longrightarrow> sh_mono R k \<Longrightarrow> sh_mono R (sh_seq m k)"
  unfolding sh_seq_def by (rule sh_mono_bind)

lemma sh_mono_catch [sh_intros]:
  assumes tr: "transp R" and m: "sh_mono R m" and h: "\<And>e. sh_mono R (h e)"
  shows "sh_mono R (sh_catch m p h)"
  unfolding sh_mono_def
proof
  fix s :: shell
  obtain r s1 where ms: "m s = (r, s1)" by fastforce
  with m have 1: "R s s1" by (rule sh_monoD)
  show "R s (snd (sh_catch m p h s))"
  proof (cases "\<exists>e. r = Inl e \<and> p e")
    case True
    then obtain e where e: "r = Inl e" "p e" by blast
    have "R s1 (snd (h e s1))" using h by (simp add: sh_mono_def)
    with ms e 1 tr show ?thesis by (simp add: sh_catch_def) (metis transpD)
  next
    case False
    with ms 1 show ?thesis by (cases r) (auto simp: sh_catch_def)
  qed
qed

lemma sh_mono_if [sh_intros]: "sh_mono R a \<Longrightarrow> sh_mono R b \<Longrightarrow> sh_mono R (if c then a else b)"
  and sh_mono_Let [sh_intros]: "sh_mono R (f v) \<Longrightarrow> sh_mono R (Let v f)"
  by simp_all

lemma sh_mono_case_prod [sh_intros]:
  "(\<And>x y. p = (x, y) \<Longrightarrow> sh_mono R (f x y)) \<Longrightarrow> sh_mono R (case_prod f p)"
  by (cases p) simp

lemma sh_mono_case_option [sh_intros]:
  "sh_mono R a \<Longrightarrow> (\<And>x. opt = Some x \<Longrightarrow> sh_mono R (b x)) \<Longrightarrow> sh_mono R (case_option a b opt)"
  by (cases opt) simp_all

lemma sh_mono_case_fentry [sh_intros]:
  "(\<And>t. e = Text t \<Longrightarrow> sh_mono R (a t)) \<Longrightarrow> sh_mono R b \<Longrightarrow> sh_mono R (case_fentry a b e)"
  by (cases e) simp_all

section \<open>The settings invariant and the relations\<close>

text \<open>
  The data model of the spec (section 3) as an invariant of the shell's state: the
  pattern and case style are among the enumerated ones, the length limits are
  non-negative and not crossed when both are set, and the exclusions are non-empty
  lowercase words.
\<close>

definition known_patterns :: "string list" where
  "known_patterns = [''adj-noun'', ''noun-noun'', ''adj-adj-noun'', ''noun-adj'', ''adj-noun-number'']"

definition known_cases :: "string list" where
  "known_cases = [''title'', ''upper'', ''lower'', ''sentence'']"

definition cfg_ok :: "gen_config \<Rightarrow> bool" where
  "cfg_ok c \<longleftrightarrow>
     pattern c \<in> set known_patterns \<and> case_style c \<in> set known_cases \<and>
     0 \<le> min_length c \<and> 0 \<le> max_length c \<and>
     \<not> (0 < min_length c \<and> 0 < max_length c \<and> max_length c < min_length c)"

definition exclusions_ok :: "string list \<Rightarrow> bool" where
  "exclusions_ok ex \<longleftrightarrow> list_all (\<lambda>w. w \<noteq> [] \<and> py_lower w = w) ex"

definition shell_inv :: "shell \<Rightarrow> bool" where
  "shell_inv s \<longleftrightarrow> cfg_ok (sh_cfg s) \<and> exclusions_ok (sh_exclusions s)"

definition in_suffix :: "shell \<Rightarrow> shell \<Rightarrow> bool" where
  "in_suffix s t \<longleftrightarrow> suffix (sh_in t) (sh_in s)"

lemma suffix_tl [simp]: "suffix ls (l # ls)"
  by (simp add: suffix_ConsI)

definition inv_keep :: "shell \<Rightarrow> shell \<Rightarrow> bool" where
  "inv_keep s t \<longleftrightarrow> (shell_inv s \<longrightarrow> shell_inv t)"

text \<open>A relation that any update of the console, the random source, the favorites, the
  theme and word lists, and the reading of an input line respects.\<close>

definition frame_rel :: "(shell \<Rightarrow> shell \<Rightarrow> bool) \<Rightarrow> bool" where
  "frame_rel R \<longleftrightarrow> reflp R \<and> transp R \<and> io_blind R \<and>
     (\<forall>s g. R s (s\<lparr>sh_rng := g\<rparr>)) \<and> (\<forall>s f. R s (s\<lparr>sh_favorites := f\<rparr>)) \<and>
     (\<forall>s a n. R s (s\<lparr>sh_adjectives := a, sh_nouns := n\<rparr>)) \<and>
     (\<forall>s t a n. R s (s\<lparr>sh_theme := t, sh_adjectives := a, sh_nouns := n\<rparr>)) \<and>
     (\<forall>s l ls. sh_in s = l # ls \<longrightarrow> R s (s\<lparr>sh_in := ls\<rparr>))"

lemma frame_rel_in_suffix: "frame_rel in_suffix"
  by (auto simp: frame_rel_def in_suffix_def io_blind_def reflp_def transp_def)

lemma frame_rel_inv_keep: "frame_rel inv_keep"
  by (auto simp: frame_rel_def inv_keep_def shell_inv_def io_blind_def reflp_def transp_def)

lemma frame_relD:
  assumes "frame_rel R"
  shows "reflp R" "transp R" "io_blind R" "R s (s\<lparr>sh_rng := g\<rparr>)" "R s (s\<lparr>sh_favorites := f\<rparr>)"
    "R s (s\<lparr>sh_adjectives := a, sh_nouns := n\<rparr>)" "R s (s\<lparr>sh_theme := t, sh_adjectives := a, sh_nouns := n\<rparr>)"
    "sh_in s = l # ls \<Longrightarrow> R s (s\<lparr>sh_in := ls\<rparr>)"
    "R s (s\<lparr>sh_io := io\<rparr>)"
  using assms by (auto simp: frame_rel_def io_blind_def)

section \<open>Handlers that keep every frame relation\<close>

lemma frame_helpers [sh_intros]:
  assumes R: "frame_rel R"
  shows "sh_mono R (sh_load_words p)" "sh_mono R (sh_save_favorites f p)" "sh_mono R (sh_load_favorites p)"
    "sh_mono R (sh_load_exclusions p)" "sh_mono R (export_favorites_main f fmt p)"
  unfolding sh_load_words_def sh_save_favorites_def sh_load_favorites_def sh_load_exclusions_def
    export_favorites_main_def
  by (intro sh_intros; simp add: frame_relD [OF R])+

lemma frame_helpers2 [sh_intros]:
  assumes R: "frame_rel R"
  shows "sh_mono R (sh_load_themed_words th)" "sh_mono R (add_and_save env name)" "sh_mono R (save_output out)"
    "sh_mono R (reload_words env b)" "sh_mono R (switch_default env)" "sh_mono R (switch_theme th)"
  unfolding sh_load_themed_words_def add_and_save_def save_output_def reload_words_def load_default_words_def
    switch_default_def switch_theme_def
  by (intro sh_intros R; simp add: frame_relD [OF R])+

lemma frame_handlers [sh_intros]:
  assumes R: "frame_rel R"
  shows "sh_mono R (menu_generate_one env)" "sh_mono R menu_generate_many" "sh_mono R menu_view_favorites"
    "sh_mono R (remove_favorite env)" "sh_mono R (menu_manage_favorites env)" "sh_mono R (settings_theme env)"
  unfolding menu_generate_one_def menu_generate_many_def menu_view_favorites_def remove_favorite_def
    menu_manage_favorites_def settings_theme_def
  by (intro sh_intros R; simp add: frame_relD [OF R])+

section \<open>The settings handlers\<close>

lemma in_suffix_rel [simp]: "reflp in_suffix" "transp in_suffix" "io_blind in_suffix"
  and inv_keep_rel [simp]: "reflp inv_keep" "transp inv_keep" "io_blind inv_keep"
  using frame_relD [OF frame_rel_in_suffix] frame_relD [OF frame_rel_inv_keep] by blast+

lemma exclusions_ok_Nil [simp]: "exclusions_ok []"
  by (simp add: exclusions_ok_def)

lemma exclusions_ok_add_exclusions:
  "exclusions_ok ex \<Longrightarrow> \<forall>w \<in> set ws. py_lower w = w \<Longrightarrow> exclusions_ok (add_exclusions ex ws)"
  by (induction ex ws rule: add_exclusions.induct) (auto simp: exclusions_ok_def)

lemmas settings_defs = add_exclusion_words_def clear_exclusions_def settings_exclusions_def
  settings_pattern_def settings_case_def settings_separator_def set_cfg_def

lemma settings_in_suffix [sh_intros]:
  "sh_mono in_suffix (settings_exclusions env)" "sh_mono in_suffix settings_pattern" "sh_mono in_suffix settings_case"
  "sh_mono in_suffix read_lengths" "sh_mono in_suffix settings_separator"
  unfolding settings_defs read_lengths_def
  by (intro sh_intros frame_rel_in_suffix; simp add: in_suffix_def)+

lemma settings_inv_keep [sh_intros]:
  "sh_mono inv_keep (settings_exclusions env)" "sh_mono inv_keep settings_pattern" "sh_mono inv_keep settings_case"
  "sh_mono inv_keep settings_separator"
  unfolding settings_defs
  by (intro sh_intros frame_rel_inv_keep;
      auto simp: inv_keep_def shell_inv_def cfg_ok_def known_patterns_def known_cases_def
                 pattern_of_choice_def case_of_choice_def exclusions_ok_add_exclusions split: if_splits)+

lemma settings_lengths_in_suffix [sh_intros]: "sh_mono in_suffix settings_lengths"
  and menu_settings_in_suffix [sh_intros]: "sh_mono in_suffix (menu_settings env)"
  unfolding settings_lengths_def menu_settings_def settings_choice_def set_cfg_def
  by (intro sh_intros frame_rel_in_suffix; simp add: in_suffix_def)+

subsection \<open>Length limits\<close>

lemma py_isdigit_no_space: "py_isdigit x \<Longrightarrow> c \<in> set x \<Longrightarrow> \<not> py_isspace c"
  by (auto simp: py_isdigit_def list_all_iff is_ascii_digit_def py_isspace_def Let_def)

lemma py_strip_no_space:
  assumes "\<forall>c \<in> set x. \<not> py_isspace c" shows "py_strip x = x"
proof -
  have "dropWhile py_isspace x = x" using assms by (cases x) auto
  moreover have "dropWhile py_isspace (rev x) = rev x"
    using assms by (cases "rev x") (auto dest: arg_cong [where f = set])
  ultimately show ?thesis by (simp add: py_strip_def)
qed

lemma digit_or_zero_nonneg:
  assumes "digit_or_zero x = Inr n" shows "0 \<le> n"
proof (cases "py_isdigit x")
  case True
  then have strip: "py_strip x = x" by (intro py_strip_no_space) (blast dest: py_isdigit_no_space)
  from True obtain c r where x: "x = c # r" and c: "is_ascii_digit c \<or> c = CHR 0xB2 \<or> c = CHR 0xB3 \<or> c = CHR 0xB9"
    by (cases x) (auto simp: py_isdigit_def)
  from c have "c \<noteq> CHR ''-''" by (auto simp: is_ascii_digit_def)
  with assms True strip x show ?thesis
    by (auto simp: digit_or_zero_def py_int_def Let_def split: if_splits)
next
  case False
  with assms show ?thesis by (simp add: digit_or_zero_def)
qed

lemma read_lengths_inv:
  "read_lengths s = (Inr u, s') \<Longrightarrow> shell_inv s \<Longrightarrow> shell_inv s'"
  unfolding read_lengths_def sh_bind_def sh_seq_def sh_input_def set_cfg_def sh_modify_def sh_print_def
    sh_get_def sh_return_def
  by (auto simp: Let_def shell_inv_def cfg_ok_def dest!: digit_or_zero_nonneg
           split: list.splits sum.splits prod.splits if_splits)

definition pc_keep :: "shell \<Rightarrow> shell \<Rightarrow> bool" where
  "pc_keep s t \<longleftrightarrow> pattern (sh_cfg t) = pattern (sh_cfg s) \<and> case_style (sh_cfg t) = case_style (sh_cfg s) \<and>
     sh_exclusions t = sh_exclusions s"

lemma frame_rel_pc_keep: "frame_rel pc_keep"
  by (auto simp: frame_rel_def pc_keep_def io_blind_def reflp_def transp_def)

lemma read_lengths_pc_keep: "sh_mono pc_keep read_lengths"
  unfolding read_lengths_def set_cfg_def
  by (intro sh_intros; simp add: frame_relD [OF frame_rel_pc_keep] pc_keep_def)

section \<open>The invariant at every return\<close>

text \<open>A statement keeps \<open>shell_inv\<close> when it returns normally; the length settings
  do not on every exception (an end of input between the two limits leaves a minimum
  above the old maximum), only when they return.\<close>

definition inv_on_return :: "'a sh \<Rightarrow> bool" where
  "inv_on_return m \<longleftrightarrow> (\<forall>s r s'. m s = (Inr r, s') \<longrightarrow> shell_inv s \<longrightarrow> shell_inv s')"

lemma inv_on_returnD: "inv_on_return m \<Longrightarrow> m s = (Inr r, s') \<Longrightarrow> shell_inv s \<Longrightarrow> shell_inv s'"
  unfolding inv_on_return_def by blast

lemma inv_on_return_mono: "sh_mono inv_keep m \<Longrightarrow> inv_on_return m"
  unfolding inv_on_return_def by (auto dest: sh_monoD simp: inv_keep_def)

lemma inv_on_return_bind:
  "inv_on_return m \<Longrightarrow> (\<And>a. inv_on_return (f a)) \<Longrightarrow> inv_on_return (sh_bind m f)"
  unfolding inv_on_return_def sh_bind_def by (auto split: prod.splits sum.splits)

lemma prompt_input_keep:
  "sh_mono inv_keep (sh_seq (sh_modify (\<lambda>s. s\<lparr>sh_io := write_out menu (sh_io s)\<rparr>)) (sh_input prompt))"
  by (intro sh_intros; simp add: inv_keep_def shell_inv_def)

lemma settings_lengths_inv: "inv_on_return settings_lengths"
  unfolding inv_on_return_def
proof (intro allI impI)
  fix s :: shell and r s'
  assume run: "settings_lengths s = (Inr r, s')" and inv: "shell_inv s"
  obtain x s1 where rl: "read_lengths s = (x, s1)" by fastforce
  have pc: "pc_keep s s1" using read_lengths_pc_keep rl by (rule sh_monoD)
  show "shell_inv s'"
  proof (cases x)
    case (Inr u)
    with run rl have "s' = s1" by (simp add: settings_lengths_def sh_seq_def sh_bind_def sh_catch_def sh_return_def)
    with rl Inr inv show ?thesis by (blast intro: read_lengths_inv)
  next
    case (Inl e)
    with run rl pc inv show ?thesis
      by (auto simp: settings_lengths_def sh_seq_def sh_bind_def sh_catch_def sh_return_def sh_print_def
                     set_cfg_def sh_modify_def pc_keep_def shell_inv_def cfg_ok_def split: if_splits)
  qed
qed

lemma settings_choice_inv: "inv_on_return (settings_choice env ch)"
proof (cases "ch = ''5''")
  case True
  then show ?thesis by (simp add: settings_choice_def settings_lengths_inv)
next
  case False
  have "sh_mono inv_keep (settings_choice env ch)"
    unfolding settings_choice_def if_not_P [OF False] by (intro sh_intros frame_rel_inv_keep inv_keep_rel)
  then show ?thesis by (rule inv_on_return_mono)
qed

lemma menu_choice_inv: "inv_on_return (menu_choice env ch)"
proof (cases "ch = ''5''")
  case True
  then show ?thesis
    unfolding menu_choice_def menu_settings_def
    by (simp add: inv_on_return_bind inv_on_return_mono prompt_input_keep settings_choice_inv)
next
  case False
  have "sh_mono inv_keep (menu_choice env ch)"
    unfolding menu_choice_def if_not_P [OF False] by (intro sh_intros frame_rel_inv_keep inv_keep_rel)
  then show ?thesis by (rule inv_on_return_mono)
qed

lemma menu_iteration_inv: "inv_on_return (menu_iteration env)"
  unfolding menu_iteration_def
  by (intro inv_on_return_bind inv_on_return_mono prompt_input_keep menu_choice_inv)

lemma menu_choice_in_suffix: "sh_mono in_suffix (menu_choice env ch)"
  unfolding menu_choice_def by (intro sh_intros frame_rel_in_suffix in_suffix_rel)

lemma menu_iteration_consumes:
  assumes "menu_iteration env s = (Inr c, s')"
  shows "\<exists>l ls. sh_in s = l # ls \<and> suffix (sh_in s') ls"
proof (cases "sh_in s")
  case Nil
  with assms show ?thesis by (simp add: menu_iteration_def sh_bind_def sh_seq_def sh_modify_def sh_input_def)
next
  case (Cons l ls)
  from assms Cons obtain s1 where run: "menu_choice env l s1 = (Inr c, s')" and s1: "sh_in s1 = ls"
    by (auto simp: menu_iteration_def sh_bind_def sh_seq_def sh_modify_def sh_input_def Let_def)
  have "in_suffix s1 s'" using menu_choice_in_suffix run by (rule sh_monoD)
  with s1 Cons show ?thesis by (simp add: in_suffix_def)
qed

lemma menu_iteration_shorter:
  "menu_iteration env s = (Inr c, s') \<Longrightarrow> length (sh_in s') < length (sh_in s)"
  by (auto dest!: menu_iteration_consumes suffix_length_le)

end
