(* ===== verification/Session.thy ===== *)
theory Session
  imports Shell_Frame
begin

text \<open>
  A whole run of \<^verbatim>\<open>src/SpySpeak.py\<close>: the start of \<^verbatim>\<open>main()\<close> (themes directory,
  the two word lists, exclusions, favorites, a sample codename), the \<^verbatim>\<open>while True\<close>
  menu loop as a function that terminates because every pass reads a line of input,
  the states the loop reaches as an inductive relation, and the settings invariant on
  all of them.
\<close>

section \<open>The start of main\<close>

definition initial_shell :: "io \<Rightarrow> rng \<Rightarrow> string list \<Rightarrow> shell" where
  "initial_shell io g ins =
     \<lparr>sh_favorites = [], sh_exclusions = [], sh_theme = None, sh_cfg = main_default_config,
      sh_adjectives = [], sh_nouns = [], sh_io = io, sh_rng = g, sh_in = ins\<rparr>"

definition main_themes_dir :: "shell_env \<Rightarrow> unit sh" where
  "main_themes_dir env =
     (if themes_present env then sh_return ()
      else sh_seq (sh_print (''Created themes directory at '' @ path_join (current_dir env) ''themes''))
             (sh_print ''You can add themed word lists in this directory.''))"

text \<open>The existence checks and \<^verbatim>\<open>load_words\<close> of both lists; \<open>False\<close> is an early
  \<^verbatim>\<open>return\<close> of \<^verbatim>\<open>main\<close>.\<close>

definition main_load_lists :: "shell_env \<Rightarrow> bool sh" where
  "main_load_lists env =
     sh_bind sh_files (\<lambda>fs.
     if fs (adj_file env) = None then
       sh_seq (sh_print (''Error: '' @ quoted (adj_file env) @
                         '' not found. Please make sure the file exists in the current directory.''))
         (sh_return False)
     else if fs (noun_file env) = None then
       sh_seq (sh_print (''Error: '' @ quoted (noun_file env) @
                         '' not found. Please make sure the file exists in the current directory.''))
         (sh_return False)
     else
       sh_seq (sh_print ''Loading word lists...'')
       (sh_bind (sh_load_words (adj_file env)) (\<lambda>adjectives.
        sh_bind (sh_load_words (noun_file env)) (\<lambda>nouns.
        sh_seq (sh_modify (\<lambda>s. s\<lparr>sh_adjectives := adjectives, sh_nouns := nouns\<rparr>))
        (if adjectives = [] then sh_seq (sh_print (''Error: No adjectives loaded from '' @ adj_file env)) (sh_return False)
         else if nouns = [] then sh_seq (sh_print (''Error: No nouns loaded from '' @ noun_file env)) (sh_return False)
         else sh_return True)))))"

definition main_load_exclusions :: "shell_env \<Rightarrow> unit sh" where
  "main_load_exclusions env =
     sh_bind sh_files (\<lambda>fs.
     if fs (exclusions_file env) \<noteq> None then
       sh_bind (sh_load_exclusions (exclusions_file env)) (\<lambda>exclusions.
       sh_seq (sh_print (''Loaded '' @ py_str_nat (length exclusions) @ '' excluded words''))
       (sh_modify (\<lambda>s. s\<lparr>sh_exclusions := exclusions,
                          sh_adjectives := filter_excluded_words (sh_adjectives s) exclusions,
                          sh_nouns := filter_excluded_words (sh_nouns s) exclusions\<rparr>)))
     else sh_return ())"

definition main_load_favorites :: "shell_env \<Rightarrow> unit sh" where
  "main_load_favorites env =
     sh_bind sh_files (\<lambda>fs.
     if fs (favorites_file env) \<noteq> None then
       sh_bind (sh_load_favorites (favorites_file env)) (\<lambda>favorites.
       sh_seq (sh_modify (\<lambda>s. s\<lparr>sh_favorites := favorites\<rparr>))
       (sh_print (''Loaded '' @ py_str_nat (length favorites) @ '' favorites'')))
     else sh_return ())"

text \<open>\<^verbatim>\<open>generate_codename(adjectives, nouns)[0]\<close> with the default arguments.\<close>

definition main_sample :: "unit sh" where
  "main_sample =
     sh_bind sh_get (\<lambda>s.
     sh_seq (sh_print (''Loaded '' @ py_str_nat (length (sh_adjectives s)) @ '' adjectives and '' @
                       py_str_nat (length (sh_nouns s)) @ '' nouns''))
     (sh_bind (sh_generate (sh_adjectives s) (sh_nouns s) main_default_config []) (\<lambda>names.
      if names = [] then sh_raise IndexError
      else sh_print (''Sample codename: '' @ hd names))))"

definition main_start :: "shell_env \<Rightarrow> bool sh" where
  "main_start env =
     sh_seq (main_themes_dir env)
     (sh_bind (main_load_lists env) (\<lambda>ok.
      if ok then sh_seq (main_load_exclusions env) (sh_seq (main_load_favorites env) (sh_seq main_sample (sh_return True)))
      else sh_return False))"

definition welcome_msg :: string where
  "welcome_msg = ''Welcome to the Enhanced Random Codename Generator!''"

section \<open>The menu loop\<close>

text \<open>\<^verbatim>\<open>while True\<close>: an exception leaves the loop and \<^verbatim>\<open>main\<close>, option 7 breaks, every
  other pass continues. Each continuing pass reads at least one line
  (\<open>menu_iteration_shorter\<close>), so the loop terminates on every input.\<close>

function shell_loop :: "shell_env \<Rightarrow> unit sh" where
  "shell_loop env s =
     (case menu_iteration env s of
        (Inl e, s') \<Rightarrow> (Inl e, s')
      | (Inr Break, s') \<Rightarrow> (Inr (), s')
      | (Inr Continue, s') \<Rightarrow> shell_loop env s')"
  by pat_completeness auto
termination
  by (relation "measure (\<lambda>(env, s). length (sh_in s))") (auto dest: sym [THEN menu_iteration_shorter])

definition spyspeak_main :: "shell_env \<Rightarrow> unit sh" where
  "spyspeak_main env = sh_bind (main_start env) (\<lambda>ok. if ok then shell_loop env else sh_return ())"

text \<open>\<^verbatim>\<open>if __name__ == "__main__":\<close> on a console, files, random source and input lines.\<close>

definition spyspeak_run :: "shell_env \<Rightarrow> io \<Rightarrow> rng \<Rightarrow> string list \<Rightarrow> unit py \<times> shell" where
  "spyspeak_run env io g ins = sh_seq (sh_print welcome_msg) (spyspeak_main env) (initial_shell io g ins)"

text \<open>The states in which the loop prints its menu: after a start that reaches the loop,
  and after every pass that continues.\<close>

inductive shell_reach :: "shell_env \<Rightarrow> io \<Rightarrow> rng \<Rightarrow> string list \<Rightarrow> shell \<Rightarrow> bool"
  for env io g ins where
  start: "sh_seq (sh_print welcome_msg) (main_start env) (initial_shell io g ins) = (Inr True, s) \<Longrightarrow>
          shell_reach env io g ins s"
| step: "shell_reach env io g ins s \<Longrightarrow> menu_iteration env s = (Inr Continue, s') \<Longrightarrow>
          shell_reach env io g ins s'"

section \<open>The start keeps the invariant\<close>

lemma sh_mono_bind_post:
  assumes tr: "transp R" and m: "sh_mono R m" and post: "\<And>s a s'. m s = (Inr a, s') \<Longrightarrow> Q a"
    and f: "\<And>a. Q a \<Longrightarrow> sh_mono R (f a)"
  shows "sh_mono R (sh_bind m f)"
  unfolding sh_mono_def
proof
  fix s :: shell
  obtain r s1 where ms: "m s = (r, s1)" by fastforce
  with m have 1: "R s s1" by (rule sh_monoD)
  show "R s (snd (sh_bind m f s))"
  proof (cases r)
    case (Inl e)
    with ms 1 show ?thesis by (simp add: sh_bind_def)
  next
    case (Inr a)
    with ms post have "Q a" by blast
    then have "R s1 (snd (f a s1))" using f by (simp add: sh_mono_def)
    with ms Inr 1 tr show ?thesis by (simp add: sh_bind_def) (metis transpD)
  qed
qed

lemma sh_load_exclusions_ok: "sh_load_exclusions p s = (Inr ex, s') \<Longrightarrow> exclusions_ok ex"
  by (auto simp: sh_load_exclusions_def sh_bind_def sh_files_def sh_seq_def sh_print_def sh_return_def
                 exclusions_ok_def list_all_iff dest: load_exclusions_lower split: option.splits fentry.splits)

lemma main_frame_parts [sh_intros]:
  assumes R: "frame_rel R"
  shows "sh_mono R (main_themes_dir env)" "sh_mono R (main_load_lists env)" "sh_mono R (main_load_favorites env)"
    "sh_mono R main_sample"
  unfolding main_themes_dir_def main_load_lists_def main_load_favorites_def main_sample_def
  by (intro sh_intros R; simp add: frame_relD [OF R])+

lemma main_load_exclusions_keep [sh_intros]: "sh_mono inv_keep (main_load_exclusions env)"
  unfolding main_load_exclusions_def
  by (intro sh_intros sh_mono_bind_post [where Q = exclusions_ok] frame_rel_inv_keep inv_keep_rel
            sh_load_exclusions_ok; simp add: inv_keep_def shell_inv_def)+

lemma main_start_keep: "sh_mono inv_keep (sh_seq (sh_print welcome_msg) (main_start env))"
  unfolding main_start_def by (intro sh_intros frame_rel_inv_keep inv_keep_rel)

lemma initial_shell_inv: "shell_inv (initial_shell io g ins)"
  by (simp add: shell_inv_def initial_shell_def cfg_ok_def main_default_config_def known_patterns_def
                known_cases_def)

section \<open>Properties of a session\<close>

text \<open>
  C28: the spec's data model as an invariant of the interactive session (spec 3 and 7):
  in every state in which the menu is shown, the pattern and case style are among the
  enumerated ones, both length limits are non-negative and not crossed when both are
  set, and every exclusion is a non-empty lowercase word. Rule induction over
  \<open>shell_reach\<close>: the start establishes it, every pass that continues keeps it.
\<close>

theorem shell_reach_inv: "shell_reach env io g ins s \<Longrightarrow> shell_inv s"
proof (induction rule: shell_reach.induct)
  case (start s)
  have "inv_keep (initial_shell io g ins) s" using main_start_keep start by (rule sh_monoD)
  with initial_shell_inv show ?case by (simp add: inv_keep_def)
next
  case (step s s')
  then show ?case using menu_iteration_inv by (blast dest: inv_on_returnD)
qed

theorem shell_reach_inv_witness:
  "shell_reach \<lparr>current_dir = ''/app'', themes_present = True, themes_listing = []\<rparr>
      \<lparr>stdout = [], stderr = [], files = [''/app/adjectives.txt'' \<mapsto> Text ''Brave'', ''/app/nouns.txt'' \<mapsto> Text ''Tiger'']\<rparr>
      (sconst 0) []
      (snd (sh_seq (sh_print welcome_msg) (main_start \<lparr>current_dir = ''/app'', themes_present = True, themes_listing = []\<rparr>)
        (initial_shell \<lparr>stdout = [], stderr = [], files = [''/app/adjectives.txt'' \<mapsto> Text ''Brave'', ''/app/nouns.txt'' \<mapsto> Text ''Tiger'']\<rparr>
          (sconst 0) []))) \<and>
   shell_inv (snd (sh_seq (sh_print welcome_msg) (main_start \<lparr>current_dir = ''/app'', themes_present = True, themes_listing = []\<rparr>)
        (initial_shell \<lparr>stdout = [], stderr = [], files = [''/app/adjectives.txt'' \<mapsto> Text ''Brave'', ''/app/nouns.txt'' \<mapsto> Text ''Tiger'']\<rparr>
          (sconst 0) [])))"
proof -
  let ?env = "\<lparr>current_dir = ''/app'', themes_present = True, themes_listing = []\<rparr>"
  let ?io = "\<lparr>stdout = [], stderr = [], files = [''/app/adjectives.txt'' \<mapsto> Text ''Brave'', ''/app/nouns.txt'' \<mapsto> Text ''Tiger'']\<rparr>"
  let ?run = "sh_seq (sh_print welcome_msg) (main_start ?env) (initial_shell ?io (sconst 0) [])"
  have g: "generate_codename_main [''Brave''] [''Tiger''] main_default_config [] (sconst 0) = Inr ([''Brave Tiger''], sconst 0)"
    by (simp add: generate_codename_main_def main_default_config_def model_defs py_defs)
  have "fst ?run = Inr True"
    by (simp add: main_start_def main_themes_dir_def main_load_lists_def main_load_exclusions_def
        main_load_favorites_def main_sample_def sh_seq_def sh_bind_def sh_print_def sh_return_def sh_files_def
        sh_get_def sh_modify_def sh_generate_def sh_load_words_def initial_shell_def adj_file_def noun_file_def
        exclusions_file_def favorites_file_def path_join_def stripped_lines_def g py_defs)
  then have "?run = (Inr True, snd ?run)" by (metis prod.collapse)
  then have r: "shell_reach ?env ?io (sconst 0) [] (snd ?run)" by (rule shell_reach.start)
  with shell_reach_inv [OF r] show ?thesis by blast
qed

text \<open>
  C29: the loop has no exit for the end of the input. When the input is exhausted at
  the menu prompt, \<^verbatim>\<open>input()\<close> raises \<open>EOFError\<close>, which only
  \<^verbatim>\<open>KeyboardInterrupt\<close> handling surrounds, so the session ends with an uncaught
  exception after printing the menu and the prompt.
\<close>

theorem shell_loop_eof:
  "sh_in s = [] \<Longrightarrow>
   shell_loop env s = (Inl EOFError, s\<lparr>sh_io := write_out (main_menu @ ''Enter your choice (1-7): '') (sh_io s)\<rparr>)"
  by (simp add: menu_iteration_def sh_bind_def sh_seq_def sh_modify_def sh_input_def write_out_def)

theorem shell_loop_eof_witness:
  "shell_loop \<lparr>current_dir = ''/app'', themes_present = True, themes_listing = []\<rparr>
     (initial_shell \<lparr>stdout = [], stderr = [], files = Map.empty\<rparr> (sconst 0) [])
   = (Inl EOFError, (initial_shell \<lparr>stdout = [], stderr = [], files = Map.empty\<rparr> (sconst 0) [])
        \<lparr>sh_io := \<lparr>stdout = main_menu @ ''Enter your choice (1-7): '', stderr = [], files = Map.empty\<rparr>\<rparr>)"
  using shell_loop_eof [of "initial_shell \<lparr>stdout = [], stderr = [], files = Map.empty\<rparr> (sconst 0) []"
      "\<lparr>current_dir = ''/app'', themes_present = True, themes_listing = []\<rparr>"]
  by (simp add: initial_shell_def write_out_def)

end
