(* ===== verification/Menu_Props.thy ===== *)
theory Menu_Props
  imports Session
begin

text \<open>
  What the handlers of the interactive menu of \<^verbatim>\<open>src/SpySpeak.py\<close> do, branch by
  branch, compared with the favorites contract of spec 4.8 and 6 and the error policy of
  spec 7: removal by display index, adding without a duplicate check, the empty separator
  offered by the separator menu, the exclusions update with and without a writable file,
  and the length settings.
\<close>

section \<open>The favorites removal contract\<close>

text \<open>\<^verbatim>\<open>favoritesRemove(list, index)\<close> of spec 6: removal by 1-based display index, or
  \<open>InvalidIndex\<close> (\<open>None\<close>) out of range.\<close>

definition favorites_remove :: "string list \<Rightarrow> int \<Rightarrow> (string list \<times> string) option" where
  "favorites_remove fav i =
     (if 1 \<le> i \<and> i \<le> int (length fav) then Some (take (nat (i - 1)) fav @ drop (nat i) fav, fav ! nat (i - 1))
      else None)"

abbreviation demo_env :: shell_env where
  "demo_env \<equiv> \<lparr>current_dir = ''/app'', themes_present = True, themes_listing = []\<rparr>"

section \<open>Shared facts\<close>

lemma remove_nth_display_index:
  "1 \<le> i \<Longrightarrow> remove_nth (nat (i - 1)) xs = take (nat (i - 1)) xs @ drop (nat i) xs"
  by (simp add: remove_nth_def nat_diff_distrib' Suc_nat_eq_nat_zadd1)

lemma py_int_Inl: "py_int x = Inl e \<Longrightarrow> is_value_error e"
  by (auto simp: py_int_def Let_def is_value_error_def split: if_splits prod.splits)

lemma save_favorites_writable:
  "files (sh_io s) p \<noteq> Some Unreadable \<Longrightarrow>
   sh_save_favorites fav p s = (Inr True, s\<lparr>sh_io := write_out (''Successfully saved '' @ py_str_nat (length fav) @ '' favorites to '' @ p @ [LF]) ((sh_io s)\<lparr>files := (files (sh_io s))(p \<mapsto> Text (concat [n @ [LF]. n \<leftarrow> fav]))\<rparr>)\<rparr>)"
  by (simp add: sh_save_favorites_def sh_bind_def sh_files_def write_file_def sh_seq_def sh_set_files_def
                sh_modify_def sh_print_def sh_return_def)

lemma generate_main_empty_separator:
  assumes "A \<noteq> []" "N \<noteq> []" "separator cfg = []" "case_style cfg \<notin> {''upper'', ''lower'', ''sentence''}"
    "min_length cfg = 0" "max_length cfg = 0" "0 < count cfg"
  shows "generate_codename_main A N cfg [] g = Inl (ValueError ''empty separator'')"
proof -
  obtain raw g1 where r: "make_raw (pattern cfg) A N (separator cfg) g = Inr (raw, g1)"
    using make_raw_total [OF assms(1,2)] by blast
  obtain n where n: "nat (count cfg) = Suc n" using assms(7) by (metis gr0_implies_Suc zero_less_nat_eq)
  show ?thesis
    using assms r n
    by (simp add: generate_codename_main_def gen_one_def filter_min_length_def filter_max_length_def
                  apply_case_def title_case_empty_sep py_bind_def)
qed

lemma path_join_distinct:
  "take 1 b \<noteq> ''/'' \<Longrightarrow> take 1 c \<noteq> ''/'' \<Longrightarrow> b \<noteq> c \<Longrightarrow> path_join a b \<noteq> path_join a c"
  by (auto simp: path_join_def)

lemma shell_paths_distinct [simp]:
  "exclusions_file env \<noteq> adj_file env" "exclusions_file env \<noteq> noun_file env"
  "adj_file env \<noteq> exclusions_file env" "noun_file env \<noteq> exclusions_file env"
  by (simp_all add: exclusions_file_def adj_file_def noun_file_def path_join_distinct)

lemma demo_literals:
  "py_int ''2'' = Inr 2" "py_int ''3'' = Inr 3"
  "digit_or_zero ''8'' = Inr 8" "digit_or_zero ''3'' = Inr 3"
  "digit_or_zero [CHR 0xB2] = Inl (ValueError (''invalid literal for int() with base 10: '' @ [CHR 0x27, CHR 0xB2, CHR 0x27]))"
  by (simp_all add: digit_or_zero_def py_isdigit_def py_int_def digits_ok_def digits_val_def is_ascii_digit_def py_defs)

lemma demo_paths:
  "favorites_file demo_env = ''/app/favorites.txt''" "exclusions_file demo_env = ''/app/exclusions.txt''"
  "adj_file demo_env = ''/app/adjectives.txt''" "noun_file demo_env = ''/app/nouns.txt''"
  by (simp_all add: favorites_file_def exclusions_file_def adj_file_def noun_file_def path_join_def)

section \<open>A failure returned as a codename\<close>

text \<open>
  C9: \<^verbatim>\<open>generate_codename\<close> of \<^verbatim>\<open>SpySpeak.py\<close> returns a failed selection as the
  one-element list of its message (spec 7 asks for a distinguishable failure). Option 1
  takes that message for a codename: when every adjective is excluded, the user is shown
  it as "Your codename is", and answering y stores it in the favorites and the favorites
  file.
\<close>

theorem menu_failure_saved_as_favorite:
  assumes "sh_in s = ''1'' # ''y'' # rest" "sh_adjectives s \<noteq> []" "sh_nouns s \<noteq> []" "sh_exclusions s \<noteq> []"
    "filter_excluded_words (sh_adjectives s) (sh_exclusions s) = []"
    "files (sh_io s) (favorites_file env) \<noteq> Some Unreadable"
  shows "fst (menu_iteration env s) = Inr Continue \<and>
    sh_favorites (snd (menu_iteration env s)) =
      sh_favorites s @ [''Could not generate codename: all words were excluded''] \<and>
    files (sh_io (snd (menu_iteration env s))) (favorites_file env) =
      Some (Text (concat [n @ [LF]. n \<leftarrow> sh_favorites s @ [''Could not generate codename: all words were excluded'']]))"
proof -
  have g: "generate_codename_main (sh_adjectives s) (sh_nouns s) ((sh_cfg s)\<lparr>count := 1\<rparr>) (sh_exclusions s) (sh_rng s)
             = Inr ([''Could not generate codename: all words were excluded''], sh_rng s)"
    using assms(2-5) by (simp add: generate_codename_main_def)
  have y: "py_lower ''y'' = ''y''" by (simp add: py_defs)
  show ?thesis
    using assms(1,6) g y
    by (simp add: menu_iteration_def menu_choice_def menu_generate_one_def add_and_save_def sh_bind_def sh_seq_def
                  sh_modify_def sh_input_def sh_get_def sh_generate_def sh_return_def sh_print_def Let_def
                  save_favorites_writable)
qed

theorem menu_failure_saved_as_favorite_witness:
  "sh_favorites (snd (menu_iteration demo_env ((initial_shell \<lparr>stdout = [], stderr = [], files = Map.empty\<rparr> (sconst 0) [''1'', ''y''])\<lparr>sh_exclusions := [''ghost''],
      sh_adjectives := [''Ghost''], sh_nouns := [''Wolf'']\<rparr>)))
     = [''Could not generate codename: all words were excluded'']"
proof -
  let ?s = "(initial_shell \<lparr>stdout = [], stderr = [], files = Map.empty\<rparr> (sconst 0) [''1'', ''y''])\<lparr>sh_exclusions := [''ghost''], sh_adjectives := [''Ghost''], sh_nouns := [''Wolf'']\<rparr>"
  have h: "sh_in ?s = ''1'' # ''y'' # []" "sh_adjectives ?s \<noteq> []" "sh_nouns ?s \<noteq> []" "sh_exclusions ?s \<noteq> []"
    "filter_excluded_words (sh_adjectives ?s) (sh_exclusions ?s) = []"
    "files (sh_io ?s) (favorites_file demo_env) \<noteq> Some Unreadable"
    by (simp_all add: initial_shell_def filter_excluded_words_def py_defs)
  from menu_failure_saved_as_favorite [OF h] show ?thesis by (simp add: initial_shell_def)
qed

section \<open>Favorites menu\<close>

text \<open>
  C30: option 4, then 2, refines \<^verbatim>\<open>favoritesRemove\<close> (spec 4.8 and 6). On a line that
  is not an integer it only reports; on an integer it removes the entry at that 1-based
  display index and rewrites the favorites file with the remaining list when the index is
  in range, and changes nothing when it is out of range (\<open>InvalidIndex\<close>). The line is
  consumed and the statement returns normally in every case.
\<close>

theorem remove_favorite_refines:
  assumes "sh_in s = line # rest" "files (sh_io s) (favorites_file env) \<noteq> Some Unreadable"
  shows "fst (remove_favorite env s) = Inr () \<and> sh_in (snd (remove_favorite env s)) = rest \<and>
    (case py_int line of
       Inl _ \<Rightarrow> sh_favorites (snd (remove_favorite env s)) = sh_favorites s \<and>
                files (sh_io (snd (remove_favorite env s))) = files (sh_io s)
     | Inr i \<Rightarrow>
        (case favorites_remove (sh_favorites s) i of
           None \<Rightarrow> sh_favorites (snd (remove_favorite env s)) = sh_favorites s \<and>
                   files (sh_io (snd (remove_favorite env s))) = files (sh_io s)
         | Some (fav', removed) \<Rightarrow> sh_favorites (snd (remove_favorite env s)) = fav' \<and>
                   files (sh_io (snd (remove_favorite env s))) =
                     (files (sh_io s))(favorites_file env \<mapsto> Text (concat [n @ [LF]. n \<leftarrow> fav']))))"
proof (cases "py_int line")
  case (Inl e)
  with assms show ?thesis
    by (simp add: remove_favorite_def sh_bind_def sh_get_def sh_seq_def sh_print_def sh_print_enum_def sh_modify_def
                  sh_catch_def sh_input_def py_int_Inl)
next
  case (Inr i)
  with assms show ?thesis
    by (auto simp: remove_favorite_def sh_bind_def sh_get_def sh_seq_def sh_print_def sh_print_enum_def sh_modify_def
                  sh_catch_def sh_input_def favorites_remove_def save_favorites_writable remove_nth_display_index
                  Let_def)
qed

theorem remove_favorite_refines_witness:
  "sh_favorites (snd (remove_favorite demo_env ((initial_shell \<lparr>stdout = [], stderr = [], files = Map.empty\<rparr> (sconst 0) [''2''])\<lparr>sh_favorites := [''A'', ''B'', ''C'']\<rparr>)))
     = [''A'', ''C''] \<and>
   files (sh_io (snd (remove_favorite demo_env ((initial_shell \<lparr>stdout = [], stderr = [], files = Map.empty\<rparr> (sconst 0) [''2''])\<lparr>sh_favorites := [''A'', ''B'', ''C'']\<rparr>))))
     ''/app/favorites.txt'' = Some (Text (''A'' @ [LF] @ ''C'' @ [LF]))"
proof -
  let ?s = "(initial_shell \<lparr>stdout = [], stderr = [], files = Map.empty\<rparr> (sconst 0) [''2''])\<lparr>sh_favorites := [''A'', ''B'', ''C'']\<rparr>"
  have h: "sh_in ?s = ''2'' # []" "files (sh_io ?s) (favorites_file demo_env) \<noteq> Some Unreadable"
    by (simp_all add: initial_shell_def)
  from remove_favorite_refines [OF h] show ?thesis
    by (simp add: demo_literals demo_paths favorites_remove_def initial_shell_def)
qed

text \<open>
  C31: adding a favorite from the favorites menu (option 4, then 1) appends the name
  even when it is already a favorite, and saves the list with the name twice: spec 4.8
  makes \<^verbatim>\<open>add\<close> a no-op for an existing name and spec 8 asks that adding twice
  stores it once.
\<close>

theorem manage_add_duplicate:
  assumes "name \<in> set (sh_favorites s)" "sh_in s = ''1'' # name # rest"
    "files (sh_io s) (favorites_file env) \<noteq> Some Unreadable"
  shows "sh_favorites (snd (menu_manage_favorites env s)) = sh_favorites s @ [name] \<and>
         2 \<le> count_list (sh_favorites (snd (menu_manage_favorites env s))) name \<and>
         files (sh_io (snd (menu_manage_favorites env s))) (favorites_file env) =
           Some (Text (concat [n @ [LF]. n \<leftarrow> sh_favorites s @ [name]]))"
proof -
  from assms(1) have ne: "sh_favorites s \<noteq> []" by auto
  from assms(1) have c: "1 \<le> count_list (sh_favorites s) name"
    by (metis count_list_0_iff less_one not_le)
  from assms ne c show ?thesis
    by (simp add: menu_manage_favorites_def add_and_save_def sh_bind_def sh_get_def sh_seq_def sh_modify_def
                  sh_input_def save_favorites_writable sh_return_def)
qed

theorem manage_add_duplicate_witness:
  "sh_favorites (snd (menu_manage_favorites demo_env ((initial_shell \<lparr>stdout = [], stderr = [], files = Map.empty\<rparr> (sconst 0) [''1'', ''A''])\<lparr>sh_favorites := [''A'']\<rparr>)))
     = [''A'', ''A'']"
proof -
  let ?s = "(initial_shell \<lparr>stdout = [], stderr = [], files = Map.empty\<rparr> (sconst 0) [''1'', ''A''])\<lparr>sh_favorites := [''A'']\<rparr>"
  have h: "''A'' \<in> set (sh_favorites ?s)" "sh_in ?s = ''1'' # ''A'' # []"
    "files (sh_io ?s) (favorites_file demo_env) \<noteq> Some Unreadable"
    by (simp_all add: initial_shell_def)
  from manage_add_duplicate [OF h] show ?thesis by simp
qed

section \<open>The empty separator\<close>

text \<open>
  C32: the separator menu offers "No separator" (option 5, then 6, then 5), but title
  case splits on the separator and \<^verbatim>\<open>str.split('')\<close> raises. With the default title
  case, no length limits, no exclusions and both lists non-empty, the inputs 5, 6, 5 and
  then 1 end the program with an uncaught \<open>ValueError\<close>.
\<close>

theorem menu_empty_separator_crash:
  assumes "sh_in s = [''5'', ''6'', ''5'', ''1''] @ rest" "case_style (sh_cfg s) = ''title''"
    "min_length (sh_cfg s) = 0" "max_length (sh_cfg s) = 0" "sh_exclusions s = []"
    "sh_adjectives s \<noteq> []" "sh_nouns s \<noteq> []"
  shows "fst (shell_loop env s) = Inl (ValueError ''empty separator'')"
proof -
  let ?s1 = "s\<lparr>sh_cfg := (sh_cfg s)\<lparr>separator := []\<rparr>,
               sh_io := write_out (main_menu @ ''Enter your choice (1-7): '' @ settings_menu @ ''Enter your choice (1-7): ''
                 @ separator_menu @ ''Enter your choice (1-6): '' @ ''Separator set to: '' @ quoted [] @ [LF]) (sh_io s),
               sh_in := ''1'' # rest\<rparr>"
  have step1: "menu_iteration env s = (Inr Continue, ?s1)"
    using assms(1)
    by (simp add: menu_iteration_def menu_choice_def menu_settings_def settings_choice_def settings_separator_def
                  set_cfg_def sh_bind_def sh_seq_def sh_modify_def sh_input_def sh_get_def sh_print_def sh_return_def
                  write_out_def)
  have g: "generate_codename_main (sh_adjectives s) (sh_nouns s) ((sh_cfg s)\<lparr>separator := [], count := 1\<rparr>) [] (sh_rng s)
             = Inl (ValueError ''empty separator'')"
    using assms by (intro generate_main_empty_separator) simp_all
  have "fst (menu_iteration env ?s1) = Inl (ValueError ''empty separator'')"
    using assms g
    by (simp add: menu_iteration_def menu_choice_def menu_generate_one_def sh_bind_def sh_seq_def sh_modify_def
                  sh_input_def sh_get_def sh_generate_def)
  then obtain s2 where step2: "menu_iteration env ?s1 = (Inl (ValueError ''empty separator''), s2)"
    by (metis prod.collapse)
  have "shell_loop env s = shell_loop env ?s1" by (subst shell_loop.simps) (simp add: step1)
  also have "\<dots> = (Inl (ValueError ''empty separator''), s2)" by (subst shell_loop.simps) (simp only: step2 prod.case sum.case)
  finally show ?thesis by simp
qed

theorem menu_empty_separator_crash_witness:
  "fst (shell_loop demo_env ((initial_shell \<lparr>stdout = [], stderr = [], files = Map.empty\<rparr> (sconst 0) [''5'', ''6'', ''5'', ''1''])\<lparr>sh_adjectives := [''Brave''], sh_nouns := [''Tiger'']\<rparr>))
     = Inl (ValueError ''empty separator'')"
  using menu_empty_separator_crash [of "((initial_shell \<lparr>stdout = [], stderr = [], files = Map.empty\<rparr> (sconst 0) [''5'', ''6'', ''5'', ''1''])\<lparr>sh_adjectives := [''Brave''], sh_nouns := [''Tiger'']\<rparr>)" "[]"]
  by (simp add: initial_shell_def main_default_config_def)

text \<open>
  C33: option 2 with an empty separator and title case: the \<open>ValueError\<close> of the
  title case is caught by the handler meant for a non-numeric count, so the user who typed
  a valid count is told "Please enter a valid number" and the menu comes back.
\<close>

theorem menu_many_empty_separator:
  assumes "sh_in s = ''2'' # cnt # fmt # rest" "py_int cnt = Inr k" "1 \<le> k"
    "separator (sh_cfg s) = []" "case_style (sh_cfg s) = ''title''"
    "min_length (sh_cfg s) = 0" "max_length (sh_cfg s) = 0" "sh_exclusions s = []"
    "sh_adjectives s \<noteq> []" "sh_nouns s \<noteq> []"
  shows "menu_iteration env s =
    (Inr Continue, s\<lparr>sh_io := write_out (main_menu @ ''Enter your choice (1-7): '' @
        ''How many codenames do you want to generate? '' @ ''Output format (text/json/csv/html) [text]: '' @
        ''Please enter a valid number'' @ [LF]) (sh_io s), sh_in := rest\<rparr>)"
proof -
  have g: "generate_codename_main (sh_adjectives s) (sh_nouns s) ((sh_cfg s)\<lparr>count := k\<rparr>) [] (sh_rng s)
             = Inl (ValueError ''empty separator'')"
    using assms by (intro generate_main_empty_separator) simp_all
  show ?thesis
    using assms g
    by (simp add: menu_iteration_def menu_choice_def menu_generate_many_def sh_bind_def sh_seq_def sh_modify_def
                  sh_input_def sh_get_def sh_generate_def sh_catch_def sh_print_def sh_return_def is_value_error_def
                  write_out_def)
qed

theorem menu_many_empty_separator_witness:
  "fst (menu_iteration demo_env ((initial_shell \<lparr>stdout = [], stderr = [], files = Map.empty\<rparr> (sconst 0) [''2'', ''3'', ''text''])\<lparr>sh_cfg := main_default_config\<lparr>separator := []\<rparr>,
      sh_adjectives := [''Brave''], sh_nouns := [''Tiger'']\<rparr>)) = Inr Continue \<and>
   stdout (sh_io (snd (menu_iteration demo_env ((initial_shell \<lparr>stdout = [], stderr = [], files = Map.empty\<rparr> (sconst 0) [''2'', ''3'', ''text''])\<lparr>sh_cfg := main_default_config\<lparr>separator := []\<rparr>,
      sh_adjectives := [''Brave''], sh_nouns := [''Tiger'']\<rparr>)))) =
     main_menu @ ''Enter your choice (1-7): '' @ ''How many codenames do you want to generate? '' @
     ''Output format (text/json/csv/html) [text]: '' @ ''Please enter a valid number'' @ [LF]"
proof -
  let ?s = "((initial_shell \<lparr>stdout = [], stderr = [], files = Map.empty\<rparr> (sconst 0) [''2'', ''3'', ''text''])\<lparr>sh_cfg := main_default_config\<lparr>separator := []\<rparr>,
      sh_adjectives := [''Brave''], sh_nouns := [''Tiger'']\<rparr>)"
  have h: "sh_in ?s = ''2'' # ''3'' # ''text'' # []" "py_int ''3'' = Inr 3" "1 \<le> (3::int)"
    "separator (sh_cfg ?s) = []" "case_style (sh_cfg ?s) = ''title''" "min_length (sh_cfg ?s) = 0"
    "max_length (sh_cfg ?s) = 0" "sh_exclusions ?s = []" "sh_adjectives ?s \<noteq> []" "sh_nouns ?s \<noteq> []"
    by (simp_all add: initial_shell_def main_default_config_def demo_literals)
  from menu_many_empty_separator [OF h] show ?thesis by (simp add: initial_shell_def write_out_def)
qed

section \<open>Exclusions menu\<close>

text \<open>
  C34: when the exclusions file cannot be written, option 5, 2, 2 reports "Error saving
  exclusions" but keeps the new words in the session's exclusions (used by every later
  generation), while the file and the word lists stay as they were: spec 7 says an
  operation whose persistence fails is considered not applied.
\<close>

theorem add_exclusions_unsaved:
  assumes "sh_in s = line # rest" "files (sh_io s) (exclusions_file env) = Some Unreadable"
  shows "add_exclusion_words env s =
    (Inr (), s\<lparr>sh_exclusions := add_exclusions (sh_exclusions s) (map (\<lambda>w. py_lower (py_strip w)) (split_on '','' line)),
              sh_io := write_out (''Enter words to exclude (comma separated): '' @
                         ''Error saving exclusions: '' @ os_error_str (exclusions_file env) @ [LF]) (sh_io s),
              sh_in := rest\<rparr>)"
  using assms
  by (simp add: add_exclusion_words_def sh_bind_def sh_seq_def sh_modify_def sh_input_def sh_get_def sh_files_def
                write_file_def sh_catch_def sh_raise_def sh_print_def is_exception_def write_out_def Let_def)

theorem add_exclusions_unsaved_witness:
  "sh_exclusions (snd (add_exclusion_words demo_env
      (initial_shell \<lparr>stdout = [], stderr = [], files = [''/app/exclusions.txt'' \<mapsto> Unreadable]\<rparr> (sconst 0) [''Ghost, wolf''])))
     = [''ghost'', ''wolf''] \<and>
   files (sh_io (snd (add_exclusion_words demo_env
      (initial_shell \<lparr>stdout = [], stderr = [], files = [''/app/exclusions.txt'' \<mapsto> Unreadable]\<rparr> (sconst 0) [''Ghost, wolf'']))))
     = [''/app/exclusions.txt'' \<mapsto> Unreadable]"
proof -
  let ?s = "initial_shell \<lparr>stdout = [], stderr = [], files = [''/app/exclusions.txt'' \<mapsto> Unreadable]\<rparr> (sconst 0) [''Ghost, wolf'']"
  have h: "sh_in ?s = ''Ghost, wolf'' # []" "files (sh_io ?s) (exclusions_file demo_env) = Some Unreadable"
    by (simp_all add: initial_shell_def demo_paths)
  from add_exclusions_unsaved [OF h] show ?thesis by (simp add: initial_shell_def py_defs)
qed

text \<open>
  C35: with a writable exclusions file and the default lists, adding exclusion words
  (option 5, 2, 2) appends the new stripped lowercase words not yet excluded, writes the
  whole list to the file one per line, and reloads both default lists filtered by the new
  exclusions.
\<close>

theorem add_exclusions_saved:
  assumes "sh_in s = line # rest" "sh_theme s = None" "files (sh_io s) (adj_file env) = Some (Text a)"
    "files (sh_io s) (noun_file env) = Some (Text n)" "files (sh_io s) (exclusions_file env) \<noteq> Some Unreadable"
  shows "let ex = add_exclusions (sh_exclusions s) (map (\<lambda>w. py_lower (py_strip w)) (split_on '','' line));
             s' = snd (add_exclusion_words env s) in
         fst (add_exclusion_words env s) = Inr () \<and> sh_exclusions s' = ex \<and>
         sh_adjectives s' = filter_excluded_words (stripped_lines a) ex \<and>
         sh_nouns s' = filter_excluded_words (stripped_lines n) ex \<and>
         files (sh_io s') = (files (sh_io s))(exclusions_file env \<mapsto> Text (concat [w @ [LF]. w \<leftarrow> ex]))"
  using assms
  by (simp add: add_exclusion_words_def reload_words_def load_default_words_def sh_load_words_def
                sh_bind_def sh_seq_def sh_modify_def sh_input_def sh_get_def sh_files_def sh_set_files_def
                write_file_def sh_catch_def sh_print_def sh_return_def Let_def)

theorem add_exclusions_saved_witness:
  "sh_adjectives (snd (add_exclusion_words demo_env
      (initial_shell \<lparr>stdout = [], stderr = [], files = [''/app/adjectives.txt'' \<mapsto> Text (''Ghost'' @ [LF] @ ''Brave''),
         ''/app/nouns.txt'' \<mapsto> Text ''Tiger'']\<rparr> (sconst 0) [''ghost''])))
     = [''Brave'']"
proof -
  let ?s = "initial_shell \<lparr>stdout = [], stderr = [], files = [''/app/adjectives.txt'' \<mapsto> Text (''Ghost'' @ [LF] @ ''Brave''),
         ''/app/nouns.txt'' \<mapsto> Text ''Tiger'']\<rparr> (sconst 0) [''ghost'']"
  have h: "sh_in ?s = ''ghost'' # []" "sh_theme ?s = None"
    "files (sh_io ?s) (adj_file demo_env) = Some (Text (''Ghost'' @ [LF] @ ''Brave''))"
    "files (sh_io ?s) (noun_file demo_env) = Some (Text ''Tiger'')"
    "files (sh_io ?s) (exclusions_file demo_env) \<noteq> Some Unreadable"
    by (simp_all add: initial_shell_def demo_paths)
  from add_exclusions_saved [OF h] show ?thesis
    by (simp add: Let_def initial_shell_def filter_excluded_words_def stripped_lines_def py_defs)
qed

section \<open>Length limits\<close>

text \<open>
  C36: option 5, then 5, sets the limits from two lines: a line of digits gives its value,
  any other line 0; a minimum above a set maximum resets both to 0 (spec 7,
  \<open>InvalidConfiguration\<close>), and so does a line that \<^verbatim>\<open>str.isdigit\<close> accepts but
  \<^verbatim>\<open>int\<close> rejects (a superscript digit), through the \<open>ValueError\<close> handler.
\<close>

theorem settings_lengths_result:
  assumes "sh_in s = mn # mx # rest"
  shows "fst (settings_lengths s) = Inr Continue \<and>
    (min_length (sh_cfg (snd (settings_lengths s))), max_length (sh_cfg (snd (settings_lengths s)))) =
      (case (digit_or_zero mn, digit_or_zero mx) of
         (Inr i, Inr j) \<Rightarrow> if 0 < i \<and> 0 < j \<and> j < i then (0, 0) else (i, j)
       | _ \<Rightarrow> (0, 0))"
  using assms
  by (auto simp: settings_lengths_def read_lengths_def set_cfg_def sh_bind_def sh_seq_def sh_modify_def
                 sh_input_def sh_get_def sh_catch_def sh_print_def sh_return_def digit_or_zero_def
                 is_value_error_def dest: py_int_Inl split: sum.splits)

theorem settings_lengths_result_witness:
  "(min_length (sh_cfg (snd (settings_lengths ((initial_shell \<lparr>stdout = [], stderr = [], files = Map.empty\<rparr> (sconst 0) [''8'', ''3'']))))),
    max_length (sh_cfg (snd (settings_lengths ((initial_shell \<lparr>stdout = [], stderr = [], files = Map.empty\<rparr> (sconst 0) [''8'', ''3''])))))) = (0, 0) \<and>
   (min_length (sh_cfg (snd (settings_lengths ((initial_shell \<lparr>stdout = [], stderr = [], files = Map.empty\<rparr> (sconst 0) [[CHR 0xB2], ''3'']))))),
    max_length (sh_cfg (snd (settings_lengths ((initial_shell \<lparr>stdout = [], stderr = [], files = Map.empty\<rparr> (sconst 0) [[CHR 0xB2], ''3''])))))) = (0, 0)"
proof -
  have h1: "sh_in ((initial_shell \<lparr>stdout = [], stderr = [], files = Map.empty\<rparr> (sconst 0) [''8'', ''3''])) = ''8'' # ''3'' # []" by (simp add: initial_shell_def)
  have h2: "sh_in ((initial_shell \<lparr>stdout = [], stderr = [], files = Map.empty\<rparr> (sconst 0) [[CHR 0xB2], ''3''])) = [CHR 0xB2] # ''3'' # []" by (simp add: initial_shell_def)
  from settings_lengths_result [OF h1] settings_lengths_result [OF h2] show ?thesis
    by (simp add: demo_literals)
qed

end
