(* ===== verification/Web.thy ===== *)
theory Web
  imports Cli
begin

text \<open>
  The generation routes of \<^verbatim>\<open>src/SpySpeak-web.py\<close>: \<^verbatim>\<open>api_generate\<close>
  (\<^verbatim>\<open>GET /api/codenames\<close>, a JSON reply and its status) and \<^verbatim>\<open>generate\<close>
  (\<^verbatim>\<open>POST /generate\<close>, the variables the page template is rendered with). A request's
  query or form fields are a map from names to strings; \<^verbatim>\<open>jsonify\<close>, the template and
  Flask's routing are libraries, so a reply is the data handed to them.
\<close>

section \<open>Request fields\<close>

type_synonym params = "string \<rightharpoonup> string"

text \<open>\<^verbatim>\<open>request.args.get(name, default)\<close>, and \<^verbatim>\<open>int(...)\<close> of it (the defaults of
  the integer fields are integers already).\<close>

definition param_str :: "params \<Rightarrow> string \<Rightarrow> string \<Rightarrow> string" where
  "param_str ps k d = (case ps k of None \<Rightarrow> d | Some v \<Rightarrow> v)"

definition param_int :: "params \<Rightarrow> string \<Rightarrow> int \<Rightarrow> int py" where
  "param_int ps k d = (case ps k of None \<Rightarrow> Inr d | Some v \<Rightarrow> py_int v)"

record web_request =
  req_count :: int
  req_theme :: string
  req_pattern :: string
  req_case :: string
  req_separator :: string
  req_min_length :: int
  req_max_length :: int

text \<open>The seven reads at the top of both routes, in the code's order; the first
  \<^verbatim>\<open>int()\<close> that fails raises.\<close>

definition parse_request :: "params \<Rightarrow> web_request py" where
  "parse_request ps =
     py_bind (param_int ps ''count'' 1) (\<lambda>count.
     let theme = param_str ps ''theme'' ''default'';
         pattern = param_str ps ''pattern'' ''adj-noun'';
         case_style = param_str ps ''case'' ''title'';
         separator = param_str ps ''separator'' '' '' in
     py_bind (param_int ps ''min_length'' 0) (\<lambda>min_length.
     py_bind (param_int ps ''max_length'' 0) (\<lambda>max_length.
     Inr \<lparr>req_count = count, req_theme = theme, req_pattern = pattern, req_case = case_style,
          req_separator = separator, req_min_length = min_length, req_max_length = max_length\<rparr>)))"

definition web_config :: "web_request \<Rightarrow> gen_config" where
  "web_config r =
     \<lparr>count = req_count r, pattern = req_pattern r, case_style = req_case r,
      min_length = req_min_length r, max_length = req_max_length r, separator = req_separator r\<rparr>"

section \<open>Word lists and generation\<close>

text \<open>A theme other than \<^verbatim>\<open>default\<close> reads \<^verbatim>\<open>themes/<theme>_adj.txt\<close> and
  \<^verbatim>\<open>themes/<theme>_nouns.txt\<close>; the default lists are next to the script.\<close>

definition web_words :: "path \<Rightarrow> fs \<Rightarrow> string \<Rightarrow> string list \<times> string list" where
  "web_words current_dir fs theme =
     (if theme \<noteq> ''default'' then load_themed_words fs theme
      else (load_words fs (path_join current_dir ''adjectives.txt''), load_words fs (path_join current_dir ''nouns.txt'')))"

definition web_exclusions :: "path \<Rightarrow> fs \<Rightarrow> string list" where
  "web_exclusions current_dir fs =
     (let exclusions_file = path_join current_dir ''exclusions.txt'' in
      if fs exclusions_file \<noteq> None then load_exclusions fs exclusions_file else [])"

definition web_codenames :: "path \<Rightarrow> fs \<Rightarrow> web_request \<Rightarrow> rng \<Rightarrow> (web_result \<times> rng) py" where
  "web_codenames current_dir fs r g =
     (let (adjectives, nouns) = web_words current_dir fs (req_theme r) in
      generate_codename_web adjectives nouns (web_config r) (web_exclusions current_dir fs) g)"

text \<open>The body of the \<^verbatim>\<open>try\<close> block of both routes up to the error check: the request
  and the generator's result, or the exception raised.\<close>

definition web_handle :: "params \<Rightarrow> path \<Rightarrow> fs \<Rightarrow> rng \<Rightarrow> (web_request \<times> web_result \<times> rng) py" where
  "web_handle ps current_dir fs g =
     py_bind (parse_request ps) (\<lambda>r.
     py_bind (web_codenames current_dir fs r g) (\<lambda>(res, g'). Inr (r, res, g')))"

section \<open>The routes\<close>

datatype api_reply =
    ApiSuccess "string list" int string string string string int int
  | ApiFailure string

text \<open>\<^verbatim>\<open>api_generate\<close>: the status and the JSON object. An error dictionary and any
  exception give 400 with \<^verbatim>\<open>success: false\<close>.\<close>

definition api_generate :: "params \<Rightarrow> path \<Rightarrow> fs \<Rightarrow> rng \<Rightarrow> (nat \<times> api_reply) \<times> rng" where
  "api_generate ps current_dir fs g =
     (case web_handle ps current_dir fs g of
        Inl e \<Rightarrow> ((400, ApiFailure (py_exc_str e)), g)
      | Inr (r, ErrorDict m, g') \<Rightarrow> ((400, ApiFailure m), g')
      | Inr (r, Codenames cs, g') \<Rightarrow>
          ((200, ApiSuccess cs (req_count r) (req_theme r) (req_pattern r) (req_case r) (req_separator r)
                   (req_min_length r) (req_max_length r)), g'))"

datatype page =
    ErrorPage string "string list"
  | ResultPage "string list" web_request "string list"

text \<open>\<^verbatim>\<open>generate\<close>: the variables of \<^verbatim>\<open>index.html\<close>, with the themes listing of
  \<^verbatim>\<open>get_available_themes()\<close>.\<close>

definition generate_form :: "params \<Rightarrow> path \<Rightarrow> fs \<Rightarrow> string list \<Rightarrow> rng \<Rightarrow> page \<times> rng" where
  "generate_form ps current_dir fs themes g =
     (case web_handle ps current_dir fs g of
        Inl e \<Rightarrow> (ErrorPage (''Error generating codenames: '' @ py_exc_str e) themes, g)
      | Inr (r, ErrorDict m, g') \<Rightarrow> (ErrorPage m themes, g')
      | Inr (r, Codenames cs, g') \<Rightarrow> (ResultPage cs r themes, g'))"

section \<open>Properties of the API\<close>

text \<open>
  C37: the API does not check the count (spec 7 lists \<open>count < 1\<close> as
  \<open>InvalidConfiguration\<close>). For a request whose fields parse with a count of 0 or less,
  \<^verbatim>\<open>GET /api/codenames\<close> answers 400 with the spec's failure message when the word
  selection fails, and otherwise 200 with \<^verbatim>\<open>success: true\<close> and an empty list of
  codenames, drawing nothing.
\<close>

theorem api_generate_nonpositive_count:
  assumes "parse_request ps = Inr r" "req_count r \<le> 0"
  shows "api_generate ps d fs g =
    (case select_words (fst (web_words d fs (req_theme r))) (snd (web_words d fs (req_theme r)))
            (web_exclusions d fs) (req_min_length r) (req_max_length r) of
       Inl f \<Rightarrow> ((400, ApiFailure (failure_message f)), g)
     | Inr _ \<Rightarrow> ((200, ApiSuccess [] (req_count r) (req_theme r) (req_pattern r) (req_case r) (req_separator r)
                  (req_min_length r) (req_max_length r)), g))"
proof -
  obtain A N where w: "web_words d fs (req_theme r) = (A, N)" by fastforce
  have n: "nat (req_count r) = 0" using assms(2) by simp
  show ?thesis
    using assms(1) w n
    by (auto simp: api_generate_def web_handle_def web_codenames_def generate_codename_web_def web_config_def
                   generate_steps py_bind_def split: sum.split if_splits)
qed

theorem api_generate_nonpositive_count_witness:
  "api_generate [''count'' \<mapsto> ''0''] ''/app''
      [''/app/adjectives.txt'' \<mapsto> Text ''Brave'', ''/app/nouns.txt'' \<mapsto> Text ''Tiger''] (sconst 0)
   = ((200, ApiSuccess [] 0 ''default'' ''adj-noun'' ''title'' '' '' 0 0), sconst 0)"
proof -
  let ?r = "\<lparr>req_count = 0, req_theme = ''default'', req_pattern = ''adj-noun'', req_case = ''title'',
             req_separator = '' '', req_min_length = 0, req_max_length = 0\<rparr>"
  have h: "parse_request [''count'' \<mapsto> ''0''] = Inr ?r" "req_count ?r \<le> 0"
    by (simp_all add: parse_request_def param_int_def param_str_def py_int_def digits_ok_def digits_val_def
                      is_ascii_digit_def py_bind_def py_defs)
  from api_generate_nonpositive_count [OF h] show ?thesis
    by (simp add: web_words_def web_exclusions_def path_join_def load_words_def stripped_lines_def
                  select_words_def length_ok_def py_defs)
qed

end
