(* ===== verification/Spec2Isabelle.thy ===== *)
theory Spec2Isabelle
  imports Generator Output Cli Menu_Props Web
begin

text \<open>
  \<^bold>\<open>SpySpeak: a verification development of the codename generator.\<close>

  \<^bold>\<open>The program.\<close> SpySpeak builds codenames from word lists. Three Python files share one
  core and each wraps it in a shell: \<^verbatim>\<open>src/SpySpeak.py\<close> (an interactive menu),
  \<^verbatim>\<open>src/SpySpeak-cli.py\<close> (a command line) and \<^verbatim>\<open>src/SpySpeak-web.py\<close> (a Flask
  server). Each file has its own copy of the core: \<^verbatim>\<open>load_words\<close>,
  \<^verbatim>\<open>load_exclusions\<close>, \<^verbatim>\<open>filter_excluded_words\<close>, \<^verbatim>\<open>generate_codename\<close> (which
  filters the word lists by exclusion and length, then loops over a pattern engine and a
  case formatter, drawing words with \<^verbatim>\<open>random.choice\<close>), and, in the first two,
  \<^verbatim>\<open>format_output\<close> and the favorites file functions. The copies agree except where the
  theories below say otherwise.

  \<^bold>\<open>The theories.\<close>
  \<^item> \<open>Prelude\<close>: Python exceptions as values (\<open>py_exc\<close>, \<open>'a py = py_exc + 'a\<close>, the bind
    \<open>py_bind\<close>), the file system (\<open>fs\<close>: a map from paths to readable text or an
    unreadable entry), the random source (\<open>rng\<close>: an infinite stream of draws) and
    shared list lemmas.
  \<^item> \<open>Py_Str\<close>: the Python \<^verbatim>\<open>str\<close> builtins the code calls (strip, lower, upper,
    capitalize, split with and without a separator, join, str and int of a number, the
    lines of a text file with universal newlines), with their laws: case-mapping idempotence, join
    after split is the identity, strip is idempotent. These are library semantics, not
    repository code, so they are not in the manifest's map.
  \<^item> \<open>Loading\<close>: \<^verbatim>\<open>load_words\<close> (CLI and web: \<open>load_words\<close>; \<^verbatim>\<open>SpySpeak.py\<close>, which
    lets non-missing-file errors propagate: \<open>load_words_main\<close>), \<^verbatim>\<open>load_exclusions\<close>,
    \<^verbatim>\<open>load_favorites\<close>, \<^verbatim>\<open>save_favorites\<close> (state passing: the file system in, the
    success flag and the new file system out), \<^verbatim>\<open>load_themed_words\<close> with
    \<^verbatim>\<open>os.path.join\<close>. Proved: loaded word lists satisfy the word-list invariant of spec 3
    (C16), saving then loading favorites is the identity on well-formed names (C17).
  \<^item> \<open>Filters\<close>: \<^verbatim>\<open>filter_excluded_words\<close> and the two inline length filters of
    \<^verbatim>\<open>generate_codename\<close>, each proved equal to a plain \<open>filter\<close> by a reference predicate
    (C14, C15).
  \<^item> \<open>Generator\<close>: \<^verbatim>\<open>random.choice\<close>/\<^verbatim>\<open>random.randint\<close> (one draw each, raising on an
    empty list or range), the pattern engine \<open>make_raw\<close>, the case formatter
    \<open>apply_case\<close> (\<open>apply_case_web\<close> for the web copy, whose title case splits on
    whitespace runs), one loop iteration \<open>gen_one\<close>, the loop \<open>gen_loop\<close> (structural
    recursion on \<^verbatim>\<open>count\<close>), and the three \<^verbatim>\<open>generate_codename\<close> versions
    (\<open>generate_codename_cli\<close>, \<open>generate_codename_web\<close>, \<open>generate_codename_main\<close>).
    The specification is \<open>select_words\<close> (spec 4.6 steps 1 to 4) and \<open>raw_candidates\<close>
    (the raw strings each pattern of spec 4.4 may build). Proved: each version refines the
    selection (C1, C7, C8); CLI generation is sound (C2), returns whenever the
    selection succeeds and the separator is usable (C3), fails only in the documented ways
    and never draws from an empty list (C4), reaches every candidate (C5); the empty
    separator with title case raises (C6); single-word lists are deterministic (C10);
    the exclusion and length failures of spec 8 (C11, C12); the number suffix of
    adj-noun-number lies in 1 to 999 (C13).

  \<^item> \<open>Output\<close>: \<^verbatim>\<open>format_output\<close> (identical in \<^verbatim>\<open>SpySpeak.py\<close> and the CLI) with the
    library encoders it calls written out: \<^verbatim>\<open>json.dumps(..., indent=2)\<close> with its
    \<^verbatim>\<open>ensure_ascii\<close> escapes (\<open>json_escape_char\<close>, \<open>json_dump_codenames\<close>), the
    \<^verbatim>\<open>csv.writer\<close> excel dialect (\<open>csv_field\<close>, \<open>csv_row\<close>), the HTML page and the text
    join. Its other half is a JSON reader (\<open>json_load_codenames\<close>, recursive descent with
    \<open>function\<close>s terminating on the length of the rest) and an RFC 4180 CSV reader
    (\<open>csv_parse\<close>). Proved: the JSON, CSV and text round trips of spec 8 (C18 to C20), the
    HTML format is not injective (C21), the JSON output is printable ASCII (C22).
  \<^item> \<open>Cli\<close>: \<^verbatim>\<open>main\<close> of \<^verbatim>\<open>SpySpeak-cli.py\<close> as \<open>cli_main\<close>, a function from the parsed
    arguments (\<open>cli_args\<close>), the environment (\<open>cli_env\<close>: script directory, existence of
    \<^verbatim>\<open>themes/\<close>, the result of \<^verbatim>\<open>get_available_themes\<close>), the random draws and the
    starting \<open>io\<close> (stdout, stderr, files) to the final \<open>io\<close> and the exit status;
    its parts follow the code's sections (\<open>cli_words\<close>, \<open>cli_exclusions\<close>,
    \<open>cli_generate\<close>, \<open>cli_run_generate\<close> for the \<^verbatim>\<open>try\<close> block, \<open>cli_write_output\<close>),
    and the favorites commands \<open>list_favorites\<close>, \<open>add_favorite\<close>,
    \<open>export_favorites\<close> with the file helpers' stderr messages. Proved: the plain
    invocation prints exactly the formatted codenames (C23), no file other than the
    output, favorites and export targets is written (C24), adding a name twice stores it
    once (C25) but not for a name with surrounding whitespace (C26).
  \<^item> \<open>Shell\<close>: the interactive menu of \<^verbatim>\<open>SpySpeak.py\<close>. The local variables of
    \<^verbatim>\<open>main\<close> (favorites, exclusions, current theme, the generation settings, the two word
    lists) with the console and files, the random draws and the unread input lines form the
    record \<open>shell\<close>; a statement is \<open>'a sh = shell \<Rightarrow> 'a py \<times> shell\<close>, an
    exception-and-state monad (\<open>sh_bind\<close>, \<open>sh_catch\<close> for \<^verbatim>\<open>try/except\<close>,
    \<open>sh_input\<close> for \<^verbatim>\<open>input()\<close>, raising \<open>EOFError\<close> when the lines run out). Every
    branch of the menu is one definition in the code's order: the file helpers of
    \<^verbatim>\<open>SpySpeak.py\<close> (\<open>sh_load_words\<close>, \<open>sh_save_favorites\<close>, \<open>sh_load_favorites\<close>,
    \<open>sh_load_exclusions\<close>, \<open>sh_load_themed_words\<close>, \<open>export_favorites_main\<close>),
    \<open>display_help\<close>, options 1 to 4 (\<open>menu_generate_one\<close>, \<open>menu_generate_many\<close>,
    \<open>menu_view_favorites\<close>, \<open>menu_manage_favorites\<close> with \<open>remove_favorite\<close>), the
    settings (\<open>settings_theme\<close>, \<open>settings_exclusions\<close> with \<open>add_exclusion_words\<close> and
    \<open>clear_exclusions\<close>, \<open>settings_pattern\<close>, \<open>settings_case\<close>, \<open>settings_lengths\<close>
    around its \<^verbatim>\<open>try\<close> block \<open>read_lengths\<close>, \<open>settings_separator\<close>, dispatched by
    \<open>settings_choice\<close>), and one pass of the loop, \<open>menu_iteration\<close>.
  \<^item> \<open>Shell_Frame\<close>: \<open>sh_mono R m\<close> (every run of \<open>m\<close> relates start and end state
    by the preorder \<open>R\<close>) with introduction rules through the monad, so that a handler's
    lemma is the rules plus its updates. Proved with it: no statement gives back input
    (\<open>in_suffix\<close>), and the spec's data model, \<open>shell_inv\<close> (enumerated pattern and case
    style, non-negative and uncrossed length limits, non-empty lowercase exclusions), is
    kept by every handler, by the length settings only when they return.
  \<^item> \<open>Session\<close>: the start of \<^verbatim>\<open>main\<close> along its sections (\<open>main_themes_dir\<close>,
    \<open>main_load_lists\<close> with its early returns, \<open>main_load_exclusions\<close>,
    \<open>main_load_favorites\<close>, \<open>main_sample\<close>), the \<^verbatim>\<open>while True\<close> loop \<open>shell_loop\<close>, a
    \<open>function\<close> whose termination measure is the number of unread input lines, the whole
    program \<open>spyspeak_run\<close>, and the states shown the menu as the inductive
    \<open>shell_reach\<close>. Proved: \<open>shell_inv\<close> holds in every reachable state (C28, rule
    induction), the loop ends with an uncaught
    \<open>EOFError\<close> at the end of the input (C29).
  \<^item> \<open>Menu_Props\<close>: the handlers against spec 4.8, 6 and 7. Proved: removal by display
    index refines \<^verbatim>\<open>favoritesRemove\<close> (C30); the failure message of
    \<^verbatim>\<open>generate_codename\<close> is offered as a codename and saved as a favorite (C9); the
    menu adds duplicates (C31); the offered empty separator crashes option 1 (C32) and is misreported by option 2 (C33); a failed
    exclusions save still applies the words (C34); a successful one writes and refilters
    (C35); the length settings (C36).
  \<^item> \<open>Web\<close>: the generation routes of \<^verbatim>\<open>SpySpeak-web.py\<close>. A request's fields
    are a map from names to strings; \<open>parse_request\<close> reads them in the code's order
    (\<^verbatim>\<open>int()\<close> may raise), \<open>web_words\<close>, \<open>web_exclusions\<close> and \<open>web_codenames\<close>
    load the lists and call \<open>generate_codename_web\<close>, and \<open>api_generate\<close> (status and
    JSON object) and \<open>generate_form\<close> (the template's variables) turn the result, the
    error dictionary or the exception into the reply. Proved: the API never validates the
    count, answering a count of 0 or less with success and no codenames (C37).
  \<^item> This theory: favorites exported as JSON read back as the stored favorites (C27,
    favorites store, exporter and encoder composed).

  \<^bold>\<open>Modelling choices.\<close> Strings are \<open>char list\<close>, so code points are 0 to 255; case
  mapping is Python's on ASCII letters, and the Latin-1 letters above 127, which Python
  would also map, are left unchanged. Python's unbounded integers (\<^verbatim>\<open>count\<close>, the
  length bounds) are \<open>int\<close>; \<^verbatim>\<open>range(count)\<close> of a negative count is empty, as
  \<open>nat\<close> gives. \<^verbatim>\<open>random.choice(seq)\<close> is \<^verbatim>\<open>seq[_randbelow(len(seq))]\<close>, modelled as
  the next draw modulo the length: every index is reachable and a theorem over all streams
  holds for any generator. No loop needs fuel: the generation loop is structural on the
  count, \<open>split_on\<close> and \<open>split_ws\<close> terminate by the length of the rest, and the menu
  loop by the number of input lines, since every pass that continues reads one
  (\<open>menu_iteration_shorter\<close>). The keyword
  arguments of \<^verbatim>\<open>generate_codename\<close> other than the lists and exclusions form the record
  \<open>gen_config\<close>; \<open>cli_default_config\<close> is the argument parser's defaults.

  \<^bold>\<open>Not modelled.\<close> \<^verbatim>\<open>KeyboardInterrupt\<close> (the menu loop's only handler; an
  interrupt is not an input of the model, so every session ends at option 7 or with an
  exception), the creation of \<^verbatim>\<open>themes/\<close> and of theme directories by
  \<^verbatim>\<open>os.makedirs\<close> (directories are not in the file model; only the messages are), theme discovery (\<^verbatim>\<open>get_available_themes\<close>: \<^verbatim>\<open>os.listdir\<close>
  order is unspecified), Flask routing and templates, the routes \<^verbatim>\<open>index\<close>, \<^verbatim>\<open>api_themes\<close> and
  \<^verbatim>\<open>favicon\<close> (a template, the themes listing, a static file), the random state a
  route leaves behind when it raises (its draws are not kept), argument parsing by
  \<^verbatim>\<open>argparse\<close>, and concurrency (the code has none). The text of an \<open>OSError\<close> is that of
  a refused permission (\<open>os_error_str\<close>), the one failure the file model represents:
  opening an \<open>Unreadable\<close> entry fails, for reading and for writing
  (\<^verbatim>\<open>save_favorites\<close>, the CLI's \<^verbatim>\<open>write_file\<close>), while writing any other path
  succeeds, since a missing parent directory or a read-only directory is not in the model.
  For the same reason the \<^verbatim>\<open>os.remove\<close> of \<open>clear_exclusions\<close> always succeeds: the
  \<open>OSError\<close> it raises on a refused removal, which no handler of the menu loop catches
  and which would end \<^verbatim>\<open>main\<close>, is not a branch of the model. The one path the model does refuse
  is the empty file name, which \<^verbatim>\<open>save_output\<close> may pass to \<^verbatim>\<open>open\<close>: it fails with
  \<^verbatim>\<open>FileNotFoundError\<close> as Python's does.
\<close>

section \<open>Properties spanning components\<close>

lemma export_favorites_writes:
  assumes "load_favorites (files io) f \<noteq> []" and "files io out \<noteq> Some Unreadable"
  shows "files (export_favorites f out fmt io) out = Some (Text (format_output (load_favorites (files io) f) fmt))"
proof -
  have "files io f \<noteq> Some Unreadable"
    using assms(1) by (auto simp: load_favorites_def)
  then have "cli_load_favorites f io = (load_favorites (files io) f, io)"
    by (rule cli_load_favorites_ok)
  with assms show ?thesis
    by (simp add: export_favorites_def write_file_def)
qed

text \<open>
  C27: the CLI's \<^verbatim>\<open>--export-favorites\<close> with \<^verbatim>\<open>--format json\<close> writes a document from
  which a JSON reader recovers the stored favorites, in order, whenever there are favorites
  and the target can be written (favorites file, exporter and JSON encoder composed).
\<close>

theorem export_favorites_json_roundtrip:
  assumes "load_favorites (files io) f \<noteq> []" and "files io out \<noteq> Some Unreadable"
  shows "\<exists>s. files (export_favorites f out ''json'' io) out = Some (Text s) \<and>
             json_load_codenames s = Some (load_favorites (files io) f)"
  using export_favorites_writes [OF assms] json_load_dump by (simp add: format_output_def)

theorem export_favorites_json_roundtrip_witness:
  "load_favorites [''favorites.txt'' \<mapsto> Text ''Brave Tiger\<newline>''] ''favorites.txt'' \<noteq> [] \<and>
   [''favorites.txt'' \<mapsto> Text ''Brave Tiger\<newline>''] ''out.json'' \<noteq> Some Unreadable \<and>
   (\<exists>s. files (export_favorites ''favorites.txt'' ''out.json'' ''json''
            \<lparr>stdout = [], stderr = [], files = [''favorites.txt'' \<mapsto> Text ''Brave Tiger\<newline>'']\<rparr>) ''out.json'' = Some (Text s) \<and>
        json_load_codenames s = Some [''Brave Tiger''])"
proof -
  have l: "load_favorites [''favorites.txt'' \<mapsto> Text ''Brave Tiger\<newline>''] ''favorites.txt'' = [''Brave Tiger'']"
    by (simp add: load_favorites_def stripped_lines_def py_defs)
  have h1: "load_favorites (files \<lparr>stdout = [], stderr = [], files = [''favorites.txt'' \<mapsto> Text ''Brave Tiger\<newline>'']\<rparr>) ''favorites.txt'' \<noteq> []"
    using l by simp
  have h2: "files \<lparr>stdout = [], stderr = [], files = [''favorites.txt'' \<mapsto> Text ''Brave Tiger\<newline>'']\<rparr> ''out.json'' \<noteq> Some Unreadable"
    by simp
  show ?thesis using l export_favorites_json_roundtrip [OF h1 h2] by simp
qed

end
